theory Spec2Isabelle
  imports Complex_Main "HOL-Library.Finite_Map"
begin

section \<open>Data model\<close>

text \<open>
  The chunked upload coordinator exists twice in the server: a remote variant that
  forwards every chunk as a numbered part of an S3 multipart upload
  (\<^verbatim>\<open>ChunkUploadSession\<close>, \<^verbatim>\<open>uploadChunkHandler\<close>, ...) and a local-staging variant that
  appends every chunk to a temporary file (\<^verbatim>\<open>ChunkUploadSessionRClone\<close>,
  \<^verbatim>\<open>uploadChunkHandlerRClone\<close>, ...). Both keep their sessions in a process-wide Go map
  from session identifier to a pointer to the session object.

  Go maps are finite, so they are finite maps here and \<^verbatim>\<open>len(m)\<close> is the cardinality of
  the domain. A \<^verbatim>\<open>map[string]*T\<close> is a finite map to addresses together with a heap of
  \<^verbatim>\<open>T\<close> objects: a handler keeps the pointer it looked up, also after another request
  has deleted the map entry.
\<close>

type_synonym bytes = "char list"
type_synonym ptr = nat

definition len :: "('k, 'v) fmap \<Rightarrow> int" where
  "len m = int (fcard (fmdom m))"

record CompletePart =
  PartNumber :: int
  ETag :: string

record ChunkUploadSession =
  UploadID :: string
  FileName :: string
  TotalParts :: int
  UploadedParts :: "(int, CompletePart) fmap"
  StartTime :: int

text \<open>
  \<^verbatim>\<open>*os.File\<close>: the name the file was created under, the offset of the next write
  and whether \<^verbatim>\<open>Close\<close> has been called. The bytes live in the file system.
\<close>

record File =
  Name :: string
  offset :: nat
  closed :: bool

record ChunkUploadSessionRClone =
  SessionID :: string
  FileNameRClone :: string
  FilePath :: string
  TempFile :: File
  TotalPartsRClone :: int
  ReceivedParts :: "(int, bool) fmap"

subsection \<open>The object store\<close>

text \<open>
  Modelled from the spec: the object store behind \<^verbatim>\<open>coreClient\<close> (the minio-go client and
  the MinIO server are not part of the repository). The spec treats it as a capability
  with the operations "put part", "complete multipart" and "abort multipart": a part is
  addressed by upload handle and part number, putting a part again under the same number
  overwrites it, and completing converts the listed parts, in the order of the list, into
  one addressable object. Whether a call succeeds is decided by the environment (network,
  server); a failed call leaves the store as it was.
\<close>

record ObjectStore =
  uploads :: "string \<rightharpoonup> (int \<rightharpoonup> bytes)"
  objects :: "string \<rightharpoonup> bytes"

definition partsOf :: "ObjectStore \<Rightarrow> string \<Rightarrow> (int \<rightharpoonup> bytes)" where
  "partsOf s uploadID = (case uploads s uploadID of None \<Rightarrow> Map.empty | Some ps \<Rightarrow> ps)"

text \<open>Modelled from the spec: "create multipart upload"; the environment supplies the
  new upload handle, or \<open>None\<close> when the call fails.\<close>

definition NewMultipartUpload :: "string option \<Rightarrow> ObjectStore \<Rightarrow> (string \<times> ObjectStore) option" where
  "NewMultipartUpload outcome s =
     (case outcome of
        None \<Rightarrow> None
      | Some uploadID \<Rightarrow> Some (uploadID, s\<lparr>uploads := (uploads s)(uploadID \<mapsto> Map.empty)\<rparr>))"

text \<open>Modelled from the spec: "put part"; the environment supplies the completion tag
  (ETag) of the stored part, or \<open>None\<close> when the call fails.\<close>

definition PutObjectPart ::
  "string \<Rightarrow> int \<Rightarrow> bytes \<Rightarrow> string option \<Rightarrow> ObjectStore \<Rightarrow> (string \<times> ObjectStore) option" where
  "PutObjectPart uploadID partNumber content outcome s =
     (case outcome of
        None \<Rightarrow> None
      | Some etag \<Rightarrow>
          Some (etag, s\<lparr>uploads := (uploads s)(uploadID \<mapsto> (partsOf s uploadID)(partNumber \<mapsto> content))\<rparr>))"

definition partBytes :: "ObjectStore \<Rightarrow> string \<Rightarrow> CompletePart \<Rightarrow> bytes" where
  "partBytes s uploadID part =
     (case partsOf s uploadID (PartNumber part) of None \<Rightarrow> [] | Some content \<Rightarrow> content)"

text \<open>Modelled from the spec: "complete multipart"; on success the object is the
  concatenation of the listed parts and the upload handle is gone. A completion that
  lists no part is refused, whatever the environment says.\<close>

definition CompleteMultipartUpload ::
  "string \<Rightarrow> string \<Rightarrow> CompletePart list \<Rightarrow> bool \<Rightarrow> ObjectStore \<Rightarrow> ObjectStore option" where
  "CompleteMultipartUpload objectName uploadID parts ok s =
     (if ok \<and> parts \<noteq> []
      then Some (s\<lparr>objects := (objects s)(objectName \<mapsto> concat (map (partBytes s uploadID) parts)),
                   uploads := (uploads s)(uploadID := None)\<rparr>)
      else None)"

text \<open>Modelled from the spec: "abort multipart"; on success the upload handle and its
  parts are gone.\<close>

definition AbortMultipartUpload :: "string \<Rightarrow> bool \<Rightarrow> ObjectStore \<Rightarrow> ObjectStore option" where
  "AbortMultipartUpload uploadID ok s =
     (if ok then Some (s\<lparr>uploads := (uploads s)(uploadID := None)\<rparr>) else None)"

subsection \<open>Server state\<close>

text \<open>
  The two session maps with their heaps, the object store, and the file system the
  local-staging variant writes to. \<open>allocated\<close> counts the session objects allocated so
  far; a new object gets the next address.
\<close>

record server =
  uploadSessions :: "(string, ptr) fmap"
  sessions :: "ptr \<Rightarrow> ChunkUploadSession"
  uploadSessionsRClone :: "(string, ptr) fmap"
  sessionsRClone :: "ptr \<Rightarrow> ChunkUploadSessionRClone"
  allocated :: nat
  store :: ObjectStore
  files :: "string \<rightharpoonup> bytes"

subsection \<open>Responses\<close>

text \<open>
  Every \<^verbatim>\<open>http.Error\<close> of the handlers is a constructor, named after its message:
  \<open>MethodNotAllowed\<close> is status 405; \<open>InvalidRequestBody\<close>, \<open>FailedToParseForm\<close>,
  \<open>InvalidPartNumber\<close>, \<open>FailedToGetChunkFile\<close> and \<open>SessionIDRequired\<close> are 400;
  \<open>SessionNotFound\<close> is 404; the others are 500. In the words of the specification,
  \<open>FailedToUploadChunk\<close> and \<open>FailedToWriteChunk\<close> are the chunk persist failure of the
  remote and of the local path, \<open>FailedToCompleteUpload\<close> and \<open>FailedToFinalizeUpload\<close>
  the finalize failure.
\<close>

datatype http_error =
    MethodNotAllowed
  | InvalidRequestBody
  | FailedToParseForm
  | InvalidPartNumber
  | SessionIDRequired
  | FailedToGetChunkFile
  | SessionNotFound
  | FailedToInitiateUpload
  | FailedToUploadChunk
  | FailedToCompleteUpload
  | FailedToCreateDirectory
  | FailedToCreateTempFile
  | FailedToWriteChunk
  | FailedToFinalizeUpload

text \<open>
  \<^verbatim>\<open>float64\<close> as far as the progress computation needs it: a finite value (the exact
  quotient; rounding to the nearest double is not modelled), the infinities and NaN that
  a division by zero produces.
\<close>

datatype float64 = Finite real | PosInf | NegInf | NaN

definition fdiv :: "int \<Rightarrow> int \<Rightarrow> float64" where
  "fdiv a b =
     (if b = 0 then (if 0 < a then PosInf else if a < 0 then NegInf else NaN)
      else Finite (real_of_int a / real_of_int b))"

definition fmul100 :: "float64 \<Rightarrow> float64" where
  "fmul100 x = (case x of Finite r \<Rightarrow> Finite (r * 100) | PosInf \<Rightarrow> PosInf | NegInf \<Rightarrow> NegInf | NaN \<Rightarrow> NaN)"

text \<open>\<^verbatim>\<open>float64(uploadedCount) / float64(session.TotalParts) * 100\<close>\<close>

definition progressOf :: "int \<Rightarrow> int \<Rightarrow> float64" where
  "progressOf uploadedCount totalParts = fmul100 (fdiv uploadedCount totalParts)"

text \<open>
  The JSON bodies of the successful responses: \<open>Initiated sessionID uploadID\<close>,
  \<open>ChunkUploaded sessionID partNumber progress\<close>, \<open>UploadCompleted\<close> (progress 100)
  and \<open>UploadAborted\<close>. The local-staging variant has no upload handle to report.
  \<open>EmptyBody\<close> is status 200 with no body at all: what the client receives when the
  handler returns without having written anything.
\<close>

datatype response =
    Initiated string "string option"
  | ChunkUploaded string int float64
  | UploadCompleted
  | UploadAborted
  | EmptyBody

text \<open>
  \<^verbatim>\<open>json.NewEncoder(w).Encode(v)\<close> marshals \<open>v\<close> into a buffer and writes the buffer to
  the response only if marshalling succeeded. JSON has no infinities and no NaN:
  marshalling a \<^verbatim>\<open>float64\<close> that is not finite is an error, nothing is written, and the
  handlers ignore the error. The progress of a chunk reply is the only field that can
  take such a value (the other replies hold the constant 100 or no number).
\<close>

definition Encode :: "response \<Rightarrow> response" where
  "Encode v =
     (case v of
        ChunkUploaded sessionID partNumber progress \<Rightarrow>
          (case progress of Finite x \<Rightarrow> v | _ \<Rightarrow> EmptyBody)
      | _ \<Rightarrow> v)"

type_synonym result = "(http_error + response) \<times> server"

section \<open>Remote-part path\<close>

subsection \<open>Requests\<close>

text \<open>
  A request record holds what the handler reads from the HTTP request; a call record
  extends it with what the environment contributes while the request is served: the
  identifier \<^verbatim>\<open>uuid.New()\<close> returns, the clock, the outcome of each call to the store.
  \<open>part_number\<close> is the result of \<^verbatim>\<open>strconv.Atoi\<close> on the form value (\<open>None\<close> when it
  reports an error): every integer it returns is taken as it is. \<open>chunk\<close> is the
  uploaded form file (\<open>None\<close> when \<^verbatim>\<open>r.FormFile\<close> fails).
\<close>

record InitiateMultipartRequest =
  filename :: string
  total_parts :: int
  file_size :: int
  path :: string

record InitiateRequest =
  iMethod :: string
  body :: "InitiateMultipartRequest option"
  new_session_id :: string

record InitiateCall = InitiateRequest +
  new_upload :: "string option"
  now :: int

record ChunkRequest =
  cMethod :: string
  form_ok :: bool
  session_id :: string
  part_number :: "int option"
  chunk :: "bytes option"

record ChunkCall = ChunkRequest +
  put_result :: "string option"
  complete_ok :: bool

record AbortRequest =
  aMethod :: string
  query_session_id :: string

record AbortCall = AbortRequest +
  abort_ok :: bool

subsection \<open>initiateMultipartHandler\<close>

text \<open>
  The object key is computed from the request's path and file name with
  \<^verbatim>\<open>filepath.Clean\<close>, \<^verbatim>\<open>path.Join\<close> and \<^verbatim>\<open>strings.TrimPrefix\<close>. The functions of the Go
  library that build paths are parameters of the handlers, collected in a record.
\<close>

record golib =
  filepath_Clean :: "string \<Rightarrow> string"
  path_Join :: "string \<Rightarrow> string \<Rightarrow> string"
  filepath_Join :: "string list \<Rightarrow> string"

definition TrimPrefix :: "string \<Rightarrow> string \<Rightarrow> string" where
  "TrimPrefix s prefix =
     (if take (length prefix) s = prefix then drop (length prefix) s else s)"

definition objectKeyOf :: "golib \<Rightarrow> InitiateMultipartRequest \<Rightarrow> string" where
  "objectKeyOf lib req =
     (let uploadPath = (if path req = [] then ''/'' else path req);
          objectKey = (if uploadPath = ''/'' \<or> uploadPath = [] then filename req
                       else path_Join lib (TrimPrefix (filepath_Clean lib uploadPath) ''/'') (filename req))
      in TrimPrefix objectKey ''/'')"

definition initiateMultipartHandler :: "golib \<Rightarrow> InitiateCall \<Rightarrow> server \<Rightarrow> result" where
  "initiateMultipartHandler lib c st =
     (if iMethod c \<noteq> ''POST'' then (Inl MethodNotAllowed, st)
      else case body c of
        None \<Rightarrow> (Inl InvalidRequestBody, st)
      | Some req \<Rightarrow>
         (case NewMultipartUpload (new_upload c) (store st) of
            None \<Rightarrow> (Inl FailedToInitiateUpload, st)
          | Some (uploadID, store') \<Rightarrow>
             (let sessionID = new_session_id c;
                  session = \<lparr>UploadID = uploadID,
                             FileName = objectKeyOf lib req,
                             TotalParts = total_parts req,
                             UploadedParts = fmempty,
                             StartTime = now c\<rparr>;
                  p = allocated st
              in (Inr (Initiated sessionID (Some uploadID)),
                  st\<lparr>store := store',
                     allocated := Suc p,
                     sessions := (sessions st)(p := session),
                     uploadSessions := fmupd sessionID p (uploadSessions st)\<rparr>))))"

subsection \<open>uploadChunkHandler and completeMultipartUpload\<close>

text \<open>
  The parts list is built by the loop \<^verbatim>\<open>for i := 1; i <= session.TotalParts; i++\<close>, which
  appends the entry of every \<open>i\<close> that is in the map and skips the others. (The loop
  is reached with \<open>TotalParts = len(UploadedParts)\<close> only, far below the range of
  \<^verbatim>\<open>int\<close>, so the counter is an unbounded integer here.)
\<close>

definition partsList :: "ChunkUploadSession \<Rightarrow> CompletePart list" where
  "partsList session = List.map_filter (fmlookup (UploadedParts session)) [1..TotalParts session]"

definition completeMultipartUpload :: "string \<Rightarrow> ptr \<Rightarrow> bool \<Rightarrow> server \<Rightarrow> result" where
  "completeMultipartUpload sessionID p ok st =
     (let session = sessions st p
      in case CompleteMultipartUpload (FileName session) (UploadID session) (partsList session) ok (store st) of
           None \<Rightarrow> (Inl FailedToCompleteUpload, st)
         | Some store' \<Rightarrow>
             (Inr UploadCompleted,
              st\<lparr>store := store', uploadSessions := fmdrop sessionID (uploadSessions st)\<rparr>))"

text \<open>The statements between \<^verbatim>\<open>session.mu.Lock()\<close> and \<^verbatim>\<open>session.mu.Unlock()\<close>: the
  part is stored in the map and the map's length is read.\<close>

definition recordPart :: "ptr \<Rightarrow> int \<Rightarrow> string \<Rightarrow> server \<Rightarrow> server" where
  "recordPart p partNumber etag st =
     st\<lparr>sessions := (sessions st)
          (p := (sessions st p)\<lparr>UploadedParts :=
                   fmupd partNumber \<lparr>PartNumber = partNumber, ETag = etag\<rparr>
                     (UploadedParts (sessions st p))\<rparr>)\<rparr>"

definition uploadedCountOf :: "ptr \<Rightarrow> server \<Rightarrow> int" where
  "uploadedCountOf p st = len (UploadedParts (sessions st p))"

text \<open>After the unlock: the progress value, and the call of
  \<^verbatim>\<open>completeMultipartUpload\<close> when the count read under the lock equals \<open>TotalParts\<close>.\<close>

definition afterRecord :: "string \<Rightarrow> ptr \<Rightarrow> int \<Rightarrow> int \<Rightarrow> bool \<Rightarrow> server \<Rightarrow> result" where
  "afterRecord sessionID p partNumber uploadedCount ok st =
     (if uploadedCount = TotalParts (sessions st p)
      then completeMultipartUpload sessionID p ok st
      else (Inr (Encode (ChunkUploaded sessionID partNumber
                           (progressOf uploadedCount (TotalParts (sessions st p))))), st))"

text \<open>Before the session is touched: the request is parsed and the session looked up
  in the map (under the read lock of the map).\<close>

definition findSession :: "ChunkCall \<Rightarrow> server \<Rightarrow> http_error + (ptr \<times> int)" where
  "findSession c st =
     (if cMethod c \<noteq> ''POST'' then Inl MethodNotAllowed
      else if \<not> form_ok c then Inl FailedToParseForm
      else case part_number c of
        None \<Rightarrow> Inl InvalidPartNumber
      | Some partNumber \<Rightarrow>
         (case fmlookup (uploadSessions st) (session_id c) of
            None \<Rightarrow> Inl SessionNotFound
          | Some p \<Rightarrow> Inr (p, partNumber)))"

text \<open>The chunk is read from the form and put to the store as part \<open>partNumber\<close>; no
  lock is held.\<close>

definition putPart :: "ChunkCall \<Rightarrow> ptr \<Rightarrow> int \<Rightarrow> server \<Rightarrow> http_error + (string \<times> server)" where
  "putPart c p partNumber st =
     (case chunk c of
        None \<Rightarrow> Inl FailedToGetChunkFile
      | Some file \<Rightarrow>
         (case PutObjectPart (UploadID (sessions st p)) partNumber file (put_result c) (store st) of
            None \<Rightarrow> Inl FailedToUploadChunk
          | Some (etag, store') \<Rightarrow> Inr (etag, st\<lparr>store := store'\<rparr>)))"

definition uploadChunkHandler :: "ChunkCall \<Rightarrow> server \<Rightarrow> result" where
  "uploadChunkHandler c st =
     (case findSession c st of
        Inl e \<Rightarrow> (Inl e, st)
      | Inr (p, partNumber) \<Rightarrow>
         (case putPart c p partNumber st of
            Inl e \<Rightarrow> (Inl e, st)
          | Inr (etag, st1) \<Rightarrow>
             (let st2 = recordPart p partNumber etag st1
              in afterRecord (session_id c) p partNumber (uploadedCountOf p st2) (complete_ok c) st2)))"

subsection \<open>abortMultipartHandler\<close>

text \<open>A failing \<^verbatim>\<open>AbortMultipartUpload\<close> is logged; the response is the same.\<close>

definition releaseUpload :: "string \<Rightarrow> bool \<Rightarrow> server \<Rightarrow> server" where
  "releaseUpload uploadID ok st =
     (case AbortMultipartUpload uploadID ok (store st) of
        None \<Rightarrow> st
      | Some store' \<Rightarrow> st\<lparr>store := store'\<rparr>)"

definition abortMultipartHandler :: "AbortCall \<Rightarrow> server \<Rightarrow> result" where
  "abortMultipartHandler c st =
     (if aMethod c \<noteq> ''POST'' then (Inl MethodNotAllowed, st)
      else if query_session_id c = [] then (Inl SessionIDRequired, st)
      else case fmlookup (uploadSessions st) (query_session_id c) of
        None \<Rightarrow> (Inl SessionNotFound, st)
      | Some p \<Rightarrow>
          (Inr UploadAborted,
           releaseUpload (UploadID (sessions st p)) (abort_ok c)
             (st\<lparr>uploadSessions := fmdrop (query_session_id c) (uploadSessions st)\<rparr>)))"

subsection \<open>cleanupOldSessions\<close>

text \<open>
  Instants are nanoseconds on the server's clock. \<^verbatim>\<open>time.Since(t)\<close> is
  \<^verbatim>\<open>time.Now().Sub(t)\<close>, a \<^verbatim>\<open>Duration\<close>: a 64-bit count of nanoseconds, and \<^verbatim>\<open>Sub\<close>
  returns the largest or smallest duration when the difference does not fit.
\<close>

definition maxDuration :: int where
  "maxDuration = 2 ^ 63 - 1"

definition minDuration :: int where
  "minDuration = - (2 ^ 63)"

definition Sub :: "int \<Rightarrow> int \<Rightarrow> int" where
  "Sub t u =
     (if maxDuration < t - u then maxDuration
      else if t - u < minDuration then minDuration
      else t - u)"

definition Hour :: int where
  "Hour = 60 * (60 * (1000 * (1000 * 1000)))"

text \<open>
  One round of the ticker loop ranges over \<^verbatim>\<open>uploadSessions\<close>. The order in which a Go
  \<^verbatim>\<open>range\<close> yields the keys of a map is not specified, and the clock is read anew for
  every session; a pass is therefore given by the list of its visits: the key yielded,
  the clock at that moment, and whether the store's abort call succeeds (its result is
  discarded). The body of the loop is \<open>sweepSession\<close>.
\<close>

record Visit =
  visit_id :: string
  clock :: int
  visit_abort_ok :: bool

definition expired :: "int \<Rightarrow> ChunkUploadSession \<Rightarrow> bool" where
  "expired t session \<longleftrightarrow> 24 * Hour < Sub t (StartTime session)"

definition sweepSession :: "Visit \<Rightarrow> server \<Rightarrow> server" where
  "sweepSession v st =
     (case fmlookup (uploadSessions st) (visit_id v) of
        None \<Rightarrow> st
      | Some p \<Rightarrow>
          if expired (clock v) (sessions st p)
          then (let st1 = releaseUpload (UploadID (sessions st p)) (visit_abort_ok v) st
                in st1\<lparr>uploadSessions := fmdrop (visit_id v) (uploadSessions st1)\<rparr>)
          else st)"

definition cleanupOldSessions :: "Visit list \<Rightarrow> server \<Rightarrow> server" where
  "cleanupOldSessions visits st = fold sweepSession visits st"

text \<open>
  \<^verbatim>\<open>for id, session := range uploadSessions\<close> yields every key of the map once (the loop
  holds the write lock of the map, and its body deletes no key but the one it was
  given): the visits of a pass that starts in state \<open>st\<close> are the keys of
  \<open>uploadSessions st\<close>, each once, in some order.
\<close>

definition rangeOver :: "Visit list \<Rightarrow> server \<Rightarrow> bool" where
  "rangeOver visits st \<longleftrightarrow>
     distinct (map visit_id visits) \<and> set (map visit_id visits) = fmdom' (uploadSessions st)"

section \<open>Local-staging path\<close>

subsection \<open>The file system\<close>

text \<open>
  A write through an \<^verbatim>\<open>*os.File\<close> goes to the file's current offset and advances it;
  the temporary file is opened by \<^verbatim>\<open>os.CreateTemp\<close> without \<^verbatim>\<open>O_APPEND\<close>. \<open>fileWrite\<close> is
  \<^verbatim>\<open>io.Copy(f, src)\<close>: the environment lets the copy succeed (\<open>None\<close>) or fail after
  some bytes (\<open>Some k\<close>). For an empty source the copy loop ends at the first read
  and never calls \<^verbatim>\<open>Write\<close>, so the file is not touched, not even looked at: the copy
  of an empty chunk to a closed file returns no error. A closed file takes no byte of
  a chunk that has some. The result says whether the copy succeeded.
\<close>

definition writeAt :: "nat \<Rightarrow> bytes \<Rightarrow> bytes \<Rightarrow> bytes" where
  "writeAt off content old =
     take off (old @ replicate (off - length old) (CHR 0x00)) @ content @ drop (off + length content) old"

definition fileWrite ::
  "File \<Rightarrow> bytes \<Rightarrow> nat option \<Rightarrow> (string \<rightharpoonup> bytes) \<Rightarrow> bool \<times> File \<times> (string \<rightharpoonup> bytes)" where
  "fileWrite f content failure fs =
     (if content = [] then (failure = None, f, fs)
      else if closed f then (False, f, fs)
      else
        (let written = (case failure of None \<Rightarrow> content | Some k \<Rightarrow> take k content);
             fs' = (case fs (Name f) of
                      None \<Rightarrow> fs
                    | Some old \<Rightarrow> fs(Name f \<mapsto> writeAt (offset f) written old))
         in (failure = None, f\<lparr>offset := offset f + length written\<rparr>, fs')))"

subsection \<open>Requests\<close>

record InitiateCallRClone = InitiateRequest +
  mkdir_ok :: bool
  new_temp :: "string option"

record ChunkCallRClone = ChunkRequest +
  write_error :: "nat option"
  close_ok :: bool
  rename_ok :: bool
  copy_open_ok :: bool
  copy_create_ok :: bool
  copy_error :: "nat option"
  copy_remove_ok :: bool

record AbortCallRClone = AbortRequest +
  remove_ok :: bool

subsection \<open>initiateMultipartHandlerRClone\<close>

definition STORAGE_MOUNT :: string where
  "STORAGE_MOUNT = ''/storage''"

definition targetPathOf :: "golib \<Rightarrow> InitiateMultipartRequest \<Rightarrow> string" where
  "targetPathOf lib req =
     (let uploadPath = (if path req = [] then ''/'' else path req)
      in if uploadPath = ''/'' \<or> uploadPath = [] then filepath_Join lib [STORAGE_MOUNT, filename req]
         else filepath_Join lib
                [STORAGE_MOUNT, TrimPrefix (filepath_Clean lib uploadPath) ''/'', filename req])"

text \<open>\<open>mkdir_ok\<close> is the outcome of \<^verbatim>\<open>os.MkdirAll\<close> on the target directory
  (directories are not part of the file system modelled here), \<open>new_temp\<close> the name of
  the file \<^verbatim>\<open>os.CreateTemp\<close> creates, or \<open>None\<close> when it fails.\<close>

definition initiateMultipartHandlerRClone :: "golib \<Rightarrow> InitiateCallRClone \<Rightarrow> server \<Rightarrow> result" where
  "initiateMultipartHandlerRClone lib c st =
     (if iMethod c \<noteq> ''POST'' then (Inl MethodNotAllowed, st)
      else case body c of
        None \<Rightarrow> (Inl InvalidRequestBody, st)
      | Some req \<Rightarrow>
         (if \<not> mkdir_ok c then (Inl FailedToCreateDirectory, st)
          else case new_temp c of
            None \<Rightarrow> (Inl FailedToCreateTempFile, st)
          | Some tmp \<Rightarrow>
             (let sessionID = new_session_id c;
                  session = \<lparr>SessionID = sessionID,
                             FileNameRClone = filename req,
                             FilePath = targetPathOf lib req,
                             TempFile = \<lparr>Name = tmp, offset = 0, closed = False\<rparr>,
                             TotalPartsRClone = total_parts req,
                             ReceivedParts = fmempty\<rparr>;
                  p = allocated st
              in (Inr (Initiated sessionID None),
                  st\<lparr>files := (files st)(tmp \<mapsto> []),
                     allocated := Suc p,
                     sessionsRClone := (sessionsRClone st)(p := session),
                     uploadSessionsRClone := fmupd sessionID p (uploadSessionsRClone st)\<rparr>))))"

subsection \<open>finalizeRCloneUpload and copyFile\<close>

text \<open>
  \<open>copyFile src dst\<close>: open the source, create (and truncate) the destination, copy,
  remove the source. The first error is returned (\<open>False\<close>), with the files as they are
  at that point.
\<close>

definition copyFile :: "string \<Rightarrow> string \<Rightarrow> ChunkCallRClone \<Rightarrow> (string \<rightharpoonup> bytes) \<Rightarrow> bool \<times> (string \<rightharpoonup> bytes)" where
  "copyFile src dst c fs =
     (if \<not> copy_open_ok c \<or> fs src = None then (False, fs)
      else if \<not> copy_create_ok c then (False, fs)
      else
        (let fs1 = fs(dst \<mapsto> []);
             content = (case fs1 src of None \<Rightarrow> [] | Some b \<Rightarrow> b)
         in case copy_error c of
              Some k \<Rightarrow> (False, fs1(dst \<mapsto> take k content))
            | None \<Rightarrow>
                (let fs2 = fs1(dst \<mapsto> content)
                 in if copy_remove_ok c then (True, fs2(src := None)) else (False, fs2))))"

text \<open>
  \<open>finalizeRCloneUpload\<close>: close the temporary file (an error if it is closed already
  or if the environment lets the close fail; the descriptor is released either way),
  rename it to the target path, and fall back to \<open>copyFile\<close> when the rename fails. The
  result says whether the returned error is \<^verbatim>\<open>nil\<close>.
\<close>

definition finalizeRCloneUpload :: "ptr \<Rightarrow> ChunkCallRClone \<Rightarrow> server \<Rightarrow> bool \<times> server" where
  "finalizeRCloneUpload p c st =
     (let session = sessionsRClone st p;
          f = TempFile session
      in if closed f then (False, st)
         else
           (let st1 = st\<lparr>sessionsRClone := (sessionsRClone st)(p := session\<lparr>TempFile := f\<lparr>closed := True\<rparr>\<rparr>)\<rparr>
            in if \<not> close_ok c then (False, st1)
               else case files st1 (Name f) of
                      Some content \<Rightarrow>
                        if rename_ok c
                        then (True, st1\<lparr>files := ((files st1)(Name f := None))(FilePath session \<mapsto> content)\<rparr>)
                        else (case copyFile (Name f) (FilePath session) c (files st1) of
                                (ok, fs') \<Rightarrow> (ok, st1\<lparr>files := fs'\<rparr>))
                    | None \<Rightarrow>
                        (case copyFile (Name f) (FilePath session) c (files st1) of
                           (ok, fs') \<Rightarrow> (ok, st1\<lparr>files := fs'\<rparr>))))"

subsection \<open>uploadChunkHandlerRClone\<close>

text \<open>The statements between \<^verbatim>\<open>session.mu.Lock()\<close> and \<^verbatim>\<open>session.mu.Unlock()\<close>: the
  chunk is copied to the temporary file, the part number is stored in the map whatever
  the copy returned, and the map's length is read.\<close>

definition receivePart :: "ptr \<Rightarrow> int \<Rightarrow> bytes \<Rightarrow> nat option \<Rightarrow> server \<Rightarrow> bool \<times> server" where
  "receivePart p partNumber content failure st =
     (let session = sessionsRClone st p
      in case fileWrite (TempFile session) content failure (files st) of
           (ok, f', fs') \<Rightarrow>
             (ok, st\<lparr>files := fs',
                     sessionsRClone := (sessionsRClone st)
                       (p := session\<lparr>TempFile := f',
                                     ReceivedParts := fmupd partNumber True (ReceivedParts session)\<rparr>)\<rparr>))"

definition receivedCountOf :: "ptr \<Rightarrow> server \<Rightarrow> int" where
  "receivedCountOf p st = len (ReceivedParts (sessionsRClone st p))"

text \<open>The branch taken when the count equals \<open>TotalParts\<close>: finalize, and delete the
  session from the map if finalize returned no error.\<close>

definition completeRClone :: "string \<Rightarrow> ptr \<Rightarrow> ChunkCallRClone \<Rightarrow> server \<Rightarrow> result" where
  "completeRClone sessionID p c st =
     (case finalizeRCloneUpload p c st of
        (False, st') \<Rightarrow> (Inl FailedToFinalizeUpload, st')
      | (True, st') \<Rightarrow>
          (Inr UploadCompleted,
           st'\<lparr>uploadSessionsRClone := fmdrop sessionID (uploadSessionsRClone st')\<rparr>))"

definition uploadChunkHandlerRClone :: "ChunkCallRClone \<Rightarrow> server \<Rightarrow> result" where
  "uploadChunkHandlerRClone c st =
     (if cMethod c \<noteq> ''POST'' then (Inl MethodNotAllowed, st)
      else if \<not> form_ok c then (Inl FailedToParseForm, st)
      else case part_number c of
        None \<Rightarrow> (Inl InvalidPartNumber, st)
      | Some partNumber \<Rightarrow>
         (case fmlookup (uploadSessionsRClone st) (session_id c) of
            None \<Rightarrow> (Inl SessionNotFound, st)
          | Some p \<Rightarrow>
             (case chunk c of
                None \<Rightarrow> (Inl FailedToGetChunkFile, st)
              | Some file \<Rightarrow>
                 (case receivePart p partNumber file (write_error c) st of
                    (written, st1) \<Rightarrow>
                      (let receivedCount = receivedCountOf p st1
                       in if \<not> written then (Inl FailedToWriteChunk, st1)
                          else if receivedCount = TotalPartsRClone (sessionsRClone st1 p)
                          then completeRClone (session_id c) p c st1
                          else (Inr (Encode (ChunkUploaded (session_id c) partNumber
                                               (progressOf receivedCount
                                                  (TotalPartsRClone (sessionsRClone st1 p))))),
                                st1))))))"

subsection \<open>abortMultipartHandlerRClone\<close>

text \<open>The temporary file is closed and removed (both results are discarded), then the
  session is deleted from the map.\<close>

definition abortMultipartHandlerRClone :: "AbortCallRClone \<Rightarrow> server \<Rightarrow> result" where
  "abortMultipartHandlerRClone c st =
     (if aMethod c \<noteq> ''POST'' then (Inl MethodNotAllowed, st)
      else if query_session_id c = [] then (Inl SessionIDRequired, st)
      else case fmlookup (uploadSessionsRClone st) (query_session_id c) of
        None \<Rightarrow> (Inl SessionNotFound, st)
      | Some p \<Rightarrow>
          (let session = sessionsRClone st p;
               f = TempFile session
           in (Inr UploadAborted,
               st\<lparr>sessionsRClone := (sessionsRClone st)(p := session\<lparr>TempFile := f\<lparr>closed := True\<rparr>\<rparr>),
                  files := (if remove_ok c then (files st)(Name f := None) else files st),
                  uploadSessionsRClone := fmdrop (query_session_id c) (uploadSessionsRClone st)\<rparr>)))"

section \<open>Requests served one after another\<close>

text \<open>
  A run of the server in which no two handlers overlap: the calls are served in the
  order of the list, each to its end. A sweep is a call of its own and sends no reply.
\<close>

datatype call =
    Initiate InitiateCall
  | Chunk ChunkCall
  | Abort AbortCall
  | Sweep "Visit list"
  | InitiateRClone InitiateCallRClone
  | ChunkRClone ChunkCallRClone
  | AbortRClone AbortCallRClone

definition replied :: "result \<Rightarrow> (http_error + response) option \<times> server" where
  "replied r = (Some (fst r), snd r)"

definition serveCall :: "golib \<Rightarrow> call \<Rightarrow> server \<Rightarrow> (http_error + response) option \<times> server" where
  "serveCall lib x st =
     (case x of
        Initiate c \<Rightarrow> replied (initiateMultipartHandler lib c st)
      | Chunk c \<Rightarrow> replied (uploadChunkHandler c st)
      | Abort c \<Rightarrow> replied (abortMultipartHandler c st)
      | Sweep visits \<Rightarrow> (None, cleanupOldSessions visits st)
      | InitiateRClone c \<Rightarrow> replied (initiateMultipartHandlerRClone lib c st)
      | ChunkRClone c \<Rightarrow> replied (uploadChunkHandlerRClone c st)
      | AbortRClone c \<Rightarrow> replied (abortMultipartHandlerRClone c st))"

fun serveAll :: "golib \<Rightarrow> call list \<Rightarrow> server \<Rightarrow> (http_error + response) option list \<times> server" where
  "serveAll lib [] st = ([], st)"
| "serveAll lib (x # xs) st =
     (case serveCall lib x st of
        (r, st1) \<Rightarrow> (case serveAll lib xs st1 of (rs, st2) \<Rightarrow> (r # rs, st2)))"

text \<open>
  For stating properties of a run: whether a call is a chunk upload for a given session
  identifier, whether it is an initiation that issues that identifier, and how many
  chunk uploads for the identifier were answered \<open>UploadCompleted\<close>.
\<close>

definition isChunkFor :: "string \<Rightarrow> call \<Rightarrow> bool" where
  "isChunkFor sid x = (case x of Chunk c \<Rightarrow> session_id c = sid | _ \<Rightarrow> False)"

definition isChunkRCloneFor :: "string \<Rightarrow> call \<Rightarrow> bool" where
  "isChunkRCloneFor sid x = (case x of ChunkRClone c \<Rightarrow> session_id c = sid | _ \<Rightarrow> False)"

definition issues :: "string \<Rightarrow> call \<Rightarrow> bool" where
  "issues sid x = (case x of Initiate c \<Rightarrow> new_session_id c = sid | _ \<Rightarrow> False)"

definition issuesRClone :: "string \<Rightarrow> call \<Rightarrow> bool" where
  "issuesRClone sid x = (case x of InitiateRClone c \<Rightarrow> new_session_id c = sid | _ \<Rightarrow> False)"

definition completions ::
  "string \<Rightarrow> call list \<Rightarrow> (http_error + response) option list \<Rightarrow> nat" where
  "completions sid calls replies =
     length (filter (\<lambda>(x, r). isChunkFor sid x \<and> r = Some (Inr UploadCompleted)) (zip calls replies))"

definition completionsRClone ::
  "string \<Rightarrow> call list \<Rightarrow> (http_error + response) option list \<Rightarrow> nat" where
  "completionsRClone sid calls replies =
     length (filter (\<lambda>(x, r). isChunkRCloneFor sid x \<and> r = Some (Inr UploadCompleted)) (zip calls replies))"

text \<open>
  A chunk upload for session \<open>sid\<close> that passes every check of the handler and whose
  store calls succeed, with its part number and its bytes.
\<close>

definition succeeds :: "string \<Rightarrow> ChunkCall \<Rightarrow> bool" where
  "succeeds sid c \<longleftrightarrow>
     cMethod c = ''POST'' \<and> form_ok c \<and> session_id c = sid \<and> part_number c \<noteq> None \<and>
     chunk c \<noteq> None \<and> put_result c \<noteq> None \<and> complete_ok c"

definition partNumberOf :: "ChunkCall \<Rightarrow> int" where
  "partNumberOf c = (case part_number c of None \<Rightarrow> 0 | Some n \<Rightarrow> n)"

definition chunkOf :: "ChunkCall \<Rightarrow> bytes" where
  "chunkOf c = (case chunk c of None \<Rightarrow> [] | Some content \<Rightarrow> content)"

text \<open>The bytes a list of uploads sends under part number \<open>i\<close> (none: the empty chunk).\<close>

definition sentAs :: "ChunkCall list \<Rightarrow> int \<Rightarrow> bytes" where
  "sentAs cs i =
     (case map_of (map (\<lambda>c. (partNumberOf c, chunkOf c)) cs) i of None \<Rightarrow> [] | Some content \<Rightarrow> content)"

text \<open>
  The staging file of the local session at \<open>p\<close> is open, holds \<open>content\<close>, and the
  offset of the next write is its end: what \<^verbatim>\<open>os.CreateTemp\<close> establishes for the empty
  file and, as shown below, what every copy of a chunk keeps.
\<close>

definition staged :: "server \<Rightarrow> ptr \<Rightarrow> bytes \<Rightarrow> bool" where
  "staged st p content \<longleftrightarrow>
     \<not> closed (TempFile (sessionsRClone st p)) \<and>
     files st (Name (TempFile (sessionsRClone st p))) = Some content \<and>
     offset (TempFile (sessionsRClone st p)) = length content"

section \<open>Chunk uploads served concurrently\<close>

text \<open>
  The Go HTTP server runs every request in a goroutine of its own, so calls of the
  chunk handlers for one session interleave. A thread is a handler's position with its
  local variables. For \<^verbatim>\<open>uploadChunkHandler\<close>: \<open>Arrived\<close> before the lookup, \<open>Found\<close> with
  the session pointer, \<open>Stored\<close> after the part was put (waiting for \<^verbatim>\<open>session.mu\<close>),
  \<open>Locked\<close> holding the mutex, \<open>Counted\<close> after \<^verbatim>\<open>session.mu.Unlock()\<close> with the count it
  read, and \<open>Done\<close> with the reply. For \<^verbatim>\<open>uploadChunkHandlerRClone\<close>: \<open>ArrivedRClone\<close>
  before the lookup, \<open>FoundRClone\<close> with the session pointer, \<open>ReadyRClone\<close> with the
  form file (waiting for \<^verbatim>\<open>session.mu\<close>), \<open>LockedRClone\<close> holding the mutex,
  \<open>CountedRClone\<close> after the unlock with the error of the copy and the count it read.
  One step of a thread runs the handler up to its next position; a thread waiting for a
  mutex that is held does not move. The steps are coarser than Go's memory operations,
  so every run of this model is a run of the handlers.
\<close>

datatype thread =
    Arrived ChunkCall
  | Found ChunkCall ptr int
  | Stored ChunkCall ptr int string
  | Locked ChunkCall ptr int string
  | Counted ChunkCall ptr int int
  | ArrivedRClone ChunkCallRClone
  | FoundRClone ChunkCallRClone ptr int
  | ReadyRClone ChunkCallRClone ptr int bytes
  | LockedRClone ChunkCallRClone ptr int bytes
  | CountedRClone ChunkCallRClone ptr int bool int
  | Done "http_error + response"

text \<open>
  The positions of \<^verbatim>\<open>uploadChunkHandlerRClone\<close> cut the handler into the lookup, the
  statements under the mutex (\<open>receivePart\<close>) and what follows the unlock.
\<close>

definition findSessionRClone :: "ChunkCallRClone \<Rightarrow> server \<Rightarrow> http_error + (ptr \<times> int)" where
  "findSessionRClone c st =
     (if cMethod c \<noteq> ''POST'' then Inl MethodNotAllowed
      else if \<not> form_ok c then Inl FailedToParseForm
      else case part_number c of
        None \<Rightarrow> Inl InvalidPartNumber
      | Some partNumber \<Rightarrow>
         (case fmlookup (uploadSessionsRClone st) (session_id c) of
            None \<Rightarrow> Inl SessionNotFound
          | Some p \<Rightarrow> Inr (p, partNumber)))"

definition afterReceive ::
  "string \<Rightarrow> ptr \<Rightarrow> int \<Rightarrow> bool \<Rightarrow> int \<Rightarrow> ChunkCallRClone \<Rightarrow> server \<Rightarrow> result" where
  "afterReceive sessionID p partNumber written receivedCount c st =
     (if \<not> written then (Inl FailedToWriteChunk, st)
      else if receivedCount = TotalPartsRClone (sessionsRClone st p)
      then completeRClone sessionID p c st
      else (Inr (Encode (ChunkUploaded sessionID partNumber
                           (progressOf receivedCount (TotalPartsRClone (sessionsRClone st p))))),
            st))"

text \<open>
  The shared state, the mutexes of the remote and of the local-staging session objects
  (the thread that holds each), and the threads. \<open>finalizes\<close> and \<open>finalizesRClone\<close> are
  logs for stating properties: they record each call of \<^verbatim>\<open>completeMultipartUpload\<close> and
  of \<^verbatim>\<open>finalizeRCloneUpload\<close> with the thread, the session identifier, and whether the
  thread holds the session's mutex at that moment.
\<close>

record config =
  shared :: server
  mu :: "ptr \<rightharpoonup> nat"
  muRClone :: "ptr \<rightharpoonup> nat"
  pool :: "nat \<rightharpoonup> thread"
  finalizes :: "(nat \<times> string \<times> bool) list"
  finalizesRClone :: "(nat \<times> string \<times> bool) list"

definition stepThread :: "nat \<Rightarrow> config \<Rightarrow> config" where
  "stepThread t cfg =
     (case pool cfg t of
        None \<Rightarrow> cfg
      | Some (Arrived c) \<Rightarrow>
          (case findSession c (shared cfg) of
             Inl e \<Rightarrow> cfg\<lparr>pool := (pool cfg)(t \<mapsto> Done (Inl e))\<rparr>
           | Inr (p, partNumber) \<Rightarrow> cfg\<lparr>pool := (pool cfg)(t \<mapsto> Found c p partNumber)\<rparr>)
      | Some (Found c p partNumber) \<Rightarrow>
          (case putPart c p partNumber (shared cfg) of
             Inl e \<Rightarrow> cfg\<lparr>pool := (pool cfg)(t \<mapsto> Done (Inl e))\<rparr>
           | Inr (etag, st') \<Rightarrow>
               cfg\<lparr>shared := st', pool := (pool cfg)(t \<mapsto> Stored c p partNumber etag)\<rparr>)
      | Some (Stored c p partNumber etag) \<Rightarrow>
          (case mu cfg p of
             Some holder \<Rightarrow> cfg
           | None \<Rightarrow>
               cfg\<lparr>mu := (mu cfg)(p \<mapsto> t), pool := (pool cfg)(t \<mapsto> Locked c p partNumber etag)\<rparr>)
      | Some (Locked c p partNumber etag) \<Rightarrow>
          (let st' = recordPart p partNumber etag (shared cfg)
           in cfg\<lparr>shared := st',
                  mu := (mu cfg)(p := None),
                  pool := (pool cfg)(t \<mapsto> Counted c p partNumber (uploadedCountOf p st'))\<rparr>)
      | Some (Counted c p partNumber uploadedCount) \<Rightarrow>
          (case afterRecord (session_id c) p partNumber uploadedCount (complete_ok c) (shared cfg) of
             (r, st') \<Rightarrow>
               cfg\<lparr>shared := st',
                   pool := (pool cfg)(t \<mapsto> Done r),
                   finalizes :=
                     (if uploadedCount = TotalParts (sessions (shared cfg) p)
                      then finalizes cfg @ [(t, session_id c, mu cfg p = Some t)]
                      else finalizes cfg)\<rparr>)
      | Some (ArrivedRClone c) \<Rightarrow>
          (case findSessionRClone c (shared cfg) of
             Inl e \<Rightarrow> cfg\<lparr>pool := (pool cfg)(t \<mapsto> Done (Inl e))\<rparr>
           | Inr (p, partNumber) \<Rightarrow> cfg\<lparr>pool := (pool cfg)(t \<mapsto> FoundRClone c p partNumber)\<rparr>)
      | Some (FoundRClone c p partNumber) \<Rightarrow>
          (case chunk c of
             None \<Rightarrow> cfg\<lparr>pool := (pool cfg)(t \<mapsto> Done (Inl FailedToGetChunkFile))\<rparr>
           | Some file \<Rightarrow> cfg\<lparr>pool := (pool cfg)(t \<mapsto> ReadyRClone c p partNumber file)\<rparr>)
      | Some (ReadyRClone c p partNumber file) \<Rightarrow>
          (case muRClone cfg p of
             Some holder \<Rightarrow> cfg
           | None \<Rightarrow>
               cfg\<lparr>muRClone := (muRClone cfg)(p \<mapsto> t),
                   pool := (pool cfg)(t \<mapsto> LockedRClone c p partNumber file)\<rparr>)
      | Some (LockedRClone c p partNumber file) \<Rightarrow>
          (case receivePart p partNumber file (write_error c) (shared cfg) of
             (written, st') \<Rightarrow>
               cfg\<lparr>shared := st',
                   muRClone := (muRClone cfg)(p := None),
                   pool := (pool cfg)(t \<mapsto> CountedRClone c p partNumber written (receivedCountOf p st'))\<rparr>)
      | Some (CountedRClone c p partNumber written receivedCount) \<Rightarrow>
          (case afterReceive (session_id c) p partNumber written receivedCount c (shared cfg) of
             (r, st') \<Rightarrow>
               cfg\<lparr>shared := st',
                   pool := (pool cfg)(t \<mapsto> Done r),
                   finalizesRClone :=
                     (if written \<and> receivedCount = TotalPartsRClone (sessionsRClone (shared cfg) p)
                      then finalizesRClone cfg @ [(t, session_id c, muRClone cfg p = Some t)]
                      else finalizesRClone cfg)\<rparr>)
      | Some (Done r) \<Rightarrow> cfg)"

definition runSchedule :: "nat list \<Rightarrow> config \<Rightarrow> config" where
  "runSchedule schedule cfg = fold stepThread schedule cfg"











section \<open>Example states and calls\<close>

text \<open>
  The concrete inputs on which the theorems below are evaluated: a server with one
  remote session and one local-staging session, both registered as \<open>''s1''\<close> and
  declared with \<open>n\<close> parts, and well-formed calls.
\<close>

definition zeroSession :: ChunkUploadSession where
  "zeroSession =
     \<lparr>UploadID = [], FileName = [], TotalParts = 0, UploadedParts = fmempty, StartTime = 0\<rparr>"

definition zeroSessionRClone :: ChunkUploadSessionRClone where
  "zeroSessionRClone =
     \<lparr>SessionID = [], FileNameRClone = [], FilePath = [],
      TempFile = \<lparr>Name = [], offset = 0, closed = True\<rparr>,
      TotalPartsRClone = 0, ReceivedParts = fmempty\<rparr>"

definition emptyServer :: server where
  "emptyServer =
     \<lparr>uploadSessions = fmempty, sessions = (\<lambda>p. zeroSession),
      uploadSessionsRClone = fmempty, sessionsRClone = (\<lambda>p. zeroSessionRClone),
      allocated = 0, store = \<lparr>uploads = Map.empty, objects = Map.empty\<rparr>, files = Map.empty\<rparr>"

definition remoteSession :: "int \<Rightarrow> ChunkUploadSession" where
  "remoteSession n =
     \<lparr>UploadID = ''u1'', FileName = ''big.bin'', TotalParts = n,
      UploadedParts = fmempty, StartTime = 0\<rparr>"

definition localSession :: "int \<Rightarrow> ChunkUploadSessionRClone" where
  "localSession n =
     \<lparr>SessionID = ''s1'', FileNameRClone = ''big.bin'', FilePath = ''/storage/big.bin'',
      TempFile = \<lparr>Name = ''/tmp/up1'', offset = 0, closed = False\<rparr>,
      TotalPartsRClone = n, ReceivedParts = fmempty\<rparr>"

definition exampleServer :: "int \<Rightarrow> server" where
  "exampleServer n =
     \<lparr>uploadSessions = fmupd ''s1'' 0 fmempty,
      sessions = (\<lambda>p. zeroSession)(0 := remoteSession n),
      uploadSessionsRClone = fmupd ''s1'' 1 fmempty,
      sessionsRClone = (\<lambda>p. zeroSessionRClone)(1 := localSession n),
      allocated = 2,
      store = \<lparr>uploads = [''u1'' \<mapsto> Map.empty], objects = Map.empty\<rparr>,
      files = [''/tmp/up1'' \<mapsto> []]\<rparr>"

definition chunkCall :: "string \<Rightarrow> int \<Rightarrow> bytes \<Rightarrow> bool \<Rightarrow> ChunkCall" where
  "chunkCall sid n content ok =
     \<lparr>cMethod = ''POST'', form_ok = True, session_id = sid, part_number = Some n,
      chunk = Some content, put_result = Some (''etag-'' @ content), complete_ok = ok\<rparr>"

definition chunkCallRClone :: "string \<Rightarrow> int \<Rightarrow> bytes \<Rightarrow> nat option \<Rightarrow> bool \<Rightarrow> ChunkCallRClone" where
  "chunkCallRClone sid n content failure ok =
     \<lparr>cMethod = ''POST'', form_ok = True, session_id = sid, part_number = Some n,
      chunk = Some content, write_error = failure, close_ok = ok, rename_ok = True,
      copy_open_ok = True, copy_create_ok = True, copy_error = None, copy_remove_ok = True\<rparr>"

definition unixlib :: golib where
  "unixlib =
     \<lparr>filepath_Clean = (\<lambda>s. s),
      path_Join = (\<lambda>a b. a @ ''/'' @ b),
      filepath_Join = (\<lambda>xs. foldr (\<lambda>a b. if b = [] then a else a @ ''/'' @ b) xs [])\<rparr>"

definition initiateCall :: "string \<Rightarrow> int \<Rightarrow> InitiateCall" where
  "initiateCall sid n =
     \<lparr>iMethod = ''POST'',
      body = Some \<lparr>filename = ''big.bin'', total_parts = n, file_size = 0, path = []\<rparr>,
      new_session_id = sid, new_upload = Some ''u2'', now = 0\<rparr>"

definition initiateCallRClone :: "string \<Rightarrow> int \<Rightarrow> InitiateCallRClone" where
  "initiateCallRClone sid n =
     \<lparr>iMethod = ''POST'',
      body = Some \<lparr>filename = ''big.bin'', total_parts = n, file_size = 0, path = []\<rparr>,
      new_session_id = sid, mkdir_ok = True, new_temp = Some ''/tmp/up2''\<rparr>"

definition abortCall :: "string \<Rightarrow> AbortCall" where
  "abortCall sid = \<lparr>aMethod = ''POST'', query_session_id = sid, abort_ok = True\<rparr>"

definition abortCallRClone :: "string \<Rightarrow> AbortCallRClone" where
  "abortCallRClone sid = \<lparr>aMethod = ''POST'', query_session_id = sid, remove_ok = True\<rparr>"

text \<open>A sweep that visits session \<open>''s1''\<close> twenty-five hours after it was started.\<close>

definition lateVisit :: Visit where
  "lateVisit = \<lparr>visit_id = ''s1'', clock = 25 * Hour, visit_abort_ok = True\<rparr>"






section \<open>Basic facts\<close>

lemma Encode_completed [simp]: "Encode v = UploadCompleted \<longleftrightarrow> v = UploadCompleted"
  by (simp add: Encode_def split: response.splits float64.splits)

lemma Encode_Finite [simp]: "Encode (ChunkUploaded sid n (Finite x)) = ChunkUploaded sid n (Finite x)"
  by (simp add: Encode_def)

lemma Encode_ChunkUploaded:
  "Encode (ChunkUploaded sid n progress) = ChunkUploaded sid n progress \<or>
   Encode (ChunkUploaded sid n progress) = EmptyBody"
  by (simp add: Encode_def split: float64.splits)

lemmas partsList_eval = partsList_def List.map_filter_simps upto_rec1

lemma len_fmempty: "len fmempty = 0"
  by (simp add: len_def)

lemma len_fmupd: "len (fmupd k v m) = (if k |\<in>| fmdom m then len m else len m + 1)"
  by (simp add: len_def fcard_finsert_if finsert_absorb)

lemma len_nonneg: "0 \<le> len m"
  by (simp add: len_def)

lemmas remote_defs = uploadChunkHandler_def findSession_def putPart_def PutObjectPart_def
  recordPart_def uploadedCountOf_def afterRecord_def completeMultipartUpload_def
  CompleteMultipartUpload_def partsOf_def

lemmas local_defs = uploadChunkHandlerRClone_def receivePart_def fileWrite_def writeAt_def
  receivedCountOf_def completeRClone_def finalizeRCloneUpload_def copyFile_def

lemmas example_defs = exampleServer_def remoteSession_def localSession_def emptyServer_def
  chunkCall_def chunkCallRClone_def initiateCall_def initiateCallRClone_def abortCall_def
  abortCallRClone_def lateVisit_def len_fmupd len_fmempty Let_def

lemma finalize_registry:
  "finalizeRCloneUpload p c st = (b, st') \<Longrightarrow> uploadSessionsRClone st' = uploadSessionsRClone st"
  by (auto simp add: finalizeRCloneUpload_def Let_def split: option.splits prod.splits if_splits)

lemma receive_registry:
  "receivePart p n file failure st = (b, st') \<Longrightarrow> uploadSessionsRClone st' = uploadSessionsRClone st"
  by (auto simp add: receivePart_def Let_def split: prod.splits)

lemma recordPart_registry: "uploadSessions (recordPart p n etag st) = uploadSessions st"
  by (simp add: recordPart_def)

lemma putPart_registry: "putPart c p n st = Inr (etag, st1) \<Longrightarrow> uploadSessions st1 = uploadSessions st"
  by (auto simp: putPart_def split: option.splits)

lemma findSession_lookup:
  "findSession c st = Inr (p, n) \<Longrightarrow> fmlookup (uploadSessions st) (session_id c) = Some p"
  by (auto simp: findSession_def split: option.splits if_splits)

lemma fmap_neqI: "fmlookup a k \<noteq> fmlookup b k \<Longrightarrow> a \<noteq> b"
  by auto

lemma afterRecord_registry:
  "uploadSessions (snd (afterRecord sid p n k ok st)) =
     (if fst (afterRecord sid p n k ok st) = Inr UploadCompleted
      then fmdrop sid (uploadSessions st) else uploadSessions st)"
  by (cases ok) (simp_all add: afterRecord_def completeMultipartUpload_def CompleteMultipartUpload_def Let_def)

lemma afterRecord_completed_ok:
  "fst (afterRecord sid p n k ok st) = Inr UploadCompleted \<Longrightarrow> ok"
  by (cases ok) (simp_all add: afterRecord_def completeMultipartUpload_def
      CompleteMultipartUpload_def Let_def split: if_splits)

lemma uploadChunkHandler_not_found:
  "findSession c st = Inl e \<Longrightarrow> uploadChunkHandler c st = (Inl e, st)"
  by (simp add: uploadChunkHandler_def)

lemma uploadChunkHandler_not_put:
  "findSession c st = Inr (p, n) \<Longrightarrow> putPart c p n st = Inl e \<Longrightarrow>
   uploadChunkHandler c st = (Inl e, st)"
  by (simp add: uploadChunkHandler_def)

lemma uploadChunkHandler_put:
  "findSession c st = Inr (p, n) \<Longrightarrow> putPart c p n st = Inr (etag, st1) \<Longrightarrow>
   uploadChunkHandler c st =
     afterRecord (session_id c) p n (uploadedCountOf p (recordPart p n etag st1)) (complete_ok c)
       (recordPart p n etag st1)"
  by (simp add: uploadChunkHandler_def Let_def)

lemma uploadChunkHandler_cases:
  obtains (not_found) e where "findSession c st = Inl e" "uploadChunkHandler c st = (Inl e, st)"
  | (not_put) p n e where "findSession c st = Inr (p, n)" "putPart c p n st = Inl e"
      "uploadChunkHandler c st = (Inl e, st)"
  | (put) p n etag st1 where "findSession c st = Inr (p, n)" "putPart c p n st = Inr (etag, st1)"
      "uploadChunkHandler c st =
         afterRecord (session_id c) p n (uploadedCountOf p (recordPart p n etag st1)) (complete_ok c)
           (recordPart p n etag st1)"
proof (cases "findSession c st")
  case (Inl e)
  then show ?thesis using not_found uploadChunkHandler_not_found by blast
next
  case (Inr pn)
  obtain p n where pn: "pn = (p, n)" by (cases pn)
  show ?thesis
  proof (cases "putPart c p n st")
    case (Inl e)
    with Inr pn show ?thesis using not_put uploadChunkHandler_not_put by blast
  next
    case (Inr r)
    obtain etag st1 where r: "r = (etag, st1)" by (cases r)
    with Inr \<open>findSession c st = Inr pn\<close> pn show ?thesis
      using put uploadChunkHandler_put by blast
  qed
qed

lemma chunk_registry:
  "uploadSessions (snd (uploadChunkHandler c st)) =
     (if fst (uploadChunkHandler c st) = Inr UploadCompleted
      then fmdrop (session_id c) (uploadSessions st) else uploadSessions st)"
proof (cases c st rule: uploadChunkHandler_cases)
  case (put p n etag st1)
  then show ?thesis
    by (simp add: afterRecord_registry recordPart_registry putPart_registry)
qed simp_all

lemma chunk_completed_ok:
  "fst (uploadChunkHandler c st) = Inr UploadCompleted \<Longrightarrow> complete_ok c"
  by (cases c st rule: uploadChunkHandler_cases) (auto dest: afterRecord_completed_ok)

lemma chunkRClone_registry:
  "uploadSessionsRClone (snd (uploadChunkHandlerRClone c st)) =
     (if fst (uploadChunkHandlerRClone c st) = Inr UploadCompleted
      then fmdrop (session_id c) (uploadSessionsRClone st) else uploadSessionsRClone st)"
  by (auto simp add: uploadChunkHandlerRClone_def completeRClone_def Let_def
      split: option.splits prod.splits bool.splits dest!: finalize_registry receive_registry)

section \<open>Finalize failure\<close>

text \<open>
  C7. If the finalize step fails, the upload is answered with the finalize failure and
  the session stays in the session map; the session is removed only when finalize has
  succeeded. Remote path: the chunk call reaches \<open>completeMultipartUpload\<close> (the count read
  after recording the part equals \<open>TotalParts\<close>) and the store's complete call fails;
  then the reply is \<open>FailedToCompleteUpload\<close> and the session is still registered.
  Whenever a chunk call changes the session map, its reply is \<open>UploadCompleted\<close> and the
  store's complete call succeeded. Local path: the chunk was written, the count equals
  \<open>TotalParts\<close> and \<open>finalizeRCloneUpload\<close> returns an error; then the reply is
  \<open>FailedToFinalizeUpload\<close> and the session is still registered. Whenever a chunk call
  changes the local session map, its reply is \<open>UploadCompleted\<close>.
\<close>

theorem finalize_failure_preserves_session:
  fixes c :: ChunkCall and d :: ChunkCallRClone
  shows
  "(findSession c st = Inr (p, n) \<and> putPart c p n st = Inr (etag, st1) \<and>
      uploadedCountOf p (recordPart p n etag st1) = TotalParts (sessions (recordPart p n etag st1) p) \<and>
      \<not> complete_ok c
    \<longrightarrow> uploadChunkHandler c st = (Inl FailedToCompleteUpload, recordPart p n etag st1) \<and>
        fmlookup (uploadSessions (recordPart p n etag st1)) (session_id c) = Some p)
   \<and> (uploadSessions (snd (uploadChunkHandler c st)) \<noteq> uploadSessions st
    \<longrightarrow> fst (uploadChunkHandler c st) = Inr UploadCompleted \<and> complete_ok c)
   \<and> (cMethod d = ''POST'' \<and> form_ok d \<and> part_number d = Some m \<and>
      fmlookup (uploadSessionsRClone st) (session_id d) = Some q \<and> chunk d = Some content \<and>
      receivePart q m content (write_error d) st = (True, st2) \<and>
      receivedCountOf q st2 = TotalPartsRClone (sessionsRClone st2 q) \<and>
      finalizeRCloneUpload q d st2 = (False, st3)
    \<longrightarrow> uploadChunkHandlerRClone d st = (Inl FailedToFinalizeUpload, st3) \<and>
        fmlookup (uploadSessionsRClone st3) (session_id d) = Some q)
   \<and> (uploadSessionsRClone (snd (uploadChunkHandlerRClone d st)) \<noteq> uploadSessionsRClone st
    \<longrightarrow> fst (uploadChunkHandlerRClone d st) = Inr UploadCompleted)"
proof (intro conjI impI)
  assume a: "findSession c st = Inr (p, n) \<and> putPart c p n st = Inr (etag, st1) \<and>
      uploadedCountOf p (recordPart p n etag st1) = TotalParts (sessions (recordPart p n etag st1) p) \<and>
      \<not> complete_ok c"
  then show "uploadChunkHandler c st = (Inl FailedToCompleteUpload, recordPart p n etag st1)"
    by (simp add: uploadChunkHandler_put afterRecord_def completeMultipartUpload_def
        CompleteMultipartUpload_def Let_def)
  from a show "fmlookup (uploadSessions (recordPart p n etag st1)) (session_id c) = Some p"
    using putPart_registry findSession_lookup by (auto simp: recordPart_registry)
next
  assume a: "uploadSessions (snd (uploadChunkHandler c st)) \<noteq> uploadSessions st"
  then show "fst (uploadChunkHandler c st) = Inr UploadCompleted"
    using chunk_registry [of c st] by (auto split: if_splits)
  then show "complete_ok c"
    by (rule chunk_completed_ok)
next
  assume a: "cMethod d = ''POST'' \<and> form_ok d \<and> part_number d = Some m \<and>
      fmlookup (uploadSessionsRClone st) (session_id d) = Some q \<and> chunk d = Some content \<and>
      receivePart q m content (write_error d) st = (True, st2) \<and>
      receivedCountOf q st2 = TotalPartsRClone (sessionsRClone st2 q) \<and>
      finalizeRCloneUpload q d st2 = (False, st3)"
  then show "uploadChunkHandlerRClone d st = (Inl FailedToFinalizeUpload, st3)"
    by (simp add: uploadChunkHandlerRClone_def completeRClone_def)
  from a show "fmlookup (uploadSessionsRClone st3) (session_id d) = Some q"
    using finalize_registry receive_registry by metis
next
  assume "uploadSessionsRClone (snd (uploadChunkHandlerRClone d st)) \<noteq> uploadSessionsRClone st"
  then show "fst (uploadChunkHandlerRClone d st) = Inr UploadCompleted"
    using chunkRClone_registry [of d st] by (auto split: if_splits)
qed



theorem finalize_failure_preserves_session_witness:
  "\<not> complete_ok (chunkCall ''s1'' 1 ''abc'' False)
   \<and> fst (uploadChunkHandler (chunkCall ''s1'' 1 ''abc'' False) (exampleServer 1)) = Inl FailedToCompleteUpload
   \<and> fmlookup (uploadSessions (snd (uploadChunkHandler (chunkCall ''s1'' 1 ''abc'' False) (exampleServer 1)))) ''s1'' = Some 0
   \<and> fst (uploadChunkHandler (chunkCall ''s1'' 1 ''abc'' True) (exampleServer 1)) = Inr UploadCompleted
   \<and> \<not> fst (finalizeRCloneUpload 1 (chunkCallRClone ''s1'' 1 ''abc'' None False)
             (snd (receivePart 1 1 ''abc'' None (exampleServer 1))))
   \<and> fst (uploadChunkHandlerRClone (chunkCallRClone ''s1'' 1 ''abc'' None False) (exampleServer 1)) = Inl FailedToFinalizeUpload
   \<and> fmlookup (uploadSessionsRClone (snd (uploadChunkHandlerRClone (chunkCallRClone ''s1'' 1 ''abc'' None False) (exampleServer 1)))) ''s1'' = Some 1
   \<and> fst (uploadChunkHandlerRClone (chunkCallRClone ''s1'' 1 ''abc'' None True) (exampleServer 1)) = Inr UploadCompleted"
proof -
  let ?st = "exampleServer 1"
  let ?c = "chunkCall ''s1'' 1 ''abc'' False"
  let ?c' = "chunkCall ''s1'' 1 ''abc'' True"
  let ?d = "chunkCallRClone ''s1'' 1 ''abc'' None False"
  let ?d' = "chunkCallRClone ''s1'' 1 ''abc'' None True"
  let ?st2 = "snd (receivePart 1 1 ''abc'' None ?st)"
  let ?st3 = "snd (finalizeRCloneUpload 1 ?d ?st2)"
  note T = finalize_failure_preserves_session
  have nok: "\<not> complete_ok ?c"
    by (simp add: chunkCall_def)
  have found: "findSession ?c ?st = Inr (0, 1)"
    by (simp add: findSession_def example_defs)
  obtain st1 where put: "putPart ?c 0 1 ?st = Inr (''etag-abc'', st1)"
    by (simp add: putPart_def PutObjectPart_def example_defs)
  then have st1: "st1 = ?st\<lparr>store := \<lparr>uploads = [''u1'' \<mapsto> [1 \<mapsto> ''abc'']], objects = Map.empty\<rparr>\<rparr>"
    by (simp add: putPart_def PutObjectPart_def partsOf_def example_defs)
  have count: "uploadedCountOf 0 (recordPart 0 1 ''etag-abc'' st1) =
      TotalParts (sessions (recordPart 0 1 ''etag-abc'' st1) 0)"
    by (simp add: st1 uploadedCountOf_def recordPart_def example_defs)
  from T [where c = ?c and st = ?st and p = 0 and n = 1 and etag = "''etag-abc''" and ?st1.0 = st1]
    found put count nok
  have r1: "uploadChunkHandler ?c ?st = (Inl FailedToCompleteUpload, recordPart 0 1 ''etag-abc'' st1)"
    and r2: "fmlookup (uploadSessions (recordPart 0 1 ''etag-abc'' st1)) (session_id ?c) = Some 0"
    by blast+
  have changed: "uploadSessions (snd (uploadChunkHandler ?c' ?st)) \<noteq> uploadSessions ?st"
    by (rule fmap_neqI [of _ "''s1''"]) (simp add: remote_defs example_defs partsList_eval)
  with T [where c = ?c' and st = ?st]
  have r3: "fst (uploadChunkHandler ?c' ?st) = Inr UploadCompleted"
    by blast
  have written: "receivePart 1 1 ''abc'' (write_error ?d) ?st = (True, ?st2)"
    by (simp add: receivePart_def fileWrite_def example_defs)
  have count2: "receivedCountOf 1 ?st2 = TotalPartsRClone (sessionsRClone ?st2 1)"
    by (simp add: receivePart_def fileWrite_def receivedCountOf_def example_defs)
  have failed: "finalizeRCloneUpload 1 ?d ?st2 = (False, ?st3)"
    by (simp add: receivePart_def fileWrite_def finalizeRCloneUpload_def example_defs)
  have wf: "cMethod ?d = ''POST'' \<and> form_ok ?d \<and> part_number ?d = Some 1 \<and>
      fmlookup (uploadSessionsRClone ?st) (session_id ?d) = Some 1 \<and> chunk ?d = Some ''abc''"
    by (simp add: example_defs)
  from T [where d = ?d and st = ?st and m = 1 and q = 1 and content = "''abc''" and ?st2.0 = ?st2
      and ?st3.0 = ?st3] wf written count2 failed
  have r4: "uploadChunkHandlerRClone ?d ?st = (Inl FailedToFinalizeUpload, ?st3)"
    and r5: "fmlookup (uploadSessionsRClone ?st3) (session_id ?d) = Some 1"
    by blast+
  have changed2: "uploadSessionsRClone (snd (uploadChunkHandlerRClone ?d' ?st)) \<noteq> uploadSessionsRClone ?st"
    by (rule fmap_neqI [of _ "''s1''"]) (simp add: local_defs example_defs)
  with T [where d = ?d' and st = ?st]
  have r6: "fst (uploadChunkHandlerRClone ?d' ?st) = Inr UploadCompleted"
    by blast
  have nfin: "\<not> fst (finalizeRCloneUpload 1 ?d ?st2)"
    by (subst failed) simp
  have sid: "session_id ?c = ''s1''" "session_id ?d = ''s1''"
    by (simp_all add: example_defs)
  show ?thesis
    using nok r1 r2 r3 nfin r4 r5 r6 sid by simp
qed


lemma putPart_sessions: "putPart c p n st = Inr (etag, st1) \<Longrightarrow> sessions st1 = sessions st"
  by (auto simp: putPart_def split: option.splits)

lemma putPart_store:
  "putPart c p n st = Inr (etag, st1) \<Longrightarrow>
   \<exists>content. chunk c = Some content \<and> put_result c = Some etag \<and>
     st1 = st\<lparr>store := (store st)\<lparr>uploads := (uploads (store st))
       (UploadID (sessions st p) \<mapsto> (partsOf (store st) (UploadID (sessions st p)))(n \<mapsto> content))\<rparr>\<rparr>"
  by (auto simp: putPart_def PutObjectPart_def split: option.splits)

lemma afterRecord_sessions: "sessions (snd (afterRecord sid p n k ok st)) = sessions st"
  by (cases ok) (simp_all add: afterRecord_def completeMultipartUpload_def
      CompleteMultipartUpload_def Let_def)

lemma recordPart_sessions:
  "sessions (recordPart p n etag st) q =
     (if q = p then (sessions st p)\<lparr>UploadedParts :=
        fmupd n \<lparr>PartNumber = n, ETag = etag\<rparr> (UploadedParts (sessions st p))\<rparr>
      else sessions st q)"
  by (simp add: recordPart_def)


section \<open>Chunk persist failure\<close>

text \<open>On the remote path a failing put leaves the whole state as it was.\<close>


lemma remote_persist_failure_keeps_state:
  "findSession c st = Inr (p, n) \<Longrightarrow> chunk c = Some content \<Longrightarrow> put_result c = None \<Longrightarrow>
   uploadChunkHandler c st = (Inl FailedToUploadChunk, st)"
  by (simp add: uploadChunkHandler_def putPart_def PutObjectPart_def)

lemma local_persist_failure_records_part:
  "cMethod d = ''POST'' \<Longrightarrow> form_ok d \<Longrightarrow> part_number d = Some m \<Longrightarrow>
   fmlookup (uploadSessionsRClone st) (session_id d) = Some q \<Longrightarrow> chunk d = Some content \<Longrightarrow>
   write_error d = Some k \<Longrightarrow>
   fst (uploadChunkHandlerRClone d st) = Inl FailedToWriteChunk \<and>
   fmlookup (ReceivedParts (sessionsRClone (snd (uploadChunkHandlerRClone d st)) q)) m = Some True"
  by (simp add: uploadChunkHandlerRClone_def receivePart_def fileWrite_def Let_def)

text \<open>
  C2. A chunk whose bytes could not be persisted should leave the bookkeeping of the
  session unchanged. The remote path does so (\<open>remote_persist_failure_keeps_state\<close>).
  The local path stores the part number before it looks at the error of the copy
  (\<open>local_persist_failure_records_part\<close>). Evaluated on a fresh local session declared
  with three parts: the copy of part 1 fails after one byte; the reply is
  \<open>FailedToWriteChunk\<close>, part 1 is in \<open>ReceivedParts\<close>, the count went from 0 to 1 and
  the staging file holds the one byte.
\<close>

theorem local_write_failure_is_recorded:
  "fst (uploadChunkHandlerRClone (chunkCallRClone ''s1'' 1 ''abc'' (Some 1) True) (exampleServer 3))
     = Inl FailedToWriteChunk
   \<and> fmlookup (ReceivedParts (sessionsRClone (exampleServer 3) 1)) 1 = None
   \<and> fmlookup (ReceivedParts (sessionsRClone
         (snd (uploadChunkHandlerRClone (chunkCallRClone ''s1'' 1 ''abc'' (Some 1) True) (exampleServer 3))) 1)) 1
       = Some True
   \<and> receivedCountOf 1 (exampleServer 3) = 0
   \<and> receivedCountOf 1
         (snd (uploadChunkHandlerRClone (chunkCallRClone ''s1'' 1 ''abc'' (Some 1) True) (exampleServer 3))) = 1
   \<and> files (snd (uploadChunkHandlerRClone (chunkCallRClone ''s1'' 1 ''abc'' (Some 1) True) (exampleServer 3)))
         ''/tmp/up1'' = Some ''a''"
  by (simp add: local_defs example_defs)


section \<open>Retrying a part on the remote path\<close>


lemma fmupd_twice: "fmupd k v (fmupd k v m) = fmupd k v m"
  by (rule fmap_ext) simp

lemma recordPart_twice: "recordPart p n etag (recordPart p n etag st) = recordPart p n etag st"
  by (simp add: recordPart_def fmupd_twice)

lemma findSession_cong:
  "uploadSessions st' = uploadSessions st \<Longrightarrow> findSession c st' = findSession c st"
  by (simp add: findSession_def split: option.splits)

lemma findSession_recordPart: "findSession c (recordPart p n etag st) = findSession c st"
  by (rule findSession_cong) (simp add: recordPart_def)

lemma uploadChunkHandler_twice:
  "snd (uploadChunkHandler c (snd (uploadChunkHandler c st))) = snd (uploadChunkHandler c st)"
proof (cases c st rule: uploadChunkHandler_cases)
  case (not_found e)
  then show ?thesis by simp
next
  case (not_put p n e)
  then show ?thesis by simp
next
  case (put p n etag st1)
  let ?st2 = "recordPart p n etag st1"
  let ?k = "uploadedCountOf p ?st2"
  from put(2) obtain content where c: "chunk c = Some content" "put_result c = Some etag"
    and st1: "st1 = st\<lparr>store := (store st)\<lparr>uploads := (uploads (store st))
       (UploadID (sessions st p) \<mapsto> (partsOf (store st) (UploadID (sessions st p)))(n \<mapsto> content))\<rparr>\<rparr>"
    using putPart_store by blast
  have lookup: "fmlookup (uploadSessions st) (session_id c) = Some p"
    using put(1) by (rule findSession_lookup)
  show ?thesis
  proof (cases "?k = TotalParts (sessions ?st2 p) \<and> complete_ok c \<and> partsList (sessions ?st2 p) \<noteq> []")
    case True
    then have fin: "uploadChunkHandler c st = completeMultipartUpload (session_id c) p True ?st2"
      using put(3) by (simp add: afterRecord_def)
    have "fmlookup (uploadSessions (snd (uploadChunkHandler c st))) (session_id c) = None"
      using True by (simp add: fin completeMultipartUpload_def CompleteMultipartUpload_def Let_def)
    moreover have "cMethod c = ''POST'' \<and> form_ok c \<and> part_number c = Some n"
      using put(1) by (auto simp: findSession_def split: if_splits option.splits)
    ultimately have "findSession c (snd (uploadChunkHandler c st)) = Inl SessionNotFound"
      by (simp add: findSession_def)
    then show ?thesis by (simp add: uploadChunkHandler_not_found)
  next
    case False
    then have same: "snd (uploadChunkHandler c st) = ?st2"
      using put(3)
      by (auto simp: afterRecord_def completeMultipartUpload_def CompleteMultipartUpload_def Let_def)
    have f2: "findSession c ?st2 = Inr (p, n)"
      using put(1) st1 findSession_cong [of ?st2 st c] by (simp add: recordPart_def)
    have p2: "putPart c p n ?st2 = Inr (etag, ?st2)"
      using c st1
      by (simp add: putPart_def PutObjectPart_def recordPart_def partsOf_def)
    have "uploadChunkHandler c ?st2 =
        afterRecord (session_id c) p n (uploadedCountOf p (recordPart p n etag ?st2)) (complete_ok c)
          (recordPart p n etag ?st2)"
      using f2 p2 by (rule uploadChunkHandler_put)
    then have "uploadChunkHandler c ?st2 = afterRecord (session_id c) p n ?k (complete_ok c) ?st2"
      by (simp add: recordPart_twice)
    then show ?thesis
      using same put(3) by simp
  qed
qed

text \<open>
  C8. On the remote path, uploading again a part number that is already recorded
  replaces the completion tag stored for it and leaves the count (and the set of
  recorded part numbers) unchanged. Serving the same call twice leaves the server,
  its object store included, in the state the first call left: whichever of two
  identical retries comes last, what is assembled is the same.
\<close>

theorem remote_retry_overwrites_tag:
  "(findSession c st = Inr (p, n) \<and> putPart c p n st = Inr (etag, st1) \<and>
      n |\<in>| fmdom (UploadedParts (sessions st p))
    \<longrightarrow> fmlookup (UploadedParts (sessions (snd (uploadChunkHandler c st)) p)) n
          = Some \<lparr>PartNumber = n, ETag = etag\<rparr>
        \<and> len (UploadedParts (sessions (snd (uploadChunkHandler c st)) p))
          = len (UploadedParts (sessions st p))
        \<and> fmdom (UploadedParts (sessions (snd (uploadChunkHandler c st)) p))
          = fmdom (UploadedParts (sessions st p)))
   \<and> snd (uploadChunkHandler c (snd (uploadChunkHandler c st))) = snd (uploadChunkHandler c st)"
proof (intro conjI impI)
  assume a: "findSession c st = Inr (p, n) \<and> putPart c p n st = Inr (etag, st1) \<and>
      n |\<in>| fmdom (UploadedParts (sessions st p))"
  then have h: "uploadChunkHandler c st =
     afterRecord (session_id c) p n (uploadedCountOf p (recordPart p n etag st1)) (complete_ok c)
       (recordPart p n etag st1)"
    by (simp add: uploadChunkHandler_put)
  have s: "sessions st1 = sessions st"
    using a putPart_sessions by blast
  have parts: "UploadedParts (sessions (snd (uploadChunkHandler c st)) p) =
      fmupd n \<lparr>PartNumber = n, ETag = etag\<rparr> (UploadedParts (sessions st p))"
    by (simp add: h afterRecord_sessions recordPart_sessions s)
  show "fmlookup (UploadedParts (sessions (snd (uploadChunkHandler c st)) p)) n
          = Some \<lparr>PartNumber = n, ETag = etag\<rparr>"
    by (simp add: parts)
  show "len (UploadedParts (sessions (snd (uploadChunkHandler c st)) p))
          = len (UploadedParts (sessions st p))"
    using a by (simp add: parts len_fmupd)
  show "fmdom (UploadedParts (sessions (snd (uploadChunkHandler c st)) p))
          = fmdom (UploadedParts (sessions st p))"
    using a by (simp add: parts finsert_absorb)
next
  show "snd (uploadChunkHandler c (snd (uploadChunkHandler c st))) = snd (uploadChunkHandler c st)"
    by (rule uploadChunkHandler_twice)
qed

theorem remote_retry_overwrites_tag_witness:
  "fmlookup (UploadedParts (sessions (snd (uploadChunkHandler (chunkCall ''s1'' 2 ''abc'' True) (exampleServer 3))) 0)) 2
     = Some \<lparr>PartNumber = 2, ETag = ''etag-abc''\<rparr>
   \<and> fmlookup (UploadedParts (sessions
        (snd (uploadChunkHandler (chunkCall ''s1'' 2 ''xyz'' True)
           (snd (uploadChunkHandler (chunkCall ''s1'' 2 ''abc'' True) (exampleServer 3))))) 0)) 2
     = Some \<lparr>PartNumber = 2, ETag = ''etag-xyz''\<rparr>
   \<and> len (UploadedParts (sessions
        (snd (uploadChunkHandler (chunkCall ''s1'' 2 ''xyz'' True)
           (snd (uploadChunkHandler (chunkCall ''s1'' 2 ''abc'' True) (exampleServer 3))))) 0)) = 1"
proof -
  let ?st = "snd (uploadChunkHandler (chunkCall ''s1'' 2 ''abc'' True) (exampleServer 3))"
  let ?c = "chunkCall ''s1'' 2 ''xyz'' True"
  have st: "?st = (exampleServer 3)
      \<lparr>store := \<lparr>uploads = [''u1'' \<mapsto> [2 \<mapsto> ''abc'']], objects = Map.empty\<rparr>,
       sessions := (\<lambda>p. zeroSession)(0 := (remoteSession 3)
          \<lparr>UploadedParts := fmupd 2 \<lparr>PartNumber = 2, ETag = ''etag-abc''\<rparr> fmempty\<rparr>)\<rparr>"
    by (simp add: remote_defs example_defs)
  have before: "fmlookup (UploadedParts (sessions ?st 0)) 2 = Some \<lparr>PartNumber = 2, ETag = ''etag-abc''\<rparr>"
    and one: "len (UploadedParts (sessions ?st 0)) = 1"
    unfolding st by (simp_all add: example_defs)
  have found: "findSession ?c ?st = Inr (0, 2)"
    unfolding st by (simp add: findSession_def example_defs)
  obtain st1 where put: "putPart ?c 0 2 ?st = Inr (''etag-xyz'', st1)"
    unfolding st by (simp add: putPart_def PutObjectPart_def example_defs)
  have present: "2 |\<in>| fmdom (UploadedParts (sessions ?st 0))"
    unfolding st by simp
  from remote_retry_overwrites_tag [where c = ?c and st = ?st and p = 0 and n = 2
      and etag = "''etag-xyz''" and ?st1.0 = st1] found put present
  have "fmlookup (UploadedParts (sessions (snd (uploadChunkHandler ?c ?st)) 0)) 2
          = Some \<lparr>PartNumber = 2, ETag = ''etag-xyz''\<rparr>"
    and "len (UploadedParts (sessions (snd (uploadChunkHandler ?c ?st)) 0))
          = len (UploadedParts (sessions ?st 0))"
    by blast+
  with before one show ?thesis
    by simp
qed


section \<open>The parts list\<close>


lemma partsList_eq:
  "partsList s =
     map (\<lambda>i. the (fmlookup (UploadedParts s) i))
       (filter (\<lambda>i. i |\<in>| fmdom (UploadedParts s)) [1..TotalParts s])"
proof -
  have "(\<lambda>i. fmlookup (UploadedParts s) i \<noteq> None) = (\<lambda>i. i |\<in>| fmdom (UploadedParts s))"
    by (auto simp: fmlookup_dom_iff)
  then show ?thesis
    by (simp add: partsList_def List.map_filter_def comp_def)
qed

lemma len_card: "len m = int (card (fmdom' m))"
  by (simp add: len_def fcard.rep_eq fmdom'_alt_def)



section \<open>What each call leaves alone\<close>

lemma releaseUpload_frame:
  "uploadSessions (releaseUpload u ok st) = uploadSessions st"
  "sessions (releaseUpload u ok st) = sessions st"
  "allocated (releaseUpload u ok st) = allocated st"
  "uploadSessionsRClone (releaseUpload u ok st) = uploadSessionsRClone st"
  "sessionsRClone (releaseUpload u ok st) = sessionsRClone st"
  "files (releaseUpload u ok st) = files st"
  by (simp_all add: releaseUpload_def AbortMultipartUpload_def)

lemma sweepSession_frame:
  "sessions (sweepSession v st) = sessions st"
  "allocated (sweepSession v st) = allocated st"
  "uploadSessionsRClone (sweepSession v st) = uploadSessionsRClone st"
  "sessionsRClone (sweepSession v st) = sessionsRClone st"
  "files (sweepSession v st) = files st"
  by (simp_all add: sweepSession_def releaseUpload_frame Let_def split: option.splits)

lemma sweepSession_lookup:
  "fmlookup (uploadSessions (sweepSession v st)) k =
     (case fmlookup (uploadSessions st) k of
        None \<Rightarrow> None
      | Some p \<Rightarrow> if k = visit_id v \<and> expired (clock v) (sessions st p) then None else Some p)"
  by (auto simp add: sweepSession_def releaseUpload_frame Let_def split: option.splits)

lemma cleanup_frame:
  "sessions (cleanupOldSessions vs st) = sessions st"
  "allocated (cleanupOldSessions vs st) = allocated st"
  "uploadSessionsRClone (cleanupOldSessions vs st) = uploadSessionsRClone st"
  "sessionsRClone (cleanupOldSessions vs st) = sessionsRClone st"
  "files (cleanupOldSessions vs st) = files st"
  unfolding cleanupOldSessions_def
  by (induction vs arbitrary: st; simp add: sweepSession_frame)+

lemma cleanup_lookup_None:
  "fmlookup (uploadSessions st) k = None \<Longrightarrow>
   fmlookup (uploadSessions (cleanupOldSessions vs st)) k = None"
  unfolding cleanupOldSessions_def
  by (induction vs arbitrary: st) (simp_all add: sweepSession_lookup)

lemma cleanup_lookup_Some:
  "fmlookup (uploadSessions (cleanupOldSessions vs st)) k = Some p \<Longrightarrow>
   fmlookup (uploadSessions st) k = Some p"
  unfolding cleanupOldSessions_def
proof (induction vs arbitrary: st)
  case Nil
  then show ?case by simp
next
  case (Cons v vs)
  then have "fmlookup (uploadSessions (sweepSession v st)) k = Some p" by simp
  then show ?case
    by (simp add: sweepSession_lookup split: option.splits if_splits)
qed

lemma initiate_frame:
  "uploadSessionsRClone (snd (initiateMultipartHandler lib c st)) = uploadSessionsRClone st"
  "sessionsRClone (snd (initiateMultipartHandler lib c st)) = sessionsRClone st"
  "files (snd (initiateMultipartHandler lib c st)) = files st"
  "allocated st \<le> allocated (snd (initiateMultipartHandler lib c st))"
  by (simp_all add: initiateMultipartHandler_def NewMultipartUpload_def Let_def split: option.splits)

lemma initiate_lookup:
  "k \<noteq> new_session_id c \<Longrightarrow>
   fmlookup (uploadSessions (snd (initiateMultipartHandler lib c st))) k = fmlookup (uploadSessions st) k"
  by (simp add: initiateMultipartHandler_def NewMultipartUpload_def Let_def split: option.splits)

lemma initiate_sessions:
  "q < allocated st \<Longrightarrow> sessions (snd (initiateMultipartHandler lib c st)) q = sessions st q"
  by (simp add: initiateMultipartHandler_def NewMultipartUpload_def Let_def split: option.splits)

lemma initiateRClone_frame:
  "uploadSessions (snd (initiateMultipartHandlerRClone lib c st)) = uploadSessions st"
  "sessions (snd (initiateMultipartHandlerRClone lib c st)) = sessions st"
  "store (snd (initiateMultipartHandlerRClone lib c st)) = store st"
  "allocated st \<le> allocated (snd (initiateMultipartHandlerRClone lib c st))"
  by (simp_all add: initiateMultipartHandlerRClone_def Let_def split: option.splits)

lemma initiateRClone_lookup:
  "k \<noteq> new_session_id c \<Longrightarrow>
   fmlookup (uploadSessionsRClone (snd (initiateMultipartHandlerRClone lib c st))) k
     = fmlookup (uploadSessionsRClone st) k"
  by (simp add: initiateMultipartHandlerRClone_def Let_def split: option.splits)

lemma initiateRClone_sessions:
  "q < allocated st \<Longrightarrow>
   sessionsRClone (snd (initiateMultipartHandlerRClone lib c st)) q = sessionsRClone st q"
  by (simp add: initiateMultipartHandlerRClone_def Let_def split: option.splits)

lemma afterRecord_frame:
  "allocated (snd (afterRecord sid p n k ok st)) = allocated st"
  "uploadSessionsRClone (snd (afterRecord sid p n k ok st)) = uploadSessionsRClone st"
  "sessionsRClone (snd (afterRecord sid p n k ok st)) = sessionsRClone st"
  "files (snd (afterRecord sid p n k ok st)) = files st"
  by (cases ok; simp add: afterRecord_def completeMultipartUpload_def
      CompleteMultipartUpload_def Let_def)+

lemma putPart_frame:
  assumes "putPart c p n st = Inr (etag, st1)"
  shows "allocated st1 = allocated st" "uploadSessionsRClone st1 = uploadSessionsRClone st"
    "sessionsRClone st1 = sessionsRClone st" "files st1 = files st"
  using assms by (auto simp: putPart_def split: option.splits)

lemma recordPart_frame:
  "allocated (recordPart p n etag st) = allocated st"
  "uploadSessionsRClone (recordPart p n etag st) = uploadSessionsRClone st"
  "sessionsRClone (recordPart p n etag st) = sessionsRClone st"
  "files (recordPart p n etag st) = files st"
  "store (recordPart p n etag st) = store st"
  by (simp_all add: recordPart_def)

lemma chunk_frame:
  "allocated (snd (uploadChunkHandler c st)) = allocated st"
  "uploadSessionsRClone (snd (uploadChunkHandler c st)) = uploadSessionsRClone st"
  "sessionsRClone (snd (uploadChunkHandler c st)) = sessionsRClone st"
  "files (snd (uploadChunkHandler c st)) = files st"
  by (cases c st rule: uploadChunkHandler_cases;
      simp add: afterRecord_frame recordPart_frame putPart_frame)+

lemma chunk_TotalParts:
  "TotalParts (sessions (snd (uploadChunkHandler c st)) q) = TotalParts (sessions st q)"
  by (cases c st rule: uploadChunkHandler_cases)
    (simp_all add: afterRecord_sessions recordPart_sessions putPart_sessions)

lemma abort_frame:
  "sessions (snd (abortMultipartHandler c st)) = sessions st"
  "allocated (snd (abortMultipartHandler c st)) = allocated st"
  "uploadSessionsRClone (snd (abortMultipartHandler c st)) = uploadSessionsRClone st"
  "sessionsRClone (snd (abortMultipartHandler c st)) = sessionsRClone st"
  "files (snd (abortMultipartHandler c st)) = files st"
  by (simp_all add: abortMultipartHandler_def releaseUpload_frame split: option.splits)

lemma abort_registry:
  "uploadSessions (snd (abortMultipartHandler c st)) =
     (if fst (abortMultipartHandler c st) = Inr UploadAborted
      then fmdrop (query_session_id c) (uploadSessions st) else uploadSessions st)"
  by (simp add: abortMultipartHandler_def releaseUpload_frame split: option.splits)

lemma finalize_frame:
  assumes "finalizeRCloneUpload p c st = (b, st')"
  shows "uploadSessions st' = uploadSessions st" "sessions st' = sessions st"
    "store st' = store st" "allocated st' = allocated st"
  using assms
  by (auto simp add: finalizeRCloneUpload_def Let_def split: option.splits prod.splits if_splits)

lemma finalize_TotalParts:
  "finalizeRCloneUpload p c st = (b, st') \<Longrightarrow>
   TotalPartsRClone (sessionsRClone st' q) = TotalPartsRClone (sessionsRClone st q)"
  by (auto simp add: finalizeRCloneUpload_def Let_def split: option.splits prod.splits if_splits)

lemma receive_frame:
  assumes "receivePart p n content failure st = (b, st')"
  shows "uploadSessions st' = uploadSessions st" "sessions st' = sessions st"
    "store st' = store st" "allocated st' = allocated st"
  using assms by (auto simp add: receivePart_def Let_def split: prod.splits)

lemma receive_TotalParts:
  "receivePart p n content failure st = (b, st') \<Longrightarrow>
   TotalPartsRClone (sessionsRClone st' q) = TotalPartsRClone (sessionsRClone st q)"
  by (auto simp add: receivePart_def Let_def split: prod.splits)

lemma uploadChunkHandlerRClone_cases:
  obtains (rejected) e where "uploadChunkHandlerRClone c st = (Inl e, st)"
      "e = SessionNotFound \<longrightarrow> fmlookup (uploadSessionsRClone st) (session_id c) = None"
  | (write_failed) p n content st1 where
      "fmlookup (uploadSessionsRClone st) (session_id c) = Some p"
      "part_number c = Some n" "chunk c = Some content"
      "receivePart p n content (write_error c) st = (False, st1)"
      "uploadChunkHandlerRClone c st = (Inl FailedToWriteChunk, st1)"
  | (progress) p n content st1 where
      "fmlookup (uploadSessionsRClone st) (session_id c) = Some p"
      "part_number c = Some n" "chunk c = Some content"
      "receivePart p n content (write_error c) st = (True, st1)"
      "receivedCountOf p st1 \<noteq> TotalPartsRClone (sessionsRClone st1 p)"
      "uploadChunkHandlerRClone c st =
         (Inr (Encode (ChunkUploaded (session_id c) n
            (progressOf (receivedCountOf p st1) (TotalPartsRClone (sessionsRClone st1 p))))), st1)"
  | (finalize_failed) p n content st1 st2 where
      "fmlookup (uploadSessionsRClone st) (session_id c) = Some p"
      "part_number c = Some n" "chunk c = Some content"
      "receivePart p n content (write_error c) st = (True, st1)"
      "receivedCountOf p st1 = TotalPartsRClone (sessionsRClone st1 p)"
      "finalizeRCloneUpload p c st1 = (False, st2)"
      "uploadChunkHandlerRClone c st = (Inl FailedToFinalizeUpload, st2)"
  | (completed) p n content st1 st2 where
      "fmlookup (uploadSessionsRClone st) (session_id c) = Some p"
      "part_number c = Some n" "chunk c = Some content"
      "receivePart p n content (write_error c) st = (True, st1)"
      "receivedCountOf p st1 = TotalPartsRClone (sessionsRClone st1 p)"
      "finalizeRCloneUpload p c st1 = (True, st2)"
      "uploadChunkHandlerRClone c st =
         (Inr UploadCompleted,
          st2\<lparr>uploadSessionsRClone := fmdrop (session_id c) (uploadSessionsRClone st2)\<rparr>)"
proof (cases "cMethod c = ''POST'' \<and> form_ok c")
  case False
  then have "\<exists>e. uploadChunkHandlerRClone c st = (Inl e, st) \<and> e \<noteq> SessionNotFound"
    by (auto simp: uploadChunkHandlerRClone_def)
  then show ?thesis using rejected by blast
next
  case wf: True
  show ?thesis
  proof (cases "part_number c")
    case None
    with wf have "uploadChunkHandlerRClone c st = (Inl InvalidPartNumber, st)"
      by (simp add: uploadChunkHandlerRClone_def)
    then show ?thesis using rejected by blast
  next
    case (Some n)
    note n = this
    show ?thesis
    proof (cases "fmlookup (uploadSessionsRClone st) (session_id c)")
      case None
      with wf n have "uploadChunkHandlerRClone c st = (Inl SessionNotFound, st)"
        by (simp add: uploadChunkHandlerRClone_def)
      with None show ?thesis using rejected by blast
    next
      case (Some p)
      note p = this
      show ?thesis
      proof (cases "chunk c")
        case None
        with wf n p have "uploadChunkHandlerRClone c st = (Inl FailedToGetChunkFile, st)"
          by (simp add: uploadChunkHandlerRClone_def)
        then show ?thesis using rejected by blast
      next
        case (Some content)
        note content = this
        obtain written st1 where r: "receivePart p n content (write_error c) st = (written, st1)"
          by (cases "receivePart p n content (write_error c) st")
        show ?thesis
        proof (cases written)
          case False
          with r have r': "receivePart p n content (write_error c) st = (False, st1)"
            by simp
          with wf n p content have "uploadChunkHandlerRClone c st = (Inl FailedToWriteChunk, st1)"
            by (simp add: uploadChunkHandlerRClone_def Let_def)
          then show ?thesis
            by (rule write_failed [OF p n content r'])
        next
          case True
          with r have r': "receivePart p n content (write_error c) st = (True, st1)"
            by simp
          show ?thesis
          proof (cases "receivedCountOf p st1 = TotalPartsRClone (sessionsRClone st1 p)")
            case False
            with wf n p content r' have "uploadChunkHandlerRClone c st =
               (Inr (Encode (ChunkUploaded (session_id c) n
                  (progressOf (receivedCountOf p st1) (TotalPartsRClone (sessionsRClone st1 p))))), st1)"
              by (simp add: uploadChunkHandlerRClone_def Let_def)
            then show ?thesis
              by (rule progress [OF p n content r' False])
          next
            case True
            note full = this
            obtain ok st2 where f: "finalizeRCloneUpload p c st1 = (ok, st2)"
              by (cases "finalizeRCloneUpload p c st1")
            show ?thesis
            proof (cases ok)
              case False
              with f have f': "finalizeRCloneUpload p c st1 = (False, st2)"
                by simp
              with wf n p content r' full
              have "uploadChunkHandlerRClone c st = (Inl FailedToFinalizeUpload, st2)"
                by (simp add: uploadChunkHandlerRClone_def completeRClone_def Let_def)
              then show ?thesis
                by (rule finalize_failed [OF p n content r' full f'])
            next
              case True
              with f have f': "finalizeRCloneUpload p c st1 = (True, st2)"
                by simp
              with wf n p content r' full
              have "uploadChunkHandlerRClone c st =
                 (Inr UploadCompleted,
                  st2\<lparr>uploadSessionsRClone := fmdrop (session_id c) (uploadSessionsRClone st2)\<rparr>)"
                by (simp add: uploadChunkHandlerRClone_def completeRClone_def Let_def)
              then show ?thesis
                by (rule completed [OF p n content r' full f'])
            qed
          qed
        qed
      qed
    qed
  qed
qed

lemma chunkRClone_frame:
  "uploadSessions (snd (uploadChunkHandlerRClone c st)) = uploadSessions st"
  "sessions (snd (uploadChunkHandlerRClone c st)) = sessions st"
  "store (snd (uploadChunkHandlerRClone c st)) = store st"
  "allocated (snd (uploadChunkHandlerRClone c st)) = allocated st"
  by (cases rule: uploadChunkHandlerRClone_cases [of c st];
      simp add: receive_frame finalize_frame)+

lemma chunkRClone_TotalParts:
  "TotalPartsRClone (sessionsRClone (snd (uploadChunkHandlerRClone c st)) q)
     = TotalPartsRClone (sessionsRClone st q)"
  by (cases rule: uploadChunkHandlerRClone_cases [of c st])
    (simp_all add: receive_TotalParts finalize_TotalParts)

lemma abortRClone_frame:
  "uploadSessions (snd (abortMultipartHandlerRClone c st)) = uploadSessions st"
  "sessions (snd (abortMultipartHandlerRClone c st)) = sessions st"
  "store (snd (abortMultipartHandlerRClone c st)) = store st"
  "allocated (snd (abortMultipartHandlerRClone c st)) = allocated st"
  by (simp_all add: abortMultipartHandlerRClone_def Let_def split: option.splits)

lemma abortRClone_registry:
  "uploadSessionsRClone (snd (abortMultipartHandlerRClone c st)) =
     (if fst (abortMultipartHandlerRClone c st) = Inr UploadAborted
      then fmdrop (query_session_id c) (uploadSessionsRClone st) else uploadSessionsRClone st)"
  by (simp add: abortMultipartHandlerRClone_def Let_def split: option.splits)

lemma abortRClone_TotalParts:
  "TotalPartsRClone (sessionsRClone (snd (abortMultipartHandlerRClone c st)) q)
     = TotalPartsRClone (sessionsRClone st q)"
  by (simp add: abortMultipartHandlerRClone_def Let_def split: option.splits)


section \<open>Part numbers and completion\<close>

lemma reached_by_count_remote:
  assumes "findSession c st = Inr (p, n)" and "putPart c p n st = Inr (etag, st1)"
  shows "(fst (uploadChunkHandler c st) = Inr UploadCompleted \<or>
          fst (uploadChunkHandler c st) = Inl FailedToCompleteUpload)
        = (int (card (insert n (fmdom' (UploadedParts (sessions st p))))) = TotalParts (sessions st p))"
proof -
  have h: "uploadChunkHandler c st =
     afterRecord (session_id c) p n (uploadedCountOf p (recordPart p n etag st1)) (complete_ok c)
       (recordPart p n etag st1)"
    using assms by (simp add: uploadChunkHandler_put)
  have s: "sessions st1 = sessions st"
    using assms putPart_sessions by blast
  have k: "uploadedCountOf p (recordPart p n etag st1) =
      int (card (insert n (fmdom' (UploadedParts (sessions st p)))))"
    by (simp add: uploadedCountOf_def recordPart_sessions s len_card)
  have t: "TotalParts (sessions (recordPart p n etag st1) p) = TotalParts (sessions st p)"
    by (simp add: recordPart_sessions s)
  show ?thesis
    unfolding h k [symmetric] t [symmetric]
    by (cases "complete_ok c \<and> partsList (sessions (recordPart p n etag st1) p) \<noteq> []")
      (auto simp add: afterRecord_def completeMultipartUpload_def CompleteMultipartUpload_def Let_def)
qed

lemma assembled_from_range:
  assumes f: "findSession c st = Inr (p, n)" and pp: "putPart c p n st = Inr (etag, st1)"
    and k: "int (card (insert n (fmdom' (UploadedParts (sessions st p))))) = TotalParts (sessions st p)"
    and ok: "complete_ok c"
    and ne: "filter (\<lambda>i. i = n \<or> i |\<in>| fmdom (UploadedParts (sessions st p)))
               [1..TotalParts (sessions st p)] \<noteq> []"
  shows "fst (uploadChunkHandler c st) = Inr UploadCompleted"
    and "objects (store (snd (uploadChunkHandler c st))) (FileName (sessions st p))
          = Some (concat (map (partBytes (store st1) (UploadID (sessions st p)))
              (map (\<lambda>i. if i = n then \<lparr>PartNumber = n, ETag = etag\<rparr>
                         else the (fmlookup (UploadedParts (sessions st p)) i))
                 (filter (\<lambda>i. i = n \<or> i |\<in>| fmdom (UploadedParts (sessions st p)))
                    [1..TotalParts (sessions st p)]))))"
proof -
  let ?st2 = "recordPart p n etag st1"
  let ?list = "map (\<lambda>i. if i = n then \<lparr>PartNumber = n, ETag = etag\<rparr>
                         else the (fmlookup (UploadedParts (sessions st p)) i))
                 (filter (\<lambda>i. i = n \<or> i |\<in>| fmdom (UploadedParts (sessions st p)))
                    [1..TotalParts (sessions st p)])"
  have h: "uploadChunkHandler c st =
     afterRecord (session_id c) p n (uploadedCountOf p ?st2) (complete_ok c) ?st2"
    using f pp by (simp add: uploadChunkHandler_put)
  have s: "sessions st1 = sessions st"
    using pp putPart_sessions by blast
  have s2: "sessions ?st2 p = (sessions st p)\<lparr>UploadedParts :=
      fmupd n \<lparr>PartNumber = n, ETag = etag\<rparr> (UploadedParts (sessions st p))\<rparr>"
    by (simp add: recordPart_sessions s)
  have count: "uploadedCountOf p ?st2 = TotalParts (sessions ?st2 p)"
    using k by (simp add: uploadedCountOf_def s2 len_card)
  have "partsList (sessions ?st2 p) =
      map (\<lambda>i. the (fmlookup (fmupd n \<lparr>PartNumber = n, ETag = etag\<rparr> (UploadedParts (sessions st p))) i))
        (filter (\<lambda>i. i = n \<or> i |\<in>| fmdom (UploadedParts (sessions st p))) [1..TotalParts (sessions st p)])"
    by (simp add: partsList_eq s2)
  also have "\<dots> = ?list"
    by (rule map_cong) simp_all
  finally have pl: "partsList (sessions ?st2 p) = ?list" .
  have st2: "store ?st2 = store st1"
    by (simp add: recordPart_def)
  have fn: "FileName (sessions ?st2 p) = FileName (sessions st p)"
    "UploadID (sessions ?st2 p) = UploadID (sessions st p)"
    by (simp_all add: s2)
  have r: "uploadChunkHandler c st = completeMultipartUpload (session_id c) p True ?st2"
    using count ok by (simp add: h afterRecord_def)
  show "fst (uploadChunkHandler c st) = Inr UploadCompleted"
    using ne unfolding r
    by (simp add: completeMultipartUpload_def CompleteMultipartUpload_def Let_def pl)
  show "objects (store (snd (uploadChunkHandler c st))) (FileName (sessions st p))
          = Some (concat (map (partBytes (store st1) (UploadID (sessions st p))) ?list))"
    using ne unfolding r
    by (simp add: completeMultipartUpload_def CompleteMultipartUpload_def Let_def pl st2 fn partBytes_def
        partsOf_def)
qed

lemma reached_by_count_local:
  assumes "cMethod c = ''POST''" and "form_ok c" and "part_number c = Some n"
    and "fmlookup (uploadSessionsRClone st) (session_id c) = Some p" and "chunk c = Some content"
    and "fst (receivePart p n content (write_error c) st)"
  shows "(fst (uploadChunkHandlerRClone c st) = Inr UploadCompleted \<or>
          fst (uploadChunkHandlerRClone c st) = Inl FailedToFinalizeUpload)
        = (int (card (insert n (fmdom' (ReceivedParts (sessionsRClone st p)))))
           = TotalPartsRClone (sessionsRClone st p))"
proof -
  obtain st1 where r: "receivePart p n content (write_error c) st = (True, st1)"
    using assms(6) by (cases "receivePart p n content (write_error c) st") simp
  then have k: "receivedCountOf p st1 = int (card (insert n (fmdom' (ReceivedParts (sessionsRClone st p)))))"
    and t: "TotalPartsRClone (sessionsRClone st1 p) = TotalPartsRClone (sessionsRClone st p)"
    by (auto simp: receivePart_def receivedCountOf_def len_card Let_def split: prod.splits)
  show ?thesis
    using assms(1-5) r
    by (cases "finalizeRCloneUpload p c st1")
      (auto simp: uploadChunkHandlerRClone_def completeRClone_def Let_def k t split: bool.splits)
qed

text \<open>
  Counterexample to C3. A remote session declared with two parts receives part 1 and
  then part 5: the second upload is answered \<open>UploadCompleted\<close>, the recorded part
  numbers are 1 and 5, and the object holds the bytes of part 1 only. A local-staging
  session declared with two parts receives parts 5 and 7: the second upload is answered
  \<open>UploadCompleted\<close> and the target file holds both chunks. A remote session declared
  with two parts that receives parts 5 and 7 reaches \<open>completeMultipartUpload\<close> as well;
  there the store refuses the empty list.
\<close>

theorem completion_with_parts_outside_range:
  "fst (uploadChunkHandler (chunkCall ''s1'' 5 ''def'' True)
         (snd (uploadChunkHandler (chunkCall ''s1'' 1 ''abc'' True) (exampleServer 2))))
     = Inr UploadCompleted
   \<and> TotalParts (sessions (exampleServer 2) 0) = 2
   \<and> fmdom (UploadedParts (sessions
         (snd (uploadChunkHandler (chunkCall ''s1'' 5 ''def'' True)
           (snd (uploadChunkHandler (chunkCall ''s1'' 1 ''abc'' True) (exampleServer 2))))) 0))
     = {|1, 5|}
   \<and> objects (store
         (snd (uploadChunkHandler (chunkCall ''s1'' 5 ''def'' True)
           (snd (uploadChunkHandler (chunkCall ''s1'' 1 ''abc'' True) (exampleServer 2))))))
        ''big.bin'' = Some ''abc''
   \<and> fst (uploadChunkHandlerRClone (chunkCallRClone ''s1'' 7 ''def'' None True)
         (snd (uploadChunkHandlerRClone (chunkCallRClone ''s1'' 5 ''abc'' None True) (exampleServer 2))))
     = Inr UploadCompleted
   \<and> TotalPartsRClone (sessionsRClone (exampleServer 2) 1) = 2
   \<and> fmdom (ReceivedParts (sessionsRClone
         (snd (uploadChunkHandlerRClone (chunkCallRClone ''s1'' 7 ''def'' None True)
           (snd (uploadChunkHandlerRClone (chunkCallRClone ''s1'' 5 ''abc'' None True) (exampleServer 2))))) 1))
     = {|5, 7|}
   \<and> files (snd (uploadChunkHandlerRClone (chunkCallRClone ''s1'' 7 ''def'' None True)
         (snd (uploadChunkHandlerRClone (chunkCallRClone ''s1'' 5 ''abc'' None True) (exampleServer 2)))))
        ''/storage/big.bin'' = Some ''abcdef''
   \<and> fst (uploadChunkHandler (chunkCall ''s1'' 7 ''def'' True)
         (snd (uploadChunkHandler (chunkCall ''s1'' 5 ''abc'' True) (exampleServer 2))))
     = Inl FailedToCompleteUpload"
proof -
  let ?st = "snd (uploadChunkHandler (chunkCall ''s1'' 1 ''abc'' True) (exampleServer 2))"
  have st: "?st = (exampleServer 2)
      \<lparr>store := \<lparr>uploads = [''u1'' \<mapsto> [1 \<mapsto> ''abc'']], objects = Map.empty\<rparr>,
       sessions := (\<lambda>p. zeroSession)(0 := (remoteSession 2)
          \<lparr>UploadedParts := fmupd 1 \<lparr>PartNumber = 1, ETag = ''etag-abc''\<rparr> fmempty\<rparr>)\<rparr>"
    by (simp add: remote_defs example_defs)
  let ?st' = "snd (uploadChunkHandler (chunkCall ''s1'' 5 ''abc'' True) (exampleServer 2))"
  have st': "?st' = (exampleServer 2)
      \<lparr>store := \<lparr>uploads = [''u1'' \<mapsto> [5 \<mapsto> ''abc'']], objects = Map.empty\<rparr>,
       sessions := (\<lambda>p. zeroSession)(0 := (remoteSession 2)
          \<lparr>UploadedParts := fmupd 5 \<lparr>PartNumber = 5, ETag = ''etag-abc''\<rparr> fmempty\<rparr>)\<rparr>"
    by (simp add: remote_defs example_defs)
  let ?lt = "snd (uploadChunkHandlerRClone (chunkCallRClone ''s1'' 5 ''abc'' None True) (exampleServer 2))"
  have lt: "?lt = (exampleServer 2)
      \<lparr>files := [''/tmp/up1'' \<mapsto> ''abc''],
       sessionsRClone := (\<lambda>p. zeroSessionRClone)(1 := (localSession 2)
          \<lparr>TempFile := \<lparr>Name = ''/tmp/up1'', offset = length ''abc'', closed = False\<rparr>,
           ReceivedParts := fmupd 5 True fmempty\<rparr>)\<rparr>"
    by (simp add: local_defs example_defs)
  have a: "fst (uploadChunkHandler (chunkCall ''s1'' 5 ''def'' True) ?st) = Inr UploadCompleted"
    "fmdom (UploadedParts (sessions (snd (uploadChunkHandler (chunkCall ''s1'' 5 ''def'' True) ?st)) 0)) = {|1, 5|}"
    "objects (store (snd (uploadChunkHandler (chunkCall ''s1'' 5 ''def'' True) ?st))) ''big.bin'' = Some ''abc''"
    unfolding st
    by (simp_all add: remote_defs example_defs partsList_eval partBytes_def finsert_commute)
  have b: "fst (uploadChunkHandlerRClone (chunkCallRClone ''s1'' 7 ''def'' None True) ?lt) = Inr UploadCompleted"
    "fmdom (ReceivedParts (sessionsRClone
        (snd (uploadChunkHandlerRClone (chunkCallRClone ''s1'' 7 ''def'' None True) ?lt)) 1)) = {|5, 7|}"
    "files (snd (uploadChunkHandlerRClone (chunkCallRClone ''s1'' 7 ''def'' None True) ?lt))
        ''/storage/big.bin'' = Some ''abcdef''"
    unfolding lt
    by (simp_all add: local_defs example_defs finsert_commute)
  have c: "fst (uploadChunkHandler (chunkCall ''s1'' 7 ''def'' True) ?st') = Inl FailedToCompleteUpload"
    unfolding st'
    by (simp add: remote_defs example_defs partsList_eval)
  have d: "TotalParts (sessions (exampleServer 2) 0) = 2"
    "TotalPartsRClone (sessionsRClone (exampleServer 2) 1) = 2"
    by (simp_all add: example_defs)
  from a b c d show ?thesis
    by simp
qed

text \<open>
  C3, amended. Neither handler looks at the part numbers. On the remote path an
  accepted chunk reaches \<open>completeMultipartUpload\<close> (and is answered \<open>UploadCompleted\<close>
  or \<open>FailedToCompleteUpload\<close>) exactly when the number of distinct part numbers
  recorded, the new one included, equals \<open>TotalParts\<close>; the list it hands to the
  store holds the recorded parts numbered \<open>1..TotalParts\<close> in ascending order and
  leaves the others out, so when the store accepts it the object is the concatenation
  of exactly these parts. On the local-staging path a chunk that was written reaches
  \<open>finalizeRCloneUpload\<close> (and is answered \<open>UploadCompleted\<close> or
  \<open>FailedToFinalizeUpload\<close>) exactly when the number of distinct part numbers received,
  the new one included, equals \<open>TotalParts\<close>.
\<close>

theorem completion_decided_by_count:
  "(findSession c st = Inr (p, n) \<and> putPart c p n st = Inr (etag, st1)
    \<longrightarrow> (fst (uploadChunkHandler c st) = Inr UploadCompleted \<or>
         fst (uploadChunkHandler c st) = Inl FailedToCompleteUpload)
        = (int (card (insert n (fmdom' (UploadedParts (sessions st p))))) = TotalParts (sessions st p)))
   \<and> (findSession c st = Inr (p, n) \<and> putPart c p n st = Inr (etag, st1) \<and>
      int (card (insert n (fmdom' (UploadedParts (sessions st p))))) = TotalParts (sessions st p) \<and>
      complete_ok c \<and>
      filter (\<lambda>i. i = n \<or> i |\<in>| fmdom (UploadedParts (sessions st p)))
        [1..TotalParts (sessions st p)] \<noteq> []
    \<longrightarrow> fst (uploadChunkHandler c st) = Inr UploadCompleted
        \<and> objects (store (snd (uploadChunkHandler c st))) (FileName (sessions st p))
          = Some (concat (map (partBytes (store st1) (UploadID (sessions st p)))
              (map (\<lambda>i. if i = n then \<lparr>PartNumber = n, ETag = etag\<rparr>
                         else the (fmlookup (UploadedParts (sessions st p)) i))
                 (filter (\<lambda>i. i = n \<or> i |\<in>| fmdom (UploadedParts (sessions st p)))
                    [1..TotalParts (sessions st p)])))))
   \<and> (cMethod d = ''POST'' \<and> form_ok d \<and> part_number d = Some m \<and>
      fmlookup (uploadSessionsRClone st) (session_id d) = Some q \<and> chunk d = Some content \<and>
      fst (receivePart q m content (write_error d) st)
    \<longrightarrow> (fst (uploadChunkHandlerRClone d st) = Inr UploadCompleted \<or>
         fst (uploadChunkHandlerRClone d st) = Inl FailedToFinalizeUpload)
        = (int (card (insert m (fmdom' (ReceivedParts (sessionsRClone st q)))))
           = TotalPartsRClone (sessionsRClone st q)))"
  using reached_by_count_remote [of c st p n etag st1]
    assembled_from_range [of c st p n etag st1]
    reached_by_count_local [of d m st q content]
  by blast

theorem completion_decided_by_count_witness:
  "(fst (uploadChunkHandler (chunkCall ''s1'' 9 ''abc'' False) (exampleServer 1)) = Inr UploadCompleted \<or>
    fst (uploadChunkHandler (chunkCall ''s1'' 9 ''abc'' False) (exampleServer 1)) = Inl FailedToCompleteUpload)
   \<and> int (card (insert 9 (fmdom' (UploadedParts (sessions (exampleServer 1) 0)))))
     = TotalParts (sessions (exampleServer 1) 0)
   \<and> fst (uploadChunkHandler (chunkCall ''s1'' 1 ''abc'' True) (exampleServer 1)) = Inr UploadCompleted
   \<and> objects (store (snd (uploadChunkHandler (chunkCall ''s1'' 1 ''abc'' True) (exampleServer 1))))
       ''big.bin'' = Some ''abc''
   \<and> (fst (uploadChunkHandlerRClone (chunkCallRClone ''s1'' 9 ''abc'' None True) (exampleServer 1))
        = Inr UploadCompleted \<or>
      fst (uploadChunkHandlerRClone (chunkCallRClone ''s1'' 9 ''abc'' None True) (exampleServer 1))
        = Inl FailedToFinalizeUpload)
   \<and> int (card (insert 9 (fmdom' (ReceivedParts (sessionsRClone (exampleServer 1) 1)))))
     = TotalPartsRClone (sessionsRClone (exampleServer 1) 1)"
proof -
  let ?st = "exampleServer 1"
  let ?c = "chunkCall ''s1'' 1 ''abc'' True"
  let ?c' = "chunkCall ''s1'' 9 ''abc'' False"
  let ?d = "chunkCallRClone ''s1'' 9 ''abc'' None True"
  note T = completion_decided_by_count
  have found: "findSession ?c ?st = Inr (0, 1)" "findSession ?c' ?st = Inr (0, 9)"
    by (simp_all add: findSession_def example_defs)
  let ?st1 = "?st\<lparr>store := \<lparr>uploads = [''u1'' \<mapsto> [1 \<mapsto> ''abc'']], objects = Map.empty\<rparr>\<rparr>"
  have put: "putPart ?c 0 1 ?st = Inr (''etag-abc'', ?st1)"
    by (simp add: putPart_def PutObjectPart_def partsOf_def example_defs)
  obtain st1' where put': "putPart ?c' 0 9 ?st = Inr (''etag-abc'', st1')"
    by (simp add: putPart_def PutObjectPart_def example_defs)
  have s: "sessions ?st 0 = remoteSession 1" "sessionsRClone ?st 1 = localSession 1"
    by (simp_all add: exampleServer_def)
  have count: "int (card (insert 1 (fmdom' (UploadedParts (sessions ?st 0))))) = TotalParts (sessions ?st 0)"
    "int (card (insert 9 (fmdom' (UploadedParts (sessions ?st 0))))) = TotalParts (sessions ?st 0)"
    "int (card (insert 9 (fmdom' (ReceivedParts (sessionsRClone ?st 1)))))
       = TotalPartsRClone (sessionsRClone ?st 1)"
    by (simp_all add: exampleServer_def remoteSession_def localSession_def)
  have ne: "filter (\<lambda>i. i = 1 \<or> i |\<in>| fmdom (UploadedParts (sessions ?st 0)))
        [1..TotalParts (sessions ?st 0)] \<noteq> []"
    by (simp add: s remoteSession_def upto_rec1)
  have okc: "complete_ok ?c"
    by (simp add: chunkCall_def)
  from T [where c = ?c' and st = ?st and p = 0 and n = 9
      and etag = "''etag-abc''" and ?st1.0 = st1'] found(2) put' count(2)
  have r1: "fst (uploadChunkHandler ?c' ?st) = Inr UploadCompleted \<or>
      fst (uploadChunkHandler ?c' ?st) = Inl FailedToCompleteUpload"
    by blast
  from T [where c = ?c and st = ?st and p = 0 and n = 1
      and etag = "''etag-abc''" and ?st1.0 = ?st1] found(1) put count(1) okc ne
  have r2: "fst (uploadChunkHandler ?c ?st) = Inr UploadCompleted"
    and r3: "objects (store (snd (uploadChunkHandler ?c ?st))) (FileName (sessions ?st 0))
          = Some (concat (map (partBytes (store ?st1) (UploadID (sessions ?st 0)))
              (map (\<lambda>i. if i = 1 then \<lparr>PartNumber = 1, ETag = ''etag-abc''\<rparr>
                         else the (fmlookup (UploadedParts (sessions ?st 0)) i))
                 (filter (\<lambda>i. i = 1 \<or> i |\<in>| fmdom (UploadedParts (sessions ?st 0)))
                    [1..TotalParts (sessions ?st 0)]))))"
    by blast+
  have r3': "objects (store (snd (uploadChunkHandler ?c ?st))) ''big.bin'' = Some ''abc''"
    using r3 by (simp add: s remoteSession_def upto_rec1 partBytes_def partsOf_def)
  have wf: "cMethod ?d = ''POST''" "form_ok ?d" "part_number ?d = Some 9"
    "fmlookup (uploadSessionsRClone ?st) (session_id ?d) = Some 1" "chunk ?d = Some ''abc''"
    "fst (receivePart 1 9 ''abc'' (write_error ?d) ?st)"
    by (simp_all add: chunkCallRClone_def exampleServer_def localSession_def receivePart_def fileWrite_def)
  from T [where d = ?d and st = ?st and q = 1 and m = 9 and content = "''abc''"] wf count(3)
  have r4: "fst (uploadChunkHandlerRClone ?d ?st) = Inr UploadCompleted \<or>
      fst (uploadChunkHandlerRClone ?d ?st) = Inl FailedToFinalizeUpload"
    by blast
  from r1 r2 r3' r4 count show ?thesis
    by blast
qed


section \<open>Runs\<close>

lemma serveAll_Cons:
  "serveAll lib (x # xs) st =
     (fst (serveCall lib x st) # fst (serveAll lib xs (snd (serveCall lib x st))),
      snd (serveAll lib xs (snd (serveCall lib x st))))"
  by (simp split: prod.splits)

lemma length_serveAll: "length (fst (serveAll lib calls st)) = length calls"
  by (induction calls arbitrary: st) (simp_all add: serveAll_Cons del: serveAll.simps(2))

lemma completions_Nil: "completions sid [] rs = 0"
  by (simp add: completions_def)

lemma completions_Cons:
  "completions sid (x # xs) (r # rs) =
     (if isChunkFor sid x \<and> r = Some (Inr UploadCompleted) then 1 else 0) + completions sid xs rs"
  by (simp add: completions_def)

lemma completionsRClone_Nil: "completionsRClone sid [] rs = 0"
  by (simp add: completionsRClone_def)

lemma completionsRClone_Cons:
  "completionsRClone sid (x # xs) (r # rs) =
     (if isChunkRCloneFor sid x \<and> r = Some (Inr UploadCompleted) then 1 else 0)
       + completionsRClone sid xs rs"
  by (simp add: completionsRClone_def)

lemma serveCall_stays_removed:
  assumes "fmlookup (uploadSessions st) sid = None" and "\<not> issues sid x"
  shows "fmlookup (uploadSessions (snd (serveCall lib x st))) sid = None"
proof (cases x)
  case (Initiate c)
  with assms show ?thesis
    by (simp add: serveCall_def replied_def issues_def initiate_lookup)
next
  case (Chunk c)
  with assms show ?thesis
    by (simp add: serveCall_def replied_def chunk_registry)
next
  case (Abort c)
  with assms show ?thesis
    by (simp add: serveCall_def replied_def abort_registry)
next
  case (Sweep vs)
  with assms show ?thesis
    by (simp add: serveCall_def cleanup_lookup_None)
next
  case (InitiateRClone c)
  with assms show ?thesis
    by (simp add: serveCall_def replied_def initiateRClone_frame)
next
  case (ChunkRClone c)
  with assms show ?thesis
    by (simp add: serveCall_def replied_def chunkRClone_frame)
next
  case (AbortRClone c)
  with assms show ?thesis
    by (simp add: serveCall_def replied_def abortRClone_frame)
qed

lemma serveCall_stays_removed_RClone:
  assumes "fmlookup (uploadSessionsRClone st) sid = None" and "\<not> issuesRClone sid x"
  shows "fmlookup (uploadSessionsRClone (snd (serveCall lib x st))) sid = None"
proof (cases x)
  case (Initiate c)
  with assms show ?thesis
    by (simp add: serveCall_def replied_def initiate_frame)
next
  case (Chunk c)
  with assms show ?thesis
    by (simp add: serveCall_def replied_def chunk_frame)
next
  case (Abort c)
  with assms show ?thesis
    by (simp add: serveCall_def replied_def abort_frame)
next
  case (Sweep vs)
  with assms show ?thesis
    by (simp add: serveCall_def cleanup_frame)
next
  case (InitiateRClone c)
  with assms show ?thesis
    by (simp add: serveCall_def replied_def issuesRClone_def initiateRClone_lookup)
next
  case (ChunkRClone c)
  with assms show ?thesis
    by (simp add: serveCall_def replied_def chunkRClone_registry)
next
  case (AbortRClone c)
  with assms show ?thesis
    by (simp add: serveCall_def replied_def abortRClone_registry)
qed

lemma serveAll_stays_removed:
  "fmlookup (uploadSessions st) sid = None \<Longrightarrow> \<forall>x \<in> set calls. \<not> issues sid x \<Longrightarrow>
   fmlookup (uploadSessions (snd (serveAll lib calls st))) sid = None"
  by (induction calls arbitrary: st)
    (simp_all add: serveAll_Cons serveCall_stays_removed del: serveAll.simps(2))

lemma serveAll_stays_removed_RClone:
  "fmlookup (uploadSessionsRClone st) sid = None \<Longrightarrow> \<forall>x \<in> set calls. \<not> issuesRClone sid x \<Longrightarrow>
   fmlookup (uploadSessionsRClone (snd (serveAll lib calls st))) sid = None"
  by (induction calls arbitrary: st)
    (simp_all add: serveAll_Cons serveCall_stays_removed_RClone del: serveAll.simps(2))


lemma chunk_completed_removed:
  "fst (uploadChunkHandler c st) = Inr UploadCompleted \<Longrightarrow>
   fmlookup (uploadSessions (snd (uploadChunkHandler c st))) (session_id c) = None"
  by (simp add: chunk_registry)








section \<open>Removed sessions\<close>

lemma abort_removed:
  "fst (abortMultipartHandler a st) = Inr UploadAborted \<Longrightarrow>
   fmlookup (uploadSessions (snd (abortMultipartHandler a st))) (query_session_id a) = None"
  by (simp add: abort_registry)

lemma abortRClone_removed:
  "fst (abortMultipartHandlerRClone a st) = Inr UploadAborted \<Longrightarrow>
   fmlookup (uploadSessionsRClone (snd (abortMultipartHandlerRClone a st))) (query_session_id a) = None"
  by (simp add: abortRClone_registry)

lemma sweep_removed:
  "fmlookup (uploadSessions st) (visit_id v) = Some p \<Longrightarrow> expired (clock v) (sessions st p) \<Longrightarrow>
   fmlookup (uploadSessions (sweepSession v st)) (visit_id v) = None"
  by (simp add: sweepSession_lookup)

lemma findSession_removed:
  assumes "fmlookup (uploadSessions st) (session_id c) = None"
  shows "findSession c st =
     Inl (if cMethod c \<noteq> ''POST'' then MethodNotAllowed
          else if \<not> form_ok c then FailedToParseForm
          else if part_number c = None then InvalidPartNumber
          else SessionNotFound)"
  using assms by (cases "part_number c") (simp_all add: findSession_def)

lemma chunk_not_found:
  assumes "fmlookup (uploadSessions st) (session_id c) = None"
  shows "snd (uploadChunkHandler c st) = st" and "\<exists>e. fst (uploadChunkHandler c st) = Inl e"
    and "cMethod c = ''POST'' \<Longrightarrow> form_ok c \<Longrightarrow> part_number c \<noteq> None \<Longrightarrow>
      fst (uploadChunkHandler c st) = Inl SessionNotFound"
  using findSession_removed [OF assms]
  by (simp_all add: uploadChunkHandler_not_found)

lemma abort_not_found:
  assumes "fmlookup (uploadSessions st) (query_session_id a) = None"
  shows "snd (abortMultipartHandler a st) = st" and "\<exists>e. fst (abortMultipartHandler a st) = Inl e"
    and "aMethod a = ''POST'' \<Longrightarrow> query_session_id a \<noteq> [] \<Longrightarrow>
      fst (abortMultipartHandler a st) = Inl SessionNotFound"
  using assms by (simp_all add: abortMultipartHandler_def)

lemma chunkRClone_not_found:
  assumes "fmlookup (uploadSessionsRClone st) (session_id c) = None"
  shows "snd (uploadChunkHandlerRClone c st) = st" and "\<exists>e. fst (uploadChunkHandlerRClone c st) = Inl e"
    and "cMethod c = ''POST'' \<Longrightarrow> form_ok c \<Longrightarrow> part_number c \<noteq> None \<Longrightarrow>
      fst (uploadChunkHandlerRClone c st) = Inl SessionNotFound"
  using assms by (auto simp add: uploadChunkHandlerRClone_def split: option.splits)

lemma abortRClone_not_found:
  assumes "fmlookup (uploadSessionsRClone st) (query_session_id a) = None"
  shows "snd (abortMultipartHandlerRClone a st) = st"
    and "\<exists>e. fst (abortMultipartHandlerRClone a st) = Inl e"
    and "aMethod a = ''POST'' \<Longrightarrow> query_session_id a \<noteq> [] \<Longrightarrow>
      fst (abortMultipartHandlerRClone a st) = Inl SessionNotFound"
  using assms by (simp_all add: abortMultipartHandlerRClone_def)

text \<open>
  C6. A session that is not in the session map stays out of it, whatever calls are
  served, as long as no initiation issues its identifier again (identifiers come from
  \<^verbatim>\<open>uuid.New()\<close>). After any such run, a chunk upload and an abort for the identifier
  are answered with an error and leave the server as it is; when the request is
  well-formed (method POST, the form and the part number parse, the identifier is not
  empty) the error is \<open>SessionNotFound\<close>. On both paths. A session leaves the map by
  completion, by abort and, on the remote path, by the sweep (\<open>chunk_completed_removed\<close>,
  \<open>abort_removed\<close>, \<open>sweep_removed\<close>, \<open>chunkRClone_completed_removed\<close>,
  \<open>abortRClone_removed\<close>).
\<close>

theorem removed_session_not_found:
  fixes c :: ChunkCall and a :: AbortCall and d :: ChunkCallRClone and b :: AbortCallRClone
  shows
  "(fmlookup (uploadSessions st) sid = None \<and> (\<forall>x \<in> set calls. \<not> issues sid x) \<and>
      session_id c = sid \<and> query_session_id a = sid
    \<longrightarrow> snd (uploadChunkHandler c (snd (serveAll lib calls st))) = snd (serveAll lib calls st)
        \<and> (\<exists>e. fst (uploadChunkHandler c (snd (serveAll lib calls st))) = Inl e)
        \<and> (cMethod c = ''POST'' \<and> form_ok c \<and> part_number c \<noteq> None
           \<longrightarrow> fst (uploadChunkHandler c (snd (serveAll lib calls st))) = Inl SessionNotFound)
        \<and> snd (abortMultipartHandler a (snd (serveAll lib calls st))) = snd (serveAll lib calls st)
        \<and> (\<exists>e. fst (abortMultipartHandler a (snd (serveAll lib calls st))) = Inl e)
        \<and> (aMethod a = ''POST'' \<and> sid \<noteq> []
           \<longrightarrow> fst (abortMultipartHandler a (snd (serveAll lib calls st))) = Inl SessionNotFound))
   \<and> (fmlookup (uploadSessionsRClone st) sid = None \<and> (\<forall>x \<in> set calls. \<not> issuesRClone sid x) \<and>
      session_id d = sid \<and> query_session_id b = sid
    \<longrightarrow> snd (uploadChunkHandlerRClone d (snd (serveAll lib calls st))) = snd (serveAll lib calls st)
        \<and> (\<exists>e. fst (uploadChunkHandlerRClone d (snd (serveAll lib calls st))) = Inl e)
        \<and> (cMethod d = ''POST'' \<and> form_ok d \<and> part_number d \<noteq> None
           \<longrightarrow> fst (uploadChunkHandlerRClone d (snd (serveAll lib calls st))) = Inl SessionNotFound)
        \<and> snd (abortMultipartHandlerRClone b (snd (serveAll lib calls st))) = snd (serveAll lib calls st)
        \<and> (\<exists>e. fst (abortMultipartHandlerRClone b (snd (serveAll lib calls st))) = Inl e)
        \<and> (aMethod b = ''POST'' \<and> sid \<noteq> []
           \<longrightarrow> fst (abortMultipartHandlerRClone b (snd (serveAll lib calls st))) = Inl SessionNotFound))"
proof (intro conjI impI)
  let ?st = "snd (serveAll lib calls st)"
  assume a: "fmlookup (uploadSessions st) sid = None \<and> (\<forall>x \<in> set calls. \<not> issues sid x) \<and>
      session_id c = sid \<and> query_session_id a = sid"
  then have gone: "fmlookup (uploadSessions ?st) (session_id c) = None"
    "fmlookup (uploadSessions ?st) (query_session_id a) = None"
    by (simp_all add: serveAll_stays_removed)
  show "snd (uploadChunkHandler c ?st) = ?st" "\<exists>e. fst (uploadChunkHandler c ?st) = Inl e"
    using gone(1) by (rule chunk_not_found)+
  show "snd (abortMultipartHandler a ?st) = ?st" "\<exists>e. fst (abortMultipartHandler a ?st) = Inl e"
    using gone(2) by (rule abort_not_found)+
  {
    assume "cMethod c = ''POST'' \<and> form_ok c \<and> part_number c \<noteq> None"
    then show "fst (uploadChunkHandler c ?st) = Inl SessionNotFound"
      using chunk_not_found(3) [OF gone(1)] by blast
  }
  {
    assume "aMethod a = ''POST'' \<and> sid \<noteq> []"
    then show "fst (abortMultipartHandler a ?st) = Inl SessionNotFound"
      using abort_not_found(3) [OF gone(2)] a by simp
  }
next
  let ?st = "snd (serveAll lib calls st)"
  assume a: "fmlookup (uploadSessionsRClone st) sid = None \<and> (\<forall>x \<in> set calls. \<not> issuesRClone sid x) \<and>
      session_id d = sid \<and> query_session_id b = sid"
  then have gone: "fmlookup (uploadSessionsRClone ?st) (session_id d) = None"
    "fmlookup (uploadSessionsRClone ?st) (query_session_id b) = None"
    by (simp_all add: serveAll_stays_removed_RClone)
  show "snd (uploadChunkHandlerRClone d ?st) = ?st" "\<exists>e. fst (uploadChunkHandlerRClone d ?st) = Inl e"
    using gone(1) by (rule chunkRClone_not_found)+
  show "snd (abortMultipartHandlerRClone b ?st) = ?st"
    "\<exists>e. fst (abortMultipartHandlerRClone b ?st) = Inl e"
    using gone(2) by (rule abortRClone_not_found)+
  {
    assume "cMethod d = ''POST'' \<and> form_ok d \<and> part_number d \<noteq> None"
    then show "fst (uploadChunkHandlerRClone d ?st) = Inl SessionNotFound"
      using chunkRClone_not_found(3) [OF gone(1)] by blast
  }
  {
    assume "aMethod b = ''POST'' \<and> sid \<noteq> []"
    then show "fst (abortMultipartHandlerRClone b ?st) = Inl SessionNotFound"
      using abortRClone_not_found(3) [OF gone(2)] a by simp
  }
qed


theorem removed_session_not_found_witness:
  "fst (uploadChunkHandler (chunkCall ''s1'' 1 ''abc'' True) (exampleServer 1)) = Inr UploadCompleted
   \<and> fst (uploadChunkHandler (chunkCall ''s1'' 2 ''def'' True)
        (snd (serveAll unixlib [Sweep [lateVisit], Chunk (chunkCall ''s1'' 1 ''abc'' True)]
           (snd (uploadChunkHandler (chunkCall ''s1'' 1 ''abc'' True) (exampleServer 1))))))
       = Inl SessionNotFound
   \<and> fst (abortMultipartHandler (abortCall ''s1'')
        (snd (serveAll unixlib [Sweep [lateVisit], Chunk (chunkCall ''s1'' 1 ''abc'' True)]
           (snd (uploadChunkHandler (chunkCall ''s1'' 1 ''abc'' True) (exampleServer 1))))))
       = Inl SessionNotFound
   \<and> fst (abortMultipartHandlerRClone (abortCallRClone ''s1'') (exampleServer 1)) = Inr UploadAborted
   \<and> fst (uploadChunkHandlerRClone (chunkCallRClone ''s1'' 1 ''abc'' None True)
        (snd (serveAll unixlib [AbortRClone (abortCallRClone ''s1'')]
           (snd (abortMultipartHandlerRClone (abortCallRClone ''s1'') (exampleServer 1))))))
       = Inl SessionNotFound
   \<and> fst (abortMultipartHandlerRClone (abortCallRClone ''s1'')
        (snd (serveAll unixlib [AbortRClone (abortCallRClone ''s1'')]
           (snd (abortMultipartHandlerRClone (abortCallRClone ''s1'') (exampleServer 1))))))
       = Inl SessionNotFound"
proof -
  let ?c1 = "chunkCall ''s1'' 1 ''abc'' True"
  let ?c = "chunkCall ''s1'' 2 ''def'' True"
  let ?a = "abortCall ''s1''"
  let ?d = "chunkCallRClone ''s1'' 1 ''abc'' None True"
  let ?b = "abortCallRClone ''s1''"
  let ?st = "snd (uploadChunkHandler ?c1 (exampleServer 1))"
  let ?calls = "[Sweep [lateVisit], Chunk ?c1]"
  let ?st' = "snd (abortMultipartHandlerRClone ?b (exampleServer 1))"
  let ?calls' = "[AbortRClone ?b]"
  note T = removed_session_not_found
  have completed: "fst (uploadChunkHandler ?c1 (exampleServer 1)) = Inr UploadCompleted"
    by (simp add: remote_defs example_defs partsList_eval)
  then have gone: "fmlookup (uploadSessions ?st) ''s1'' = None"
    using chunk_completed_removed [of ?c1 "exampleServer 1"] by (simp add: chunkCall_def)
  have calls: "\<forall>x \<in> set ?calls. \<not> issues ''s1'' x"
    by (simp add: issues_def)
  have wf: "session_id ?c = ''s1'' \<and> query_session_id ?a = ''s1''"
    "cMethod ?c = ''POST'' \<and> form_ok ?c \<and> part_number ?c \<noteq> None"
    "aMethod ?a = ''POST'' \<and> ''s1'' \<noteq> []"
    by (simp_all add: example_defs)
  from T [where st = ?st and sid = "''s1''" and calls = ?calls and c = ?c and a = ?a and lib = unixlib]
    gone calls wf
  have r1: "fst (uploadChunkHandler ?c (snd (serveAll unixlib ?calls ?st))) = Inl SessionNotFound"
    and r2: "fst (abortMultipartHandler ?a (snd (serveAll unixlib ?calls ?st))) = Inl SessionNotFound"
    by blast+
  have aborted: "fst (abortMultipartHandlerRClone ?b (exampleServer 1)) = Inr UploadAborted"
    by (simp add: abortMultipartHandlerRClone_def example_defs)
  then have gone': "fmlookup (uploadSessionsRClone ?st') ''s1'' = None"
    using abortRClone_removed [of ?b "exampleServer 1"] by (simp add: abortCallRClone_def)
  have calls': "\<forall>x \<in> set ?calls'. \<not> issuesRClone ''s1'' x"
    by (simp add: issuesRClone_def)
  have wf': "session_id ?d = ''s1'' \<and> query_session_id ?b = ''s1''"
    "cMethod ?d = ''POST'' \<and> form_ok ?d \<and> part_number ?d \<noteq> None"
    "aMethod ?b = ''POST'' \<and> ''s1'' \<noteq> []"
    by (simp_all add: example_defs)
  from T [where st = ?st' and sid = "''s1''" and calls = ?calls' and d = ?d and b = ?b and lib = unixlib]
    gone' calls' wf'
  have r3: "fst (uploadChunkHandlerRClone ?d (snd (serveAll unixlib ?calls' ?st'))) = Inl SessionNotFound"
    and r4: "fst (abortMultipartHandlerRClone ?b (snd (serveAll unixlib ?calls' ?st'))) = Inl SessionNotFound"
    by blast+
  from completed r1 r2 aborted r3 r4 show ?thesis
    by blast
qed


section \<open>Sessions declared with no parts\<close>

lemma len_fmupd_pos: "1 \<le> len (fmupd k v m)"
  by (simp add: len_def fcard_finsert)

lemma fmlookup_fmdrop_Some: "fmlookup (fmdrop k m) j = Some v \<Longrightarrow> fmlookup m j = Some v"
  by (simp split: if_splits)

lemma chunk_completed_total:
  assumes "fst (uploadChunkHandler c st) = Inr UploadCompleted"
  shows "\<exists>p. fmlookup (uploadSessions st) (session_id c) = Some p \<and> 1 \<le> TotalParts (sessions st p)"
proof (cases c st rule: uploadChunkHandler_cases)
  case (not_found e)
  with assms show ?thesis by simp
next
  case (not_put p n e)
  with assms show ?thesis by simp
next
  case (put p n etag st1)
  let ?st2 = "recordPart p n etag st1"
  have s: "sessions st1 = sessions st"
    using put(2) by (rule putPart_sessions)
  from assms put(3) have "uploadedCountOf p ?st2 = TotalParts (sessions ?st2 p)"
    by (simp add: afterRecord_def split: if_splits)
  then have "1 \<le> TotalParts (sessions st p)"
    using len_fmupd_pos [of n "\<lparr>PartNumber = n, ETag = etag\<rparr>" "UploadedParts (sessions st p)"]
    by (simp add: uploadedCountOf_def recordPart_sessions s)
  with put(1) show ?thesis
    by (auto dest: findSession_lookup)
qed

lemma receive_ReceivedParts:
  "receivePart p n content failure st = (b, st1) \<Longrightarrow>
   ReceivedParts (sessionsRClone st1 p) = fmupd n True (ReceivedParts (sessionsRClone st p))"
  by (auto simp add: receivePart_def Let_def split: prod.splits)

lemma chunkRClone_completed_total:
  assumes "fst (uploadChunkHandlerRClone c st) = Inr UploadCompleted"
  shows "\<exists>p. fmlookup (uploadSessionsRClone st) (session_id c) = Some p \<and>
     1 \<le> TotalPartsRClone (sessionsRClone st p)"
proof (cases rule: uploadChunkHandlerRClone_cases [of c st])
  case (completed p n content st1 st2)
  have "1 \<le> receivedCountOf p st1"
    using receive_ReceivedParts [OF completed(4)] by (simp add: receivedCountOf_def len_fmupd_pos)
  then have "1 \<le> TotalPartsRClone (sessionsRClone st p)"
    using completed(5) receive_TotalParts [OF completed(4), of p] by simp
  with completed(1) show ?thesis by simp
qed (use assms in simp_all)

lemma serveCall_keeps_nonpositive:
  assumes J: "\<forall>q. fmlookup (uploadSessions st) sid = Some q \<longrightarrow>
      q < allocated st \<and> TotalParts (sessions st q) \<le> 0"
    and x: "\<not> issues sid x"
  shows "\<forall>q. fmlookup (uploadSessions (snd (serveCall lib x st))) sid = Some q \<longrightarrow>
      q < allocated (snd (serveCall lib x st)) \<and> TotalParts (sessions (snd (serveCall lib x st)) q) \<le> 0"
proof (cases x)
  case (Initiate c)
  with x have "sid \<noteq> new_session_id c" by (auto simp: issues_def)
  with J Initiate show ?thesis
    using initiate_frame(4) [of st lib c]
    by (auto simp add: serveCall_def replied_def initiate_lookup initiate_sessions)
next
  case (Chunk c)
  with J show ?thesis
    by (auto simp add: serveCall_def replied_def chunk_registry chunk_frame chunk_TotalParts
        split: if_splits)
next
  case (Abort c)
  with J show ?thesis
    by (auto simp add: serveCall_def replied_def abort_registry abort_frame split: if_splits)
next
  case (Sweep vs)
  with J show ?thesis
    by (auto simp add: serveCall_def cleanup_frame dest: cleanup_lookup_Some)
next
  case (InitiateRClone c)
  with J show ?thesis
    using initiateRClone_frame(4) [of st lib c]
    by (auto simp add: serveCall_def replied_def initiateRClone_frame(1,2))
next
  case (ChunkRClone c)
  with J show ?thesis
    by (simp add: serveCall_def replied_def chunkRClone_frame)
next
  case (AbortRClone c)
  with J show ?thesis
    by (simp add: serveCall_def replied_def abortRClone_frame)
qed

lemma nonpositive_no_completions:
  "\<forall>q. fmlookup (uploadSessions st) sid = Some q \<longrightarrow>
      q < allocated st \<and> TotalParts (sessions st q) \<le> 0 \<Longrightarrow>
   \<forall>x \<in> set calls. \<not> issues sid x \<Longrightarrow>
   completions sid calls (fst (serveAll lib calls st)) = 0"
proof (induction calls arbitrary: st)
  case Nil
  then show ?case by (simp add: completions_Nil)
next
  case (Cons x xs)
  have "\<not> (isChunkFor sid x \<and> fst (serveCall lib x st) = Some (Inr UploadCompleted))"
    using Cons.prems(1)
    by (fastforce simp: isChunkFor_def serveCall_def replied_def split: call.splits
        dest: chunk_completed_total)
  moreover have "completions sid xs (fst (serveAll lib xs (snd (serveCall lib x st)))) = 0"
    using Cons.prems by (intro Cons.IH serveCall_keeps_nonpositive) simp_all
  ultimately show ?case
    by (simp add: serveAll_Cons completions_Cons del: serveAll.simps(2))
qed

lemma serveCall_keeps_nonpositive_RClone:
  assumes J: "\<forall>q. fmlookup (uploadSessionsRClone st) sid = Some q \<longrightarrow>
      q < allocated st \<and> TotalPartsRClone (sessionsRClone st q) \<le> 0"
    and x: "\<not> issuesRClone sid x"
  shows "\<forall>q. fmlookup (uploadSessionsRClone (snd (serveCall lib x st))) sid = Some q \<longrightarrow>
      q < allocated (snd (serveCall lib x st)) \<and>
      TotalPartsRClone (sessionsRClone (snd (serveCall lib x st)) q) \<le> 0"
proof (cases x)
  case (Initiate c)
  with J show ?thesis
    using initiate_frame(4) [of st lib c]
    by (auto simp add: serveCall_def replied_def initiate_frame(1,2))
next
  case (Chunk c)
  with J show ?thesis
    by (simp add: serveCall_def replied_def chunk_frame)
next
  case (Abort c)
  with J show ?thesis
    by (simp add: serveCall_def replied_def abort_frame)
next
  case (Sweep vs)
  with J show ?thesis
    by (simp add: serveCall_def cleanup_frame)
next
  case (InitiateRClone c)
  with x have "sid \<noteq> new_session_id c" by (auto simp: issuesRClone_def)
  with J InitiateRClone show ?thesis
    using initiateRClone_frame(4) [of st lib c]
    by (auto simp add: serveCall_def replied_def initiateRClone_lookup initiateRClone_sessions)
next
  case (ChunkRClone c)
  with J show ?thesis
    by (auto simp add: serveCall_def replied_def chunkRClone_registry chunkRClone_frame
        chunkRClone_TotalParts split: if_splits)
next
  case (AbortRClone c)
  with J show ?thesis
    by (auto simp add: serveCall_def replied_def abortRClone_registry abortRClone_frame
        abortRClone_TotalParts split: if_splits)
qed

lemma nonpositive_no_completions_RClone:
  "\<forall>q. fmlookup (uploadSessionsRClone st) sid = Some q \<longrightarrow>
      q < allocated st \<and> TotalPartsRClone (sessionsRClone st q) \<le> 0 \<Longrightarrow>
   \<forall>x \<in> set calls. \<not> issuesRClone sid x \<Longrightarrow>
   completionsRClone sid calls (fst (serveAll lib calls st)) = 0"
proof (induction calls arbitrary: st)
  case Nil
  then show ?case by (simp add: completionsRClone_Nil)
next
  case (Cons x xs)
  have "\<not> (isChunkRCloneFor sid x \<and> fst (serveCall lib x st) = Some (Inr UploadCompleted))"
    using Cons.prems(1)
    by (fastforce simp: isChunkRCloneFor_def serveCall_def replied_def split: call.splits
        dest: chunkRClone_completed_total)
  moreover have "completionsRClone sid xs (fst (serveAll lib xs (snd (serveCall lib x st)))) = 0"
    using Cons.prems by (intro Cons.IH serveCall_keeps_nonpositive_RClone) simp_all
  ultimately show ?case
    by (simp add: serveAll_Cons completionsRClone_Cons del: serveAll.simps(2))
qed

lemma progressOf_zero: "0 < k \<Longrightarrow> progressOf k 0 = PosInf"
  by (simp add: progressOf_def fdiv_def fmul100_def)

lemma progressOf_nonzero:
  "t \<noteq> 0 \<Longrightarrow> progressOf k t = Finite (real_of_int k / real_of_int t * 100)"
  by (simp add: progressOf_def fdiv_def fmul100_def)


lemma Encode_progress:
  "0 < k \<Longrightarrow>
   Encode (ChunkUploaded sid n (progressOf k t)) =
     (if t = 0 then EmptyBody else ChunkUploaded sid n (Finite (real_of_int k / real_of_int t * 100)))"
  by (simp add: progressOf_zero progressOf_nonzero Encode_def)

lemma nonpositive_reply_remote:
  assumes f: "findSession u st = Inr (q, n)" and pp: "putPart u q n st = Inr (etag, st1)"
    and t: "TotalParts (sessions st q) \<le> 0"
  shows "fst (uploadChunkHandler u st) =
          Inr (if TotalParts (sessions st q) = 0 then EmptyBody
               else ChunkUploaded (session_id u) n
                 (Finite (real_of_int (len (fmupd n \<lparr>PartNumber = n, ETag = etag\<rparr>
                                               (UploadedParts (sessions st q))))
                            / real_of_int (TotalParts (sessions st q)) * 100)))"
proof -
  let ?k = "len (fmupd n \<lparr>PartNumber = n, ETag = etag\<rparr> (UploadedParts (sessions st q)))"
  have s: "sessions st1 = sessions st"
    using pp by (rule putPart_sessions)
  have pos: "1 \<le> ?k"
    by (rule len_fmupd_pos)
  have "uploadChunkHandler u st =
     afterRecord (session_id u) q n (uploadedCountOf q (recordPart q n etag st1)) (complete_ok u)
       (recordPart q n etag st1)"
    using f pp by (simp add: uploadChunkHandler_put)
  with t pos have "fst (uploadChunkHandler u st) =
      Inr (Encode (ChunkUploaded (session_id u) n (progressOf ?k (TotalParts (sessions st q)))))"
    by (simp add: afterRecord_def uploadedCountOf_def recordPart_sessions s)
  with pos show ?thesis
    by (simp add: Encode_progress)
qed

lemma nonpositive_reply_local:
  assumes "cMethod v = ''POST''" and "form_ok v" and "part_number v = Some m"
    and "fmlookup (uploadSessionsRClone st) (session_id v) = Some r" and "chunk v = Some content"
    and w: "fst (receivePart r m content (write_error v) st)"
    and t: "TotalPartsRClone (sessionsRClone st r) \<le> 0"
  shows "fst (uploadChunkHandlerRClone v st) =
          Inr (if TotalPartsRClone (sessionsRClone st r) = 0 then EmptyBody
               else ChunkUploaded (session_id v) m
                 (Finite (real_of_int (len (fmupd m True (ReceivedParts (sessionsRClone st r))))
                            / real_of_int (TotalPartsRClone (sessionsRClone st r)) * 100)))"
proof -
  let ?k = "len (fmupd m True (ReceivedParts (sessionsRClone st r)))"
  obtain st1 where rp: "receivePart r m content (write_error v) st = (True, st1)"
    using w by (cases "receivePart r m content (write_error v) st") simp
  have k: "receivedCountOf r st1 = ?k"
    using receive_ReceivedParts [OF rp] by (simp add: receivedCountOf_def)
  have t1: "TotalPartsRClone (sessionsRClone st1 r) = TotalPartsRClone (sessionsRClone st r)"
    using rp by (rule receive_TotalParts)
  have pos: "1 \<le> ?k"
    by (rule len_fmupd_pos)
  with t have "fst (uploadChunkHandlerRClone v st) =
      Inr (Encode (ChunkUploaded (session_id v) m (progressOf ?k (TotalPartsRClone (sessionsRClone st r)))))"
    using assms(1-5) rp by (simp add: uploadChunkHandlerRClone_def Let_def k t1)
  with pos show ?thesis
    by (simp add: Encode_progress)
qed

text \<open>
  Counterexample to C10. A chunk uploaded to a session declared with zero parts is
  accepted, and the progress computed for it is \<open>+Inf\<close>; this value cannot be encoded,
  so the reply is status 200 with an empty body and reports no progress value, on both
  paths.
\<close>

theorem zero_total_reply_has_no_progress:
  "progressOf 1 0 = PosInf
   \<and> TotalParts (sessions (exampleServer 0) 0) = 0
   \<and> fst (uploadChunkHandler (chunkCall ''s1'' 1 ''abc'' True) (exampleServer 0)) = Inr EmptyBody
   \<and> len (UploadedParts (sessions
         (snd (uploadChunkHandler (chunkCall ''s1'' 1 ''abc'' True) (exampleServer 0))) 0)) = 1
   \<and> TotalPartsRClone (sessionsRClone (exampleServer 0) 1) = 0
   \<and> fst (uploadChunkHandlerRClone (chunkCallRClone ''s1'' 1 ''abc'' None True) (exampleServer 0))
       = Inr EmptyBody
   \<and> files (snd (uploadChunkHandlerRClone (chunkCallRClone ''s1'' 1 ''abc'' None True) (exampleServer 0)))
       ''/tmp/up1'' = Some ''abc''"
  by (simp add: remote_defs local_defs example_defs progressOf_def fdiv_def fmul100_def Encode_def)

text \<open>
  C10, amended. Neither initiation handler looks at \<open>total_parts\<close>: a well-formed
  initiation whose store call (or temporary file) succeeds registers a session with the
  declared number, whatever integer it is, and creates its backing resource. A session
  declared with a number of parts that is zero or negative never completes: in every
  run that does not issue its identifier again, no chunk upload for it is answered
  \<open>UploadCompleted\<close>, since the count is at least 1 after any chunk. On both paths every
  accepted chunk for a session declared with a negative number is answered with the
  progress \<open>count / TotalParts * 100\<close>, a negative number; for a session declared with
  zero parts the quotient is \<open>+Inf\<close>, and the reply is status 200 with an empty body.
\<close>

theorem nonpositive_total_never_completes:
  fixes c :: InitiateCall and d :: InitiateCallRClone and u :: ChunkCall and v :: ChunkCallRClone
  shows
  "(iMethod c = ''POST'' \<and> body c = Some req \<and> new_upload c = Some uploadID
    \<longrightarrow> fst (initiateMultipartHandler lib c st) = Inr (Initiated (new_session_id c) (Some uploadID))
        \<and> fmlookup (uploadSessions (snd (initiateMultipartHandler lib c st))) (new_session_id c)
            = Some (allocated st)
        \<and> TotalParts (sessions (snd (initiateMultipartHandler lib c st)) (allocated st)) = total_parts req
        \<and> uploads (store (snd (initiateMultipartHandler lib c st))) uploadID = Some Map.empty)
   \<and> (iMethod d = ''POST'' \<and> body d = Some req \<and> mkdir_ok d \<and> new_temp d = Some tmp
    \<longrightarrow> fst (initiateMultipartHandlerRClone lib d st) = Inr (Initiated (new_session_id d) None)
        \<and> fmlookup (uploadSessionsRClone (snd (initiateMultipartHandlerRClone lib d st))) (new_session_id d)
            = Some (allocated st)
        \<and> TotalPartsRClone (sessionsRClone (snd (initiateMultipartHandlerRClone lib d st)) (allocated st))
            = total_parts req
        \<and> files (snd (initiateMultipartHandlerRClone lib d st)) tmp = Some [])
   \<and> (fmlookup (uploadSessions st) sid = Some p \<and> p < allocated st \<and> TotalParts (sessions st p) \<le> 0 \<and>
      (\<forall>x \<in> set calls. \<not> issues sid x)
    \<longrightarrow> completions sid calls (fst (serveAll lib calls st)) = 0)
   \<and> (fmlookup (uploadSessionsRClone st) sid = Some p \<and> p < allocated st \<and>
      TotalPartsRClone (sessionsRClone st p) \<le> 0 \<and> (\<forall>x \<in> set calls. \<not> issuesRClone sid x)
    \<longrightarrow> completionsRClone sid calls (fst (serveAll lib calls st)) = 0)
   \<and> (findSession u st = Inr (q, n) \<and> putPart u q n st = Inr (etag, st1) \<and> TotalParts (sessions st q) \<le> 0
    \<longrightarrow> fst (uploadChunkHandler u st) =
          Inr (if TotalParts (sessions st q) = 0 then EmptyBody
               else ChunkUploaded (session_id u) n
                 (Finite (real_of_int (len (fmupd n \<lparr>PartNumber = n, ETag = etag\<rparr>
                                               (UploadedParts (sessions st q))))
                            / real_of_int (TotalParts (sessions st q)) * 100)))
        \<and> 1 \<le> len (fmupd n \<lparr>PartNumber = n, ETag = etag\<rparr> (UploadedParts (sessions st q)))
        \<and> progressOf (len (fmupd n \<lparr>PartNumber = n, ETag = etag\<rparr> (UploadedParts (sessions st q))))
              (TotalParts (sessions st q))
          = (if TotalParts (sessions st q) = 0 then PosInf
             else Finite (real_of_int (len (fmupd n \<lparr>PartNumber = n, ETag = etag\<rparr>
                                               (UploadedParts (sessions st q))))
                            / real_of_int (TotalParts (sessions st q)) * 100)))
   \<and> (cMethod v = ''POST'' \<and> form_ok v \<and> part_number v = Some m \<and>
      fmlookup (uploadSessionsRClone st) (session_id v) = Some r \<and> chunk v = Some content \<and>
      fst (receivePart r m content (write_error v) st) \<and> TotalPartsRClone (sessionsRClone st r) \<le> 0
    \<longrightarrow> fst (uploadChunkHandlerRClone v st) =
          Inr (if TotalPartsRClone (sessionsRClone st r) = 0 then EmptyBody
               else ChunkUploaded (session_id v) m
                 (Finite (real_of_int (len (fmupd m True (ReceivedParts (sessionsRClone st r))))
                            / real_of_int (TotalPartsRClone (sessionsRClone st r)) * 100)))
        \<and> 1 \<le> len (fmupd m True (ReceivedParts (sessionsRClone st r))))"
proof (intro conjI impI)
  assume "iMethod c = ''POST'' \<and> body c = Some req \<and> new_upload c = Some uploadID"
  then show "fst (initiateMultipartHandler lib c st) = Inr (Initiated (new_session_id c) (Some uploadID))"
    "fmlookup (uploadSessions (snd (initiateMultipartHandler lib c st))) (new_session_id c)
            = Some (allocated st)"
    "TotalParts (sessions (snd (initiateMultipartHandler lib c st)) (allocated st)) = total_parts req"
    "uploads (store (snd (initiateMultipartHandler lib c st))) uploadID = Some Map.empty"
    by (simp_all add: initiateMultipartHandler_def NewMultipartUpload_def Let_def)
next
  assume "iMethod d = ''POST'' \<and> body d = Some req \<and> mkdir_ok d \<and> new_temp d = Some tmp"
  then show "fst (initiateMultipartHandlerRClone lib d st) = Inr (Initiated (new_session_id d) None)"
    "fmlookup (uploadSessionsRClone (snd (initiateMultipartHandlerRClone lib d st))) (new_session_id d)
            = Some (allocated st)"
    "TotalPartsRClone (sessionsRClone (snd (initiateMultipartHandlerRClone lib d st)) (allocated st))
            = total_parts req"
    "files (snd (initiateMultipartHandlerRClone lib d st)) tmp = Some []"
    by (simp_all add: initiateMultipartHandlerRClone_def Let_def)
next
  assume "fmlookup (uploadSessions st) sid = Some p \<and> p < allocated st \<and> TotalParts (sessions st p) \<le> 0 \<and>
      (\<forall>x \<in> set calls. \<not> issues sid x)"
  then show "completions sid calls (fst (serveAll lib calls st)) = 0"
    by (intro nonpositive_no_completions) simp_all
next
  assume "fmlookup (uploadSessionsRClone st) sid = Some p \<and> p < allocated st \<and>
      TotalPartsRClone (sessionsRClone st p) \<le> 0 \<and> (\<forall>x \<in> set calls. \<not> issuesRClone sid x)"
  then show "completionsRClone sid calls (fst (serveAll lib calls st)) = 0"
    by (intro nonpositive_no_completions_RClone) simp_all
next
  let ?k = "len (fmupd n \<lparr>PartNumber = n, ETag = etag\<rparr> (UploadedParts (sessions st q)))"
  assume a: "findSession u st = Inr (q, n) \<and> putPart u q n st = Inr (etag, st1) \<and>
      TotalParts (sessions st q) \<le> 0"
  show pos: "1 \<le> ?k"
    by (rule len_fmupd_pos)
  from a show "fst (uploadChunkHandler u st) =
          Inr (if TotalParts (sessions st q) = 0 then EmptyBody
               else ChunkUploaded (session_id u) n
                 (Finite (real_of_int ?k / real_of_int (TotalParts (sessions st q)) * 100)))"
    by (intro nonpositive_reply_remote) simp_all
  from pos show "progressOf ?k (TotalParts (sessions st q))
          = (if TotalParts (sessions st q) = 0 then PosInf
             else Finite (real_of_int ?k / real_of_int (TotalParts (sessions st q)) * 100))"
    by (simp add: progressOf_zero progressOf_nonzero)
next
  let ?k = "len (fmupd m True (ReceivedParts (sessionsRClone st r)))"
  assume a: "cMethod v = ''POST'' \<and> form_ok v \<and> part_number v = Some m \<and>
      fmlookup (uploadSessionsRClone st) (session_id v) = Some r \<and> chunk v = Some content \<and>
      fst (receivePart r m content (write_error v) st) \<and> TotalPartsRClone (sessionsRClone st r) \<le> 0"
  show "1 \<le> ?k"
    by (rule len_fmupd_pos)
  from a show "fst (uploadChunkHandlerRClone v st) =
          Inr (if TotalPartsRClone (sessionsRClone st r) = 0 then EmptyBody
               else ChunkUploaded (session_id v) m
                 (Finite (real_of_int ?k / real_of_int (TotalPartsRClone (sessionsRClone st r)) * 100)))"
    by (intro nonpositive_reply_local [where content = content]) simp_all
qed

theorem nonpositive_total_never_completes_witness:
  "fst (initiateMultipartHandler unixlib (initiateCall ''s2'' (- 3)) (exampleServer 1))
     = Inr (Initiated ''s2'' (Some ''u2''))
   \<and> TotalParts (sessions (snd (initiateMultipartHandler unixlib (initiateCall ''s2'' (- 3)) (exampleServer 1))) 2)
     = - 3
   \<and> fst (initiateMultipartHandlerRClone unixlib (initiateCallRClone ''s2'' 0) (exampleServer 1))
     = Inr (Initiated ''s2'' None)
   \<and> TotalPartsRClone (sessionsRClone
        (snd (initiateMultipartHandlerRClone unixlib (initiateCallRClone ''s2'' 0) (exampleServer 1))) 2) = 0
   \<and> completions ''s1'' [Chunk (chunkCall ''s1'' 1 ''abc'' True), Chunk (chunkCall ''s1'' 2 ''def'' True)]
        (fst (serveAll unixlib
           [Chunk (chunkCall ''s1'' 1 ''abc'' True), Chunk (chunkCall ''s1'' 2 ''def'' True)]
           (exampleServer 0))) = 0
   \<and> completionsRClone ''s1'' [ChunkRClone (chunkCallRClone ''s1'' 1 ''abc'' None True)]
        (fst (serveAll unixlib [ChunkRClone (chunkCallRClone ''s1'' 1 ''abc'' None True)]
           (exampleServer 0))) = 0
   \<and> fst (uploadChunkHandler (chunkCall ''s1'' 1 ''abc'' True) (exampleServer (- 2)))
     = Inr (ChunkUploaded ''s1'' 1 (Finite (- 50)))
   \<and> fst (uploadChunkHandlerRClone (chunkCallRClone ''s1'' 1 ''abc'' None True) (exampleServer (- 2)))
     = Inr (ChunkUploaded ''s1'' 1 (Finite (- 50)))"
proof -
  note T = nonpositive_total_never_completes
  let ?st = "exampleServer 1"
  let ?i = "initiateCall ''s2'' (- 3)"
  let ?j = "initiateCallRClone ''s2'' 0"
  let ?req3 = "\<lparr>filename = ''big.bin'', total_parts = - 3, file_size = 0, path = []\<rparr>"
  let ?req0 = "\<lparr>filename = ''big.bin'', total_parts = 0, file_size = 0, path = []\<rparr>"
  have i: "iMethod ?i = ''POST'' \<and> body ?i = Some ?req3 \<and> new_upload ?i = Some ''u2''"
    by (simp add: initiateCall_def)
  have al: "allocated ?st = 2" "new_session_id ?i = ''s2''" "new_session_id ?j = ''s2''"
    by (simp_all add: example_defs)
  from T [where c = ?i and req = ?req3 and uploadID = "''u2''" and lib = unixlib and st = ?st] i
  have r1: "fst (initiateMultipartHandler unixlib ?i ?st) = Inr (Initiated (new_session_id ?i) (Some ''u2''))"
    and r2: "TotalParts (sessions (snd (initiateMultipartHandler unixlib ?i ?st)) (allocated ?st))
       = total_parts ?req3"
    by blast+
  have j: "iMethod ?j = ''POST'' \<and> body ?j = Some ?req0 \<and> mkdir_ok ?j \<and> new_temp ?j = Some ''/tmp/up2''"
    by (simp add: initiateCallRClone_def)
  from T [where d = ?j and req = ?req0 and tmp = "''/tmp/up2''" and lib = unixlib and st = ?st] j
  have r3: "fst (initiateMultipartHandlerRClone unixlib ?j ?st) = Inr (Initiated (new_session_id ?j) None)"
    and r4: "TotalPartsRClone (sessionsRClone (snd (initiateMultipartHandlerRClone unixlib ?j ?st))
       (allocated ?st)) = total_parts ?req0"
    by blast+
  let ?st0 = "exampleServer 0"
  let ?calls = "[Chunk (chunkCall ''s1'' 1 ''abc'' True), Chunk (chunkCall ''s1'' 2 ''def'' True)]"
  let ?callsR = "[ChunkRClone (chunkCallRClone ''s1'' 1 ''abc'' None True)]"
  have h5: "fmlookup (uploadSessions ?st0) ''s1'' = Some 0 \<and> 0 < allocated ?st0 \<and>
      TotalParts (sessions ?st0 0) \<le> 0 \<and> (\<forall>x \<in> set ?calls. \<not> issues ''s1'' x)"
    by (simp add: example_defs issues_def)
  from T [where st = ?st0 and sid = "''s1''" and p = 0 and calls = ?calls and lib = unixlib] h5
  have r5: "completions ''s1'' ?calls (fst (serveAll unixlib ?calls ?st0)) = 0"
    by blast
  have h6: "fmlookup (uploadSessionsRClone ?st0) ''s1'' = Some 1 \<and> 1 < allocated ?st0 \<and>
      TotalPartsRClone (sessionsRClone ?st0 1) \<le> 0 \<and> (\<forall>x \<in> set ?callsR. \<not> issuesRClone ''s1'' x)"
    by (simp add: example_defs issuesRClone_def)
  from T [where st = ?st0 and sid = "''s1''" and p = 1 and calls = ?callsR and lib = unixlib] h6
  have r6: "completionsRClone ''s1'' ?callsR (fst (serveAll unixlib ?callsR ?st0)) = 0"
    by blast
  let ?u = "chunkCall ''s1'' 1 ''abc'' True"
  let ?v = "chunkCallRClone ''s1'' 1 ''abc'' None True"
  let ?st2 = "exampleServer (- 2)"
  have found: "findSession ?u ?st2 = Inr (0, 1)"
    by (simp add: findSession_def example_defs)
  obtain st1 where put: "putPart ?u 0 1 ?st2 = Inr (''etag-abc'', st1)"
    by (simp add: putPart_def PutObjectPart_def example_defs)
  have neg: "TotalParts (sessions ?st2 0) = - 2" "TotalPartsRClone (sessionsRClone ?st2 1) = - 2"
    by (simp_all add: example_defs)
  have k: "len (fmupd 1 \<lparr>PartNumber = 1, ETag = ''etag-abc''\<rparr> (UploadedParts (sessions ?st2 0))) = 1"
    "len (fmupd 1 True (ReceivedParts (sessionsRClone ?st2 1))) = 1"
    by (simp_all add: example_defs)
  from T [where u = ?u and st = ?st2 and q = 0 and n = 1 and etag = "''etag-abc''" and ?st1.0 = st1]
    found put neg(1)
  have "fst (uploadChunkHandler ?u ?st2) =
      Inr (if TotalParts (sessions ?st2 0) = 0 then EmptyBody
           else ChunkUploaded (session_id ?u) 1
             (Finite (real_of_int (len (fmupd 1 \<lparr>PartNumber = 1, ETag = ''etag-abc''\<rparr>
                                           (UploadedParts (sessions ?st2 0))))
                        / real_of_int (TotalParts (sessions ?st2 0)) * 100)))"
    by simp
  then have r7: "fst (uploadChunkHandler ?u ?st2) = Inr (ChunkUploaded ''s1'' 1 (Finite (- 50)))"
    by (simp only: k neg) (simp add: chunkCall_def)
  have wf: "cMethod ?v = ''POST''" "form_ok ?v" "part_number ?v = Some 1"
    "fmlookup (uploadSessionsRClone ?st2) (session_id ?v) = Some 1" "chunk ?v = Some ''abc''"
    "fst (receivePart 1 1 ''abc'' (write_error ?v) ?st2)"
    by (simp_all add: chunkCallRClone_def exampleServer_def localSession_def receivePart_def fileWrite_def)
  from T [where v = ?v and st = ?st2 and r = 1 and m = 1 and content = "''abc''"] wf neg(2)
  have "fst (uploadChunkHandlerRClone ?v ?st2) =
      Inr (if TotalPartsRClone (sessionsRClone ?st2 1) = 0 then EmptyBody
           else ChunkUploaded (session_id ?v) 1
             (Finite (real_of_int (len (fmupd 1 True (ReceivedParts (sessionsRClone ?st2 1))))
                        / real_of_int (TotalPartsRClone (sessionsRClone ?st2 1)) * 100)))"
    by simp
  then have r8: "fst (uploadChunkHandlerRClone ?v ?st2) = Inr (ChunkUploaded ''s1'' 1 (Finite (- 50)))"
    by (simp only: k neg) (simp add: chunkCallRClone_def)
  from r1 r2 r3 r4 r5 r6 r7 r8 al show ?thesis
    by simp
qed


section \<open>The expiry sweep\<close>

lemma expired_iff: "expired t session \<longleftrightarrow> 24 * Hour < t - StartTime session"
  by (simp add: expired_def Sub_def Hour_def maxDuration_def minDuration_def)

lemma cleanup_Cons: "cleanupOldSessions (v # vs) st = cleanupOldSessions vs (sweepSession v st)"
  by (simp add: cleanupOldSessions_def)

lemma cleanup_Nil: "cleanupOldSessions [] st = st"
  by (simp add: cleanupOldSessions_def)

lemma cleanup_lookup:
  "fmlookup (uploadSessions (cleanupOldSessions vs st)) k =
     (case fmlookup (uploadSessions st) k of
        None \<Rightarrow> None
      | Some p \<Rightarrow>
          if (\<exists>v \<in> set vs. visit_id v = k \<and> expired (clock v) (sessions st p)) then None else Some p)"
proof (induction vs arbitrary: st)
  case Nil
  then show ?case by (simp add: cleanup_Nil split: option.splits)
next
  case (Cons v vs)
  show ?case
    by (auto simp add: cleanup_Cons Cons sweepSession_lookup sweepSession_frame split: option.splits)
qed

lemma sweepSession_store:
  "store (sweepSession v st) =
     (case fmlookup (uploadSessions st) (visit_id v) of
        None \<Rightarrow> store st
      | Some p \<Rightarrow>
          if expired (clock v) (sessions st p) \<and> visit_abort_ok v
          then (store st)\<lparr>uploads := (uploads (store st))(UploadID (sessions st p) := None)\<rparr>
          else store st)"
  by (simp add: sweepSession_def releaseUpload_def AbortMultipartUpload_def Let_def
      split: option.splits)

lemma cleanup_objects: "objects (store (cleanupOldSessions vs st)) = objects (store st)"
proof (induction vs arbitrary: st)
  case Nil
  then show ?case by (simp add: cleanup_Nil)
next
  case (Cons v vs)
  then show ?case
    by (simp add: cleanup_Cons sweepSession_store split: option.splits)
qed

lemma cleanup_uploads:
  "distinct (map visit_id vs) \<Longrightarrow>
   uploads (store (cleanupOldSessions vs st)) u =
     (if (\<exists>v \<in> set vs. \<exists>p. fmlookup (uploadSessions st) (visit_id v) = Some p \<and>
            expired (clock v) (sessions st p) \<and> visit_abort_ok v \<and> UploadID (sessions st p) = u)
      then None else uploads (store st) u)"
proof (induction vs arbitrary: st)
  case Nil
  then show ?case by (simp add: cleanup_Nil)
next
  case (Cons v vs)
  let ?st = "sweepSession v st"
  have other: "\<forall>w \<in> set vs. fmlookup (uploadSessions ?st) (visit_id w) = fmlookup (uploadSessions st) (visit_id w)"
    using Cons.prems by (auto simp: sweepSession_lookup image_iff split: option.splits)
  have "uploads (store (cleanupOldSessions vs ?st)) u =
     (if (\<exists>w \<in> set vs. \<exists>p. fmlookup (uploadSessions ?st) (visit_id w) = Some p \<and>
            expired (clock w) (sessions ?st p) \<and> visit_abort_ok w \<and> UploadID (sessions ?st p) = u)
      then None else uploads (store ?st) u)"
    using Cons.prems by (intro Cons.IH) simp
  also have "\<dots> =
     (if (\<exists>w \<in> set vs. \<exists>p. fmlookup (uploadSessions st) (visit_id w) = Some p \<and>
            expired (clock w) (sessions st p) \<and> visit_abort_ok w \<and> UploadID (sessions st p) = u)
      then None else uploads (store ?st) u)"
    using other by (simp add: sweepSession_frame cong: bex_cong)
  finally show ?case
    by (auto simp add: cleanup_Cons sweepSession_store split: option.splits)
qed

lemma rangeOver_visit:
  assumes "rangeOver visits st" and "fmlookup (uploadSessions st) k = Some p"
  obtains v where "v \<in> set visits" and "visit_id v = k"
    and "\<And>w. w \<in> set visits \<Longrightarrow> visit_id w = k \<Longrightarrow> w = v"
proof -
  have "k \<in> fmdom' (uploadSessions st)"
    using assms(2) by (simp add: fmdom'I)
  then have "k \<in> set (map visit_id visits)"
    using assms(1) by (simp only: rangeOver_def)
  then obtain v where v: "v \<in> set visits" "visit_id v = k"
    by auto
  have "inj_on visit_id (set visits)"
    using assms(1) by (simp add: rangeOver_def distinct_map)
  then have "\<And>w. w \<in> set visits \<Longrightarrow> visit_id w = k \<Longrightarrow> w = v"
    using v by (auto dest: inj_onD)
  with v show ?thesis
    by (rule that)
qed

lemma cleanup_visited:
  assumes "rangeOver visits st" and "fmlookup (uploadSessions st) k = Some p"
  shows "\<exists>v \<in> set visits. visit_id v = k \<and> (\<forall>w \<in> set visits. visit_id w = k \<longrightarrow> w = v) \<and>
      fmlookup (uploadSessions (cleanupOldSessions visits st)) k =
        (if 24 * Hour < clock v - StartTime (sessions st p) then None else Some p)"
proof -
  from assms obtain v where v: "v \<in> set visits" "visit_id v = k"
    and only: "\<And>w. w \<in> set visits \<Longrightarrow> visit_id w = k \<Longrightarrow> w = v"
    by (rule rangeOver_visit) blast
  have "(\<exists>w \<in> set visits. visit_id w = k \<and> expired (clock w) (sessions st p))
      \<longleftrightarrow> expired (clock v) (sessions st p)"
    using v only by blast
  then have "fmlookup (uploadSessions (cleanupOldSessions visits st)) k =
      (if 24 * Hour < clock v - StartTime (sessions st p) then None else Some p)"
    using assms(2) by (simp add: cleanup_lookup expired_iff)
  with v only show ?thesis
    by blast
qed

text \<open>
  The failing input of C4: a local-staging session is initiated, then a remote session
  (at clock 0). The sweep comes twenty-five hours later and ranges over every key of
  the remote map. The remote session is removed; the local session, which is older, is
  still registered and its staging file is still there. A local session has no creation
  time, and nothing ranges over the local map.
\<close>

theorem sweep_keeps_local_sessions:
  "fmlookup (uploadSessions
      (snd (initiateMultipartHandler unixlib (initiateCall ''s2'' 3)
         (snd (initiateMultipartHandlerRClone unixlib (initiateCallRClone ''s3'' 3) emptyServer)))))
      ''s2'' = Some 1
   \<and> rangeOver [lateVisit\<lparr>visit_id := ''s2''\<rparr>]
        (snd (initiateMultipartHandler unixlib (initiateCall ''s2'' 3)
           (snd (initiateMultipartHandlerRClone unixlib (initiateCallRClone ''s3'' 3) emptyServer))))
   \<and> fmlookup (uploadSessions
      (cleanupOldSessions [lateVisit\<lparr>visit_id := ''s2''\<rparr>]
        (snd (initiateMultipartHandler unixlib (initiateCall ''s2'' 3)
           (snd (initiateMultipartHandlerRClone unixlib (initiateCallRClone ''s3'' 3) emptyServer))))))
      ''s2'' = None
   \<and> fmlookup (uploadSessionsRClone
      (cleanupOldSessions [lateVisit\<lparr>visit_id := ''s2''\<rparr>]
        (snd (initiateMultipartHandler unixlib (initiateCall ''s2'' 3)
           (snd (initiateMultipartHandlerRClone unixlib (initiateCallRClone ''s3'' 3) emptyServer))))))
      ''s3'' = Some 0
   \<and> files
      (cleanupOldSessions [lateVisit\<lparr>visit_id := ''s2''\<rparr>]
        (snd (initiateMultipartHandler unixlib (initiateCall ''s2'' 3)
           (snd (initiateMultipartHandlerRClone unixlib (initiateCallRClone ''s3'' 3) emptyServer)))))
      ''/tmp/up2'' = Some []"
  by (simp add: cleanupOldSessions_def sweepSession_def releaseUpload_def AbortMultipartUpload_def
      expired_def Sub_def Hour_def maxDuration_def minDuration_def rangeOver_def
      initiateMultipartHandler_def initiateMultipartHandlerRClone_def NewMultipartUpload_def
      example_defs)

text \<open>
  C4. What a pass of the sweep does. It removes from the remote session map exactly
  the sessions that it visits at a moment when more than 24 hours have passed since
  their \<open>StartTime\<close> (the saturation of \<^verbatim>\<open>time.Since\<close> makes no difference), and leaves
  every other entry of the map as it is. The pass ranges over the map: every remote
  session registered when the pass starts is visited exactly once, and is removed if it
  is older than 24 hours at that visit and kept otherwise; the uploads released at the
  store are those of the removed sessions whose abort call succeeded. The session
  objects, the stored objects, and the local-staging sessions with their files are as
  they were before the pass, however long ago the local-staging sessions were created:
  on the local-staging path nothing expires.
\<close>

theorem sweep_removes_expired_remote_sessions:
  "fmlookup (uploadSessions (cleanupOldSessions visits st)) k =
     (case fmlookup (uploadSessions st) k of
        None \<Rightarrow> None
      | Some p \<Rightarrow>
          if (\<exists>v \<in> set visits. visit_id v = k \<and> 24 * Hour < clock v - StartTime (sessions st p))
          then None else Some p)
   \<and> (rangeOver visits st \<and> fmlookup (uploadSessions st) k = Some p \<longrightarrow>
        (\<exists>v \<in> set visits. visit_id v = k \<and> (\<forall>w \<in> set visits. visit_id w = k \<longrightarrow> w = v) \<and>
           fmlookup (uploadSessions (cleanupOldSessions visits st)) k =
             (if 24 * Hour < clock v - StartTime (sessions st p) then None else Some p)))
   \<and> (rangeOver visits st \<longrightarrow>
        uploads (store (cleanupOldSessions visits st)) u =
          (if (\<exists>v \<in> set visits. \<exists>p. fmlookup (uploadSessions st) (visit_id v) = Some p \<and>
                 24 * Hour < clock v - StartTime (sessions st p) \<and> visit_abort_ok v \<and>
                 UploadID (sessions st p) = u)
           then None else uploads (store st) u))
   \<and> objects (store (cleanupOldSessions visits st)) = objects (store st)
   \<and> sessions (cleanupOldSessions visits st) = sessions st
   \<and> uploadSessionsRClone (cleanupOldSessions visits st) = uploadSessionsRClone st
   \<and> sessionsRClone (cleanupOldSessions visits st) = sessionsRClone st
   \<and> files (cleanupOldSessions visits st) = files st"
proof -
  have d: "rangeOver visits st \<Longrightarrow> distinct (map visit_id visits)"
    by (simp add: rangeOver_def)
  show ?thesis
    using cleanup_lookup [of visits st k, unfolded expired_iff]
      cleanup_uploads [of visits st u, unfolded expired_iff, OF d]
      cleanup_visited [of visits st k p]
    by (simp add: cleanup_objects cleanup_frame)
qed

theorem sweep_removes_expired_remote_sessions_witness:
  "rangeOver [lateVisit] (exampleServer 3)
   \<and> fmlookup (uploadSessions (exampleServer 3)) ''s1'' = Some 0
   \<and> uploads (store (exampleServer 3)) ''u1'' \<noteq> None
   \<and> fmlookup (uploadSessions (cleanupOldSessions [lateVisit] (exampleServer 3))) ''s1'' = None
   \<and> uploads (store (cleanupOldSessions [lateVisit] (exampleServer 3))) ''u1'' = None
   \<and> rangeOver [lateVisit\<lparr>clock := 24 * Hour\<rparr>] (exampleServer 3)
   \<and> fmlookup (uploadSessions (cleanupOldSessions [lateVisit\<lparr>clock := 24 * Hour\<rparr>] (exampleServer 3))) ''s1''
       = Some 0"
proof -
  note T = sweep_removes_expired_remote_sessions
  let ?st = "exampleServer 3"
  let ?young = "lateVisit\<lparr>clock := 24 * Hour\<rparr>"
  have d: "rangeOver [lateVisit] ?st" "rangeOver [?young] ?st"
    by (simp_all add: rangeOver_def lateVisit_def exampleServer_def)
  have before: "fmlookup (uploadSessions ?st) ''s1'' = Some 0" "uploads (store ?st) ''u1'' \<noteq> None"
    "StartTime (sessions ?st 0) = 0" "UploadID (sessions ?st 0) = ''u1''"
    by (simp_all add: example_defs)
  have v: "visit_id lateVisit = ''s1''" "clock lateVisit = 25 * Hour" "visit_abort_ok lateVisit"
    by (simp_all add: lateVisit_def)
  have late: "24 * Hour < clock lateVisit - StartTime (sessions ?st 0)"
    by (simp add: v before Hour_def)
  from T [where visits = "[lateVisit]" and st = ?st and k = "''s1''" and p = 0] d(1) before(1)
  have "\<exists>v \<in> set [lateVisit]. visit_id v = ''s1'' \<and> (\<forall>w \<in> set [lateVisit]. visit_id w = ''s1'' \<longrightarrow> w = v) \<and>
      fmlookup (uploadSessions (cleanupOldSessions [lateVisit] ?st)) ''s1'' =
        (if 24 * Hour < clock v - StartTime (sessions ?st 0) then None else Some 0)"
    by blast
  then have r1: "fmlookup (uploadSessions (cleanupOldSessions [lateVisit] ?st)) ''s1'' = None"
    using late by simp
  from T [where visits = "[lateVisit]" and st = ?st and u = "''u1''"] d(1)
  have "uploads (store (cleanupOldSessions [lateVisit] ?st)) ''u1'' =
      (if (\<exists>v \<in> set [lateVisit]. \<exists>p. fmlookup (uploadSessions ?st) (visit_id v) = Some p \<and>
             24 * Hour < clock v - StartTime (sessions ?st p) \<and> visit_abort_ok v \<and>
             UploadID (sessions ?st p) = ''u1'')
       then None else uploads (store ?st) ''u1'')"
    by blast
  then have r2: "uploads (store (cleanupOldSessions [lateVisit] ?st)) ''u1'' = None"
    using before v late by simp
  have young: "\<not> 24 * Hour < clock ?young - StartTime (sessions ?st 0)"
    by (simp add: before)
  from T [where visits = "[?young]" and st = ?st and k = "''s1''" and p = 0] d(2) before(1)
  have "\<exists>v \<in> set [?young]. visit_id v = ''s1'' \<and> (\<forall>w \<in> set [?young]. visit_id w = ''s1'' \<longrightarrow> w = v) \<and>
      fmlookup (uploadSessions (cleanupOldSessions [?young] ?st)) ''s1'' =
        (if 24 * Hour < clock v - StartTime (sessions ?st 0) then None else Some 0)"
    by blast
  then have r3: "fmlookup (uploadSessions (cleanupOldSessions [?young] ?st)) ''s1'' = Some 0"
    using young by simp
  from d before(1,2) r1 r2 r3 show ?thesis
    by blast
qed


section \<open>Appending to the staging file\<close>

lemma writeAt_end: "writeAt (length old) content old = old @ content"
  by (simp add: writeAt_def)

lemma receivePart_staged:
  assumes "staged st q old"
  shows "receivePart q m content failure st =
     (failure = None,
      st\<lparr>files := (files st)(Name (TempFile (sessionsRClone st q)) \<mapsto>
                old @ (case failure of None \<Rightarrow> content | Some k \<Rightarrow> take k content)),
         sessionsRClone := (sessionsRClone st)
           (q := (sessionsRClone st q)
              \<lparr>TempFile := (TempFile (sessionsRClone st q))
                  \<lparr>offset := length old
                     + length (case failure of None \<Rightarrow> content | Some k \<Rightarrow> take k content)\<rparr>,
               ReceivedParts := fmupd m True (ReceivedParts (sessionsRClone st q))\<rparr>)\<rparr>)"
proof (cases "content = []")
  case True
  have "(files st)(Name (TempFile (sessionsRClone st q)) \<mapsto> old) = files st"
    using assms by (auto simp: staged_def)
  moreover have "(TempFile (sessionsRClone st q))\<lparr>offset := length old\<rparr> = TempFile (sessionsRClone st q)"
    using assms by (simp add: staged_def)
  ultimately show ?thesis
    using True by (simp add: receivePart_def fileWrite_def Let_def split: option.splits)
next
  case False
  with assms show ?thesis
    by (simp add: staged_def receivePart_def fileWrite_def writeAt_end Let_def)
qed

lemma receivePart_keeps_staged:
  assumes "staged st q old"
  shows "staged (snd (receivePart q m content failure st)) q
     (old @ (case failure of None \<Rightarrow> content | Some k \<Rightarrow> take k content))"
  using assms by (simp add: receivePart_staged) (simp add: staged_def)

lemma initiate_staged:
  "fst (initiateMultipartHandlerRClone lib c st) = Inr r \<Longrightarrow>
   staged (snd (initiateMultipartHandlerRClone lib c st)) (allocated st) []"
  by (auto simp add: initiateMultipartHandlerRClone_def staged_def Let_def
      split: option.splits if_splits)

lemma finalize_moves_staged:
  assumes "staged st q content" and "close_ok d" and "rename_ok d"
  shows "fst (finalizeRCloneUpload q d st)"
    and "files (snd (finalizeRCloneUpload q d st)) (FilePath (sessionsRClone st q)) = Some content"
  using assms by (simp_all add: staged_def finalizeRCloneUpload_def Let_def)

lemma finalize_copies_staged:
  assumes "staged st q content" and "close_ok d" and "\<not> rename_ok d"
    and "copy_open_ok d" and "copy_create_ok d" and "copy_error d = None" and "copy_remove_ok d"
    and "FilePath (sessionsRClone st q) \<noteq> Name (TempFile (sessionsRClone st q))"
  shows "fst (finalizeRCloneUpload q d st)"
    and "files (snd (finalizeRCloneUpload q d st)) (FilePath (sessionsRClone st q)) = Some content"
    and "files (snd (finalizeRCloneUpload q d st)) (Name (TempFile (sessionsRClone st q))) = None"
  using assms
  by (auto simp add: staged_def finalizeRCloneUpload_def copyFile_def Let_def)

lemma finalize_ok_staged:
  assumes "staged st q content" and "fst (finalizeRCloneUpload q d st)"
    and "\<not> rename_ok d \<longrightarrow> FilePath (sessionsRClone st q) \<noteq> Name (TempFile (sessionsRClone st q))"
  shows "files (snd (finalizeRCloneUpload q d st)) (FilePath (sessionsRClone st q)) = Some content"
  using assms
  by (auto simp add: staged_def finalizeRCloneUpload_def copyFile_def Let_def
      split: option.splits if_splits)

lemma appended_then_served:
  assumes wf: "cMethod d = ''POST''" "form_ok d" "part_number d = Some m"
      "fmlookup (uploadSessionsRClone st) (session_id d) = Some q" "chunk d = Some content"
      "write_error d = None"
    and st: "staged st q old"
  shows "receivedCountOf q (snd (receivePart q m content None st)) \<noteq> TotalPartsRClone (sessionsRClone st q)
      \<Longrightarrow> uploadChunkHandlerRClone d st =
        (Inr (Encode (ChunkUploaded (session_id d) m
           (progressOf (receivedCountOf q (snd (receivePart q m content None st)))
              (TotalPartsRClone (sessionsRClone st q))))),
         snd (receivePart q m content None st))"
    and "receivedCountOf q (snd (receivePart q m content None st)) = TotalPartsRClone (sessionsRClone st q)
      \<Longrightarrow> fst (finalizeRCloneUpload q d (snd (receivePart q m content None st)))
      \<Longrightarrow> fst (uploadChunkHandlerRClone d st) = Inr UploadCompleted
        \<and> files (snd (uploadChunkHandlerRClone d st)) =
            files (snd (finalizeRCloneUpload q d (snd (receivePart q m content None st))))"
    and "fst (uploadChunkHandlerRClone d st) = Inr UploadCompleted
      \<Longrightarrow> fst (finalizeRCloneUpload q d (snd (receivePart q m content None st)))
        \<and> files (snd (uploadChunkHandlerRClone d st)) =
            files (snd (finalizeRCloneUpload q d (snd (receivePart q m content None st))))"
proof -
  obtain st1 where r: "receivePart q m content None st = (True, st1)"
    using receivePart_staged [OF st, of m content None] by simp
  have total: "TotalPartsRClone (sessionsRClone st1 q) = TotalPartsRClone (sessionsRClone st q)"
    using r by (rule receive_TotalParts)
  obtain ok st2 where f: "finalizeRCloneUpload q d st1 = (ok, st2)"
    by (cases "finalizeRCloneUpload q d st1")
  show "receivedCountOf q (snd (receivePart q m content None st)) \<noteq> TotalPartsRClone (sessionsRClone st q)
      \<Longrightarrow> uploadChunkHandlerRClone d st =
        (Inr (Encode (ChunkUploaded (session_id d) m
           (progressOf (receivedCountOf q (snd (receivePart q m content None st)))
              (TotalPartsRClone (sessionsRClone st q))))),
         snd (receivePart q m content None st))"
    using wf r total by (simp add: uploadChunkHandlerRClone_def Let_def)
  show "receivedCountOf q (snd (receivePart q m content None st)) = TotalPartsRClone (sessionsRClone st q)
      \<Longrightarrow> fst (finalizeRCloneUpload q d (snd (receivePart q m content None st)))
      \<Longrightarrow> fst (uploadChunkHandlerRClone d st) = Inr UploadCompleted
        \<and> files (snd (uploadChunkHandlerRClone d st)) =
            files (snd (finalizeRCloneUpload q d (snd (receivePart q m content None st))))"
    using wf r total f by (simp add: uploadChunkHandlerRClone_def completeRClone_def Let_def)
  show "fst (uploadChunkHandlerRClone d st) = Inr UploadCompleted
      \<Longrightarrow> fst (finalizeRCloneUpload q d (snd (receivePart q m content None st)))
        \<and> files (snd (uploadChunkHandlerRClone d st)) =
            files (snd (finalizeRCloneUpload q d (snd (receivePart q m content None st))))"
    using wf r total f
    by (cases ok) (auto simp add: uploadChunkHandlerRClone_def completeRClone_def Let_def split: if_splits)
qed

text \<open>
  Counterexample to C9. A local-staging session declared with two parts has received
  part 1 with the bytes \<open>abc\<close>. Part 1 is uploaded again with an empty chunk: the upload
  is accepted, the count stays 1, and the staging file keeps its length of three bytes.
\<close>

theorem empty_chunk_leaves_length:
  "files (snd (uploadChunkHandlerRClone (chunkCallRClone ''s1'' 1 ''abc'' None True) (exampleServer 2)))
     ''/tmp/up1'' = Some ''abc''
   \<and> receivedCountOf 1
       (snd (uploadChunkHandlerRClone (chunkCallRClone ''s1'' 1 ''abc'' None True) (exampleServer 2))) = 1
   \<and> fst (uploadChunkHandlerRClone (chunkCallRClone ''s1'' 1 [] None True)
       (snd (uploadChunkHandlerRClone (chunkCallRClone ''s1'' 1 ''abc'' None True) (exampleServer 2))))
     = Inr (ChunkUploaded ''s1'' 1 (Finite 50))
   \<and> files (snd (uploadChunkHandlerRClone (chunkCallRClone ''s1'' 1 [] None True)
       (snd (uploadChunkHandlerRClone (chunkCallRClone ''s1'' 1 ''abc'' None True) (exampleServer 2)))))
     ''/tmp/up1'' = Some ''abc''
   \<and> receivedCountOf 1 (snd (uploadChunkHandlerRClone (chunkCallRClone ''s1'' 1 [] None True)
       (snd (uploadChunkHandlerRClone (chunkCallRClone ''s1'' 1 ''abc'' None True) (exampleServer 2))))) = 1"
proof -
  let ?sa = "snd (uploadChunkHandlerRClone (chunkCallRClone ''s1'' 1 ''abc'' None True) (exampleServer 2))"
  have sa: "?sa = (exampleServer 2)\<lparr>files := [''/tmp/up1'' \<mapsto> ''abc''],
      sessionsRClone := (\<lambda>p. zeroSessionRClone)
        (1 := (localSession 2)\<lparr>TempFile := \<lparr>Name = ''/tmp/up1'', offset = length ''abc'', closed = False\<rparr>,
              ReceivedParts := fmupd 1 True fmempty\<rparr>)\<rparr>"
    by (simp add: local_defs example_defs)
  show ?thesis
    unfolding sa
    by (simp add: local_defs example_defs progressOf_def fdiv_def fmul100_def)
qed

text \<open>
  C9, amended. On the local-staging path a chunk that is written without error is
  appended to the staging file, whatever its part number: the file holds the old bytes
  followed by the chunk, and the offset is its end again. The file grows by the length
  of the chunk, strictly when the chunk is not empty (an empty chunk is accepted and
  leaves the length as it is). If the part number was received before, the count is
  unchanged. If the count differs from \<open>TotalParts\<close> the upload is answered with its
  progress and nothing else changes. If it equals \<open>TotalParts\<close> and the file is closed
  without error, the upload is answered \<open>UploadCompleted\<close> when the rename succeeds and
  when the rename fails but every step of the copy succeeds; and whenever the upload is
  answered \<open>UploadCompleted\<close>, by rename or by copy, the object at the target path is
  the staging file, duplicates included.
\<close>

theorem local_chunks_are_appended:
  "(cMethod d = ''POST'' \<and> form_ok d \<and> part_number d = Some m \<and>
      fmlookup (uploadSessionsRClone st) (session_id d) = Some q \<and> chunk d = Some content \<and>
      write_error d = None \<and> staged st q old
    \<longrightarrow> staged (snd (receivePart q m content None st)) q (old @ content)
        \<and> files (snd (receivePart q m content None st)) (Name (TempFile (sessionsRClone st q)))
            = Some (old @ content)
        \<and> length (old @ content) = length old + length content
        \<and> (content \<noteq> [] \<longrightarrow> length old < length (old @ content))
        \<and> (m |\<in>| fmdom (ReceivedParts (sessionsRClone st q))
            \<longrightarrow> receivedCountOf q (snd (receivePart q m content None st)) = receivedCountOf q st)
        \<and> (receivedCountOf q (snd (receivePart q m content None st)) \<noteq> TotalPartsRClone (sessionsRClone st q)
            \<longrightarrow> snd (uploadChunkHandlerRClone d st) = snd (receivePart q m content None st)
              \<and> fst (uploadChunkHandlerRClone d st) =
                  Inr (Encode (ChunkUploaded (session_id d) m
                    (progressOf (receivedCountOf q (snd (receivePart q m content None st)))
                       (TotalPartsRClone (sessionsRClone st q))))))
        \<and> (receivedCountOf q (snd (receivePart q m content None st)) = TotalPartsRClone (sessionsRClone st q)
              \<and> close_ok d \<and> rename_ok d
            \<longrightarrow> fst (uploadChunkHandlerRClone d st) = Inr UploadCompleted
              \<and> files (snd (uploadChunkHandlerRClone d st)) (FilePath (sessionsRClone st q))
                  = Some (old @ content))
        \<and> (receivedCountOf q (snd (receivePart q m content None st)) = TotalPartsRClone (sessionsRClone st q)
              \<and> close_ok d \<and> \<not> rename_ok d \<and> copy_open_ok d \<and> copy_create_ok d \<and> copy_error d = None
              \<and> copy_remove_ok d
              \<and> FilePath (sessionsRClone st q) \<noteq> Name (TempFile (sessionsRClone st q))
            \<longrightarrow> fst (uploadChunkHandlerRClone d st) = Inr UploadCompleted
              \<and> files (snd (uploadChunkHandlerRClone d st)) (FilePath (sessionsRClone st q))
                  = Some (old @ content)
              \<and> files (snd (uploadChunkHandlerRClone d st)) (Name (TempFile (sessionsRClone st q))) = None)
        \<and> (fst (uploadChunkHandlerRClone d st) = Inr UploadCompleted
              \<and> (\<not> rename_ok d \<longrightarrow> FilePath (sessionsRClone st q) \<noteq> Name (TempFile (sessionsRClone st q)))
            \<longrightarrow> files (snd (uploadChunkHandlerRClone d st)) (FilePath (sessionsRClone st q))
                  = Some (old @ content)))"
proof (intro impI)
  assume a: "cMethod d = ''POST'' \<and> form_ok d \<and> part_number d = Some m \<and>
      fmlookup (uploadSessionsRClone st) (session_id d) = Some q \<and> chunk d = Some content \<and>
      write_error d = None \<and> staged st q old"
  then have st: "staged st q old" by simp
  from a have wf: "cMethod d = ''POST''" "form_ok d" "part_number d = Some m"
      "fmlookup (uploadSessionsRClone st) (session_id d) = Some q" "chunk d = Some content"
      "write_error d = None"
    by simp_all
  note served = appended_then_served [OF wf st]
  obtain st1 where r: "receivePart q m content None st = (True, st1)"
    using receivePart_staged [OF st, of m content None] by simp
  then have st1: "snd (receivePart q m content None st) = st1"
    by simp
  have staged1: "staged st1 q (old @ content)"
    using receivePart_keeps_staged [OF st, of m content None] by (simp add: st1)
  have path: "FilePath (sessionsRClone st1 q) = FilePath (sessionsRClone st q)"
    and name: "Name (TempFile (sessionsRClone st1 q)) = Name (TempFile (sessionsRClone st q))"
    and parts: "ReceivedParts (sessionsRClone st1 q) = fmupd m True (ReceivedParts (sessionsRClone st q))"
    using r by (auto simp add: receivePart_staged [OF st])
  have held: "files st1 (Name (TempFile (sessionsRClone st q))) = Some (old @ content)"
    using staged1 by (simp add: staged_def name)
  have same: "m |\<in>| fmdom (ReceivedParts (sessionsRClone st q))
      \<longrightarrow> receivedCountOf q st1 = receivedCountOf q st"
    by (simp add: receivedCountOf_def parts len_fmupd)
  have progress: "receivedCountOf q st1 \<noteq> TotalPartsRClone (sessionsRClone st q)
      \<longrightarrow> snd (uploadChunkHandlerRClone d st) = st1
        \<and> fst (uploadChunkHandlerRClone d st) =
            Inr (Encode (ChunkUploaded (session_id d) m
              (progressOf (receivedCountOf q st1) (TotalPartsRClone (sessionsRClone st q)))))"
    using served(1) by (simp add: st1)
  have renamed: "receivedCountOf q st1 = TotalPartsRClone (sessionsRClone st q) \<and> close_ok d \<and> rename_ok d
      \<longrightarrow> fst (uploadChunkHandlerRClone d st) = Inr UploadCompleted
        \<and> files (snd (uploadChunkHandlerRClone d st)) (FilePath (sessionsRClone st q)) = Some (old @ content)"
  proof
    assume c: "receivedCountOf q st1 = TotalPartsRClone (sessionsRClone st q) \<and> close_ok d \<and> rename_ok d"
    then have f: "fst (finalizeRCloneUpload q d st1)"
      and o: "files (snd (finalizeRCloneUpload q d st1)) (FilePath (sessionsRClone st1 q)) = Some (old @ content)"
      using finalize_moves_staged [OF staged1] by simp_all
    from served(2) c f o show "fst (uploadChunkHandlerRClone d st) = Inr UploadCompleted
        \<and> files (snd (uploadChunkHandlerRClone d st)) (FilePath (sessionsRClone st q)) = Some (old @ content)"
      by (simp add: st1 path)
  qed
  have copied: "receivedCountOf q st1 = TotalPartsRClone (sessionsRClone st q)
        \<and> close_ok d \<and> \<not> rename_ok d \<and> copy_open_ok d \<and> copy_create_ok d \<and> copy_error d = None
        \<and> copy_remove_ok d
        \<and> FilePath (sessionsRClone st q) \<noteq> Name (TempFile (sessionsRClone st q))
      \<longrightarrow> fst (uploadChunkHandlerRClone d st) = Inr UploadCompleted
        \<and> files (snd (uploadChunkHandlerRClone d st)) (FilePath (sessionsRClone st q)) = Some (old @ content)
        \<and> files (snd (uploadChunkHandlerRClone d st)) (Name (TempFile (sessionsRClone st q))) = None"
  proof
    assume c: "receivedCountOf q st1 = TotalPartsRClone (sessionsRClone st q)
        \<and> close_ok d \<and> \<not> rename_ok d \<and> copy_open_ok d \<and> copy_create_ok d \<and> copy_error d = None
        \<and> copy_remove_ok d
        \<and> FilePath (sessionsRClone st q) \<noteq> Name (TempFile (sessionsRClone st q))"
    then have ne: "FilePath (sessionsRClone st1 q) \<noteq> Name (TempFile (sessionsRClone st1 q))"
      by (simp add: path name)
    from c have f: "fst (finalizeRCloneUpload q d st1)"
      and o: "files (snd (finalizeRCloneUpload q d st1)) (FilePath (sessionsRClone st1 q)) = Some (old @ content)"
      and g: "files (snd (finalizeRCloneUpload q d st1)) (Name (TempFile (sessionsRClone st1 q))) = None"
      using finalize_copies_staged [OF staged1 _ _ _ _ _ _ ne, of d] by simp_all
    from served(2) c f o g show "fst (uploadChunkHandlerRClone d st) = Inr UploadCompleted
        \<and> files (snd (uploadChunkHandlerRClone d st)) (FilePath (sessionsRClone st q)) = Some (old @ content)
        \<and> files (snd (uploadChunkHandlerRClone d st)) (Name (TempFile (sessionsRClone st q))) = None"
      by (simp add: st1 path name)
  qed
  have whenever: "fst (uploadChunkHandlerRClone d st) = Inr UploadCompleted
        \<and> (\<not> rename_ok d \<longrightarrow> FilePath (sessionsRClone st q) \<noteq> Name (TempFile (sessionsRClone st q)))
      \<longrightarrow> files (snd (uploadChunkHandlerRClone d st)) (FilePath (sessionsRClone st q)) = Some (old @ content)"
  proof
    assume c: "fst (uploadChunkHandlerRClone d st) = Inr UploadCompleted
        \<and> (\<not> rename_ok d \<longrightarrow> FilePath (sessionsRClone st q) \<noteq> Name (TempFile (sessionsRClone st q)))"
    with served(3) have f: "fst (finalizeRCloneUpload q d st1)"
      and e: "files (snd (uploadChunkHandlerRClone d st)) = files (snd (finalizeRCloneUpload q d st1))"
      by (simp_all add: st1)
    from c have "\<not> rename_ok d \<longrightarrow> FilePath (sessionsRClone st1 q) \<noteq> Name (TempFile (sessionsRClone st1 q))"
      by (simp add: path name)
    with staged1 f have "files (snd (finalizeRCloneUpload q d st1)) (FilePath (sessionsRClone st1 q))
        = Some (old @ content)"
      by (rule finalize_ok_staged)
    then show "files (snd (uploadChunkHandlerRClone d st)) (FilePath (sessionsRClone st q)) = Some (old @ content)"
      by (simp add: e path)
  qed
  from staged1 held same progress renamed copied whenever
  show "staged (snd (receivePart q m content None st)) q (old @ content)
        \<and> files (snd (receivePart q m content None st)) (Name (TempFile (sessionsRClone st q)))
            = Some (old @ content)
        \<and> length (old @ content) = length old + length content
        \<and> (content \<noteq> [] \<longrightarrow> length old < length (old @ content))
        \<and> (m |\<in>| fmdom (ReceivedParts (sessionsRClone st q))
            \<longrightarrow> receivedCountOf q (snd (receivePart q m content None st)) = receivedCountOf q st)
        \<and> (receivedCountOf q (snd (receivePart q m content None st)) \<noteq> TotalPartsRClone (sessionsRClone st q)
            \<longrightarrow> snd (uploadChunkHandlerRClone d st) = snd (receivePart q m content None st)
              \<and> fst (uploadChunkHandlerRClone d st) =
                  Inr (Encode (ChunkUploaded (session_id d) m
                    (progressOf (receivedCountOf q (snd (receivePart q m content None st)))
                       (TotalPartsRClone (sessionsRClone st q))))))
        \<and> (receivedCountOf q (snd (receivePart q m content None st)) = TotalPartsRClone (sessionsRClone st q)
              \<and> close_ok d \<and> rename_ok d
            \<longrightarrow> fst (uploadChunkHandlerRClone d st) = Inr UploadCompleted
              \<and> files (snd (uploadChunkHandlerRClone d st)) (FilePath (sessionsRClone st q))
                  = Some (old @ content))
        \<and> (receivedCountOf q (snd (receivePart q m content None st)) = TotalPartsRClone (sessionsRClone st q)
              \<and> close_ok d \<and> \<not> rename_ok d \<and> copy_open_ok d \<and> copy_create_ok d \<and> copy_error d = None
              \<and> copy_remove_ok d
              \<and> FilePath (sessionsRClone st q) \<noteq> Name (TempFile (sessionsRClone st q))
            \<longrightarrow> fst (uploadChunkHandlerRClone d st) = Inr UploadCompleted
              \<and> files (snd (uploadChunkHandlerRClone d st)) (FilePath (sessionsRClone st q))
                  = Some (old @ content)
              \<and> files (snd (uploadChunkHandlerRClone d st)) (Name (TempFile (sessionsRClone st q))) = None)
        \<and> (fst (uploadChunkHandlerRClone d st) = Inr UploadCompleted
              \<and> (\<not> rename_ok d \<longrightarrow> FilePath (sessionsRClone st q) \<noteq> Name (TempFile (sessionsRClone st q)))
            \<longrightarrow> files (snd (uploadChunkHandlerRClone d st)) (FilePath (sessionsRClone st q))
                  = Some (old @ content))"
    unfolding st1 by simp
qed

theorem local_chunks_are_appended_witness:
  "staged (exampleServer 2) 1 []
   \<and> staged (snd (uploadChunkHandlerRClone (chunkCallRClone ''s1'' 1 ''abc'' None True) (exampleServer 2))) 1 ''abc''
   \<and> staged (snd (uploadChunkHandlerRClone (chunkCallRClone ''s1'' 1 ''abc'' None True)
        (snd (uploadChunkHandlerRClone (chunkCallRClone ''s1'' 1 ''abc'' None True) (exampleServer 2))))) 1
        ''abcabc''
   \<and> receivedCountOf 1 (snd (uploadChunkHandlerRClone (chunkCallRClone ''s1'' 1 ''abc'' None True)
        (snd (uploadChunkHandlerRClone (chunkCallRClone ''s1'' 1 ''abc'' None True) (exampleServer 2))))) = 1
   \<and> fst (uploadChunkHandlerRClone (chunkCallRClone ''s1'' 2 ''de'' None True)
        (snd (uploadChunkHandlerRClone (chunkCallRClone ''s1'' 1 ''abc'' None True)
          (snd (uploadChunkHandlerRClone (chunkCallRClone ''s1'' 1 ''abc'' None True) (exampleServer 2))))))
       = Inr UploadCompleted
   \<and> files (snd (uploadChunkHandlerRClone (chunkCallRClone ''s1'' 2 ''de'' None True)
        (snd (uploadChunkHandlerRClone (chunkCallRClone ''s1'' 1 ''abc'' None True)
          (snd (uploadChunkHandlerRClone (chunkCallRClone ''s1'' 1 ''abc'' None True) (exampleServer 2)))))))
        ''/storage/big.bin'' = Some ''abcabcde''
   \<and> fst (uploadChunkHandlerRClone ((chunkCallRClone ''s1'' 2 ''de'' None True)\<lparr>rename_ok := False\<rparr>)
        (snd (uploadChunkHandlerRClone (chunkCallRClone ''s1'' 1 ''abc'' None True)
          (snd (uploadChunkHandlerRClone (chunkCallRClone ''s1'' 1 ''abc'' None True) (exampleServer 2))))))
       = Inr UploadCompleted
   \<and> files (snd (uploadChunkHandlerRClone ((chunkCallRClone ''s1'' 2 ''de'' None True)\<lparr>rename_ok := False\<rparr>)
        (snd (uploadChunkHandlerRClone (chunkCallRClone ''s1'' 1 ''abc'' None True)
          (snd (uploadChunkHandlerRClone (chunkCallRClone ''s1'' 1 ''abc'' None True) (exampleServer 2)))))))
        ''/storage/big.bin'' = Some ''abcabcde''"
proof -
  note T = local_chunks_are_appended
  let ?d1 = "chunkCallRClone ''s1'' 1 ''abc'' None True"
  let ?d2 = "chunkCallRClone ''s1'' 2 ''de'' None True"
  let ?d3 = "(chunkCallRClone ''s1'' 2 ''de'' None True)\<lparr>rename_ok := False\<rparr>"
  let ?s0 = "exampleServer 2"
  let ?sa = "snd (uploadChunkHandlerRClone ?d1 ?s0)"
  let ?sb = "snd (uploadChunkHandlerRClone ?d1 ?sa)"
  let ?A = "?s0\<lparr>files := [''/tmp/up1'' \<mapsto> ''abc''],
      sessionsRClone := (\<lambda>p. zeroSessionRClone)
        (1 := (localSession 2)\<lparr>TempFile := \<lparr>Name = ''/tmp/up1'', offset = length ''abc'', closed = False\<rparr>,
              ReceivedParts := fmupd 1 True fmempty\<rparr>)\<rparr>"
  let ?B = "?s0\<lparr>files := [''/tmp/up1'' \<mapsto> ''abcabc''],
      sessionsRClone := (\<lambda>p. zeroSessionRClone)
        (1 := (localSession 2)\<lparr>TempFile := \<lparr>Name = ''/tmp/up1'', offset = length ''abcabc'', closed = False\<rparr>,
              ReceivedParts := fmupd 1 True fmempty\<rparr>)\<rparr>"
  have wf1: "cMethod ?d1 = ''POST'' \<and> form_ok ?d1 \<and> part_number ?d1 = Some 1 \<and>
      chunk ?d1 = Some ''abc'' \<and> write_error ?d1 = None \<and> session_id ?d1 = ''s1''"
    and wf2: "cMethod ?d2 = ''POST'' \<and> form_ok ?d2 \<and> part_number ?d2 = Some 2 \<and>
      chunk ?d2 = Some ''de'' \<and> write_error ?d2 = None \<and> session_id ?d2 = ''s1'' \<and>
      close_ok ?d2 \<and> rename_ok ?d2"
    and wf3: "cMethod ?d3 = ''POST'' \<and> form_ok ?d3 \<and> part_number ?d3 = Some 2 \<and>
      chunk ?d3 = Some ''de'' \<and> write_error ?d3 = None \<and> session_id ?d3 = ''s1'' \<and>
      close_ok ?d3 \<and> \<not> rename_ok ?d3 \<and> copy_open_ok ?d3 \<and> copy_create_ok ?d3 \<and> copy_error ?d3 = None \<and>
      copy_remove_ok ?d3"
    by (simp_all add: chunkCallRClone_def)
  have s0: "staged ?s0 1 []" "fmlookup (uploadSessionsRClone ?s0) ''s1'' = Some 1"
    by (simp_all add: staged_def example_defs)
  have sa: "?sa = ?A"
    by (simp add: local_defs example_defs)
  have sb: "?sb = ?B"
    unfolding sa by (simp add: local_defs example_defs)
  have c0: "receivedCountOf 1 (snd (receivePart 1 1 ''abc'' None ?s0)) \<noteq> TotalPartsRClone (sessionsRClone ?s0 1)"
    by (simp add: receivePart_def fileWrite_def receivedCountOf_def example_defs)
  from T [where d = ?d1 and st = ?s0 and m = 1 and q = 1 and content = "''abc''" and old = "[]"]
    wf1 s0 c0
  have "staged (snd (receivePart 1 1 ''abc'' None ?s0)) 1 ([] @ ''abc'')"
    and "snd (uploadChunkHandlerRClone ?d1 ?s0) = snd (receivePart 1 1 ''abc'' None ?s0)"
    by simp_all
  then have r1: "staged ?sa 1 ''abc''"
    by simp
  have la: "fmlookup (uploadSessionsRClone ?sa) ''s1'' = Some 1"
    "1 |\<in>| fmdom (ReceivedParts (sessionsRClone ?sa 1))"
    "receivedCountOf 1 ?sa = 1"
    unfolding sa by (simp_all add: receivedCountOf_def example_defs)
  have ca: "receivedCountOf 1 (snd (receivePart 1 1 ''abc'' None ?sa)) \<noteq> TotalPartsRClone (sessionsRClone ?sa 1)"
    unfolding sa by (simp add: receivePart_def fileWrite_def receivedCountOf_def example_defs)
  from T [where d = ?d1 and st = ?sa and m = 1 and q = 1 and content = "''abc''" and old = "''abc''"]
    wf1 r1 la ca
  have "staged (snd (receivePart 1 1 ''abc'' None ?sa)) 1 (''abc'' @ ''abc'')"
    and "receivedCountOf 1 (snd (receivePart 1 1 ''abc'' None ?sa)) = receivedCountOf 1 ?sa"
    and "snd (uploadChunkHandlerRClone ?d1 ?sa) = snd (receivePart 1 1 ''abc'' None ?sa)"
    by simp_all
  then have r2: "staged ?sb 1 ''abcabc''" and r3: "receivedCountOf 1 ?sb = 1"
    using la(3) by simp_all
  have lb: "fmlookup (uploadSessionsRClone ?sb) ''s1'' = Some 1"
    "FilePath (sessionsRClone ?sb 1) = ''/storage/big.bin''"
    "FilePath (sessionsRClone ?sb 1) \<noteq> Name (TempFile (sessionsRClone ?sb 1))"
    unfolding sb by (simp_all add: example_defs)
  have cb: "receivedCountOf 1 (snd (receivePart 1 2 ''de'' None ?sb)) = TotalPartsRClone (sessionsRClone ?sb 1)"
    unfolding sb by (simp add: receivePart_def fileWrite_def receivedCountOf_def example_defs)
  from T [where d = ?d2 and st = ?sb and m = 2 and q = 1 and content = "''de''" and old = "''abcabc''"]
    wf2 r2 lb(1) cb
  have "fst (uploadChunkHandlerRClone ?d2 ?sb) = Inr UploadCompleted"
    and "files (snd (uploadChunkHandlerRClone ?d2 ?sb)) (FilePath (sessionsRClone ?sb 1))
      = Some (''abcabc'' @ ''de'')"
    by simp_all
  then have r4: "fst (uploadChunkHandlerRClone ?d2 ?sb) = Inr UploadCompleted"
    and r5: "files (snd (uploadChunkHandlerRClone ?d2 ?sb)) ''/storage/big.bin'' = Some ''abcabcde''"
    using lb(2) by simp_all
  from T [where d = ?d3 and st = ?sb and m = 2 and q = 1 and content = "''de''" and old = "''abcabc''"]
    wf3 r2 lb(1) lb(3) cb
  have "fst (uploadChunkHandlerRClone ?d3 ?sb) = Inr UploadCompleted"
    and "files (snd (uploadChunkHandlerRClone ?d3 ?sb)) (FilePath (sessionsRClone ?sb 1))
      = Some (''abcabc'' @ ''de'')"
    by simp_all
  then have r6: "fst (uploadChunkHandlerRClone ?d3 ?sb) = Inr UploadCompleted"
    and r7: "files (snd (uploadChunkHandlerRClone ?d3 ?sb)) ''/storage/big.bin'' = Some ''abcabcde''"
    using lb(2) by simp_all
  from s0(1) r1 r2 r3 r4 r5 r6 r7 show ?thesis
    by blast
qed


section \<open>Assembly on the remote path\<close>

lemma serveAll_append:
  "serveAll lib (xs @ ys) st =
     (fst (serveAll lib xs st) @ fst (serveAll lib ys (snd (serveAll lib xs st))),
      snd (serveAll lib ys (snd (serveAll lib xs st))))"
  by (induction xs arbitrary: st) (simp_all add: serveAll_Cons del: serveAll.simps(2))

lemma completions_append:
  "length xs = length rs \<Longrightarrow>
   completions sid (xs @ ys) (rs @ rs') = completions sid xs rs + completions sid ys rs'"
  by (simp add: completions_def)

lemma succeeds_upload:
  assumes "fmlookup (uploadSessions st) sid = Some p" and "succeeds sid c"
  shows "uploadChunkHandler c st =
     afterRecord sid p (partNumberOf c)
       (len (fmupd (partNumberOf c) \<lparr>PartNumber = partNumberOf c, ETag = the (put_result c)\<rparr>
               (UploadedParts (sessions st p))))
       True
       (recordPart p (partNumberOf c) (the (put_result c))
          (st\<lparr>store := (store st)\<lparr>uploads := (uploads (store st))
             (UploadID (sessions st p) \<mapsto>
                (partsOf (store st) (UploadID (sessions st p)))(partNumberOf c \<mapsto> chunkOf c))\<rparr>\<rparr>))"
proof -
  from assms(2) obtain n content etag where c: "part_number c = Some n" "chunk c = Some content"
    "put_result c = Some etag" "cMethod c = ''POST''" "form_ok c" "session_id c = sid" "complete_ok c"
    by (auto simp: succeeds_def)
  have f: "findSession c st = Inr (p, n)"
    using assms(1) c by (simp add: findSession_def)
  have pp: "putPart c p n st = Inr (etag, st\<lparr>store := (store st)\<lparr>uploads := (uploads (store st))
             (UploadID (sessions st p) \<mapsto> (partsOf (store st) (UploadID (sessions st p)))(n \<mapsto> content))\<rparr>\<rparr>)"
    using c by (simp add: putPart_def PutObjectPart_def)
  show ?thesis
    using uploadChunkHandler_put [OF f pp] c
    by (simp add: partNumberOf_def chunkOf_def uploadedCountOf_def recordPart_def)
qed


lemma partsOf_put:
  "partsOf (s\<lparr>uploads := (uploads s)(u \<mapsto> (partsOf s u)(n \<mapsto> content))\<rparr>) u = (partsOf s u)(n \<mapsto> content)"
  by (simp add: partsOf_def)

lemma partBytes_fun:
  "partBytes s u = (\<lambda>part. case partsOf s u (PartNumber part) of None \<Rightarrow> [] | Some content \<Rightarrow> content)"
  by (rule ext) (simp add: partBytes_def)

lemma succeeds_progress:
  assumes l: "fmlookup (uploadSessions st) sid = Some p" and c: "succeeds sid c"
    and k: "len (fmupd (partNumberOf c) \<lparr>PartNumber = partNumberOf c, ETag = the (put_result c)\<rparr>
               (UploadedParts (sessions st p))) \<noteq> TotalParts (sessions st p)"
  shows "fst (uploadChunkHandler c st) \<noteq> Inr UploadCompleted"
    and "uploadSessions (snd (uploadChunkHandler c st)) = uploadSessions st"
    and "sessions (snd (uploadChunkHandler c st)) p =
      (sessions st p)\<lparr>UploadedParts :=
         fmupd (partNumberOf c) \<lparr>PartNumber = partNumberOf c, ETag = the (put_result c)\<rparr>
           (UploadedParts (sessions st p))\<rparr>"
    and "partsOf (store (snd (uploadChunkHandler c st))) (UploadID (sessions st p)) =
      (partsOf (store st) (UploadID (sessions st p)))(partNumberOf c \<mapsto> chunkOf c)"
  using k
  by (simp_all add: succeeds_upload [OF l c] afterRecord_def recordPart_def partsOf_put)

lemma succeeds_completes:
  assumes l: "fmlookup (uploadSessions st) sid = Some p" and c: "succeeds sid c"
    and k: "len (fmupd (partNumberOf c) \<lparr>PartNumber = partNumberOf c, ETag = the (put_result c)\<rparr>
               (UploadedParts (sessions st p))) = TotalParts (sessions st p)"
    and ne: "partsList ((sessions st p)\<lparr>UploadedParts :=
           fmupd (partNumberOf c) \<lparr>PartNumber = partNumberOf c, ETag = the (put_result c)\<rparr>
             (UploadedParts (sessions st p))\<rparr>) \<noteq> []"
  shows "fst (uploadChunkHandler c st) = Inr UploadCompleted"
    and "fmlookup (uploadSessions (snd (uploadChunkHandler c st))) sid = None"
    and "objects (store (snd (uploadChunkHandler c st))) (FileName (sessions st p)) =
      Some (concat (map
        (\<lambda>part. case ((partsOf (store st) (UploadID (sessions st p)))(partNumberOf c \<mapsto> chunkOf c))
                        (PartNumber part) of None \<Rightarrow> [] | Some content \<Rightarrow> content)
        (partsList ((sessions st p)\<lparr>UploadedParts :=
           fmupd (partNumberOf c) \<lparr>PartNumber = partNumberOf c, ETag = the (put_result c)\<rparr>
             (UploadedParts (sessions st p))\<rparr>))))"
  using k ne
  by (simp_all add: succeeds_upload [OF l c] afterRecord_def recordPart_def
      completeMultipartUpload_def CompleteMultipartUpload_def partBytes_fun partsOf_put Let_def)

lemma serveAll_Chunk:
  "serveAll lib (Chunk c # xs) st =
     (Some (fst (uploadChunkHandler c st)) # fst (serveAll lib xs (snd (uploadChunkHandler c st))),
      snd (serveAll lib xs (snd (uploadChunkHandler c st))))"
  by (simp add: serveAll_Cons serveCall_def replied_def del: serveAll.simps(2))

lemma partial_run:
  assumes "fmlookup (uploadSessions st) sid = Some p"
    and "\<forall>c \<in> set cs. succeeds sid c"
    and "distinct (map partNumberOf cs)"
    and "\<forall>c \<in> set cs. partNumberOf c |\<notin>| fmdom (UploadedParts (sessions st p))"
    and "len (UploadedParts (sessions st p)) + int (length cs) < TotalParts (sessions st p)"
    and "\<forall>i part. fmlookup (UploadedParts (sessions st p)) i = Some part \<longrightarrow> PartNumber part = i"
  shows "completions sid (map Chunk cs) (fst (serveAll lib (map Chunk cs) st)) = 0
    \<and> uploadSessions (snd (serveAll lib (map Chunk cs) st)) = uploadSessions st
    \<and> fmdom (UploadedParts (sessions (snd (serveAll lib (map Chunk cs) st)) p))
        = fmdom (UploadedParts (sessions st p)) |\<union>| fset_of_list (map partNumberOf cs)
    \<and> TotalParts (sessions (snd (serveAll lib (map Chunk cs) st)) p) = TotalParts (sessions st p)
    \<and> UploadID (sessions (snd (serveAll lib (map Chunk cs) st)) p) = UploadID (sessions st p)
    \<and> FileName (sessions (snd (serveAll lib (map Chunk cs) st)) p) = FileName (sessions st p)
    \<and> (\<forall>i part. fmlookup (UploadedParts (sessions (snd (serveAll lib (map Chunk cs) st)) p)) i = Some part
          \<longrightarrow> PartNumber part = i)
    \<and> partsOf (store (snd (serveAll lib (map Chunk cs) st))) (UploadID (sessions st p))
        = partsOf (store st) (UploadID (sessions st p)) ++ map_of (map (\<lambda>c. (partNumberOf c, chunkOf c)) cs)"
  using assms
proof (induction cs arbitrary: st)
  case Nil
  then show ?case by (simp add: completions_Nil)
next
  case (Cons c cs)
  let ?n = "partNumberOf c"
  let ?part = "\<lparr>PartNumber = ?n, ETag = the (put_result c)\<rparr>"
  let ?st1 = "snd (uploadChunkHandler c st)"
  have l: "fmlookup (uploadSessions st) sid = Some p" and c: "succeeds sid c"
    using Cons.prems by simp_all
  have new: "?n |\<notin>| fmdom (UploadedParts (sessions st p))"
    using Cons.prems(4) by simp
  then have len1: "len (fmupd ?n ?part (UploadedParts (sessions st p))) = len (UploadedParts (sessions st p)) + 1"
    by (simp add: len_fmupd)
  with Cons.prems(5) have k: "len (fmupd ?n ?part (UploadedParts (sessions st p))) \<noteq> TotalParts (sessions st p)"
    by simp
  note step = succeeds_progress [OF l c k]
  have s1: "sessions ?st1 p = (sessions st p)\<lparr>UploadedParts := fmupd ?n ?part (UploadedParts (sessions st p))\<rparr>"
    by (rule step(3))
  have IH: "completions sid (map Chunk cs) (fst (serveAll lib (map Chunk cs) ?st1)) = 0
    \<and> uploadSessions (snd (serveAll lib (map Chunk cs) ?st1)) = uploadSessions ?st1
    \<and> fmdom (UploadedParts (sessions (snd (serveAll lib (map Chunk cs) ?st1)) p))
        = fmdom (UploadedParts (sessions ?st1 p)) |\<union>| fset_of_list (map partNumberOf cs)
    \<and> TotalParts (sessions (snd (serveAll lib (map Chunk cs) ?st1)) p) = TotalParts (sessions ?st1 p)
    \<and> UploadID (sessions (snd (serveAll lib (map Chunk cs) ?st1)) p) = UploadID (sessions ?st1 p)
    \<and> FileName (sessions (snd (serveAll lib (map Chunk cs) ?st1)) p) = FileName (sessions ?st1 p)
    \<and> (\<forall>i part. fmlookup (UploadedParts (sessions (snd (serveAll lib (map Chunk cs) ?st1)) p)) i = Some part
          \<longrightarrow> PartNumber part = i)
    \<and> partsOf (store (snd (serveAll lib (map Chunk cs) ?st1))) (UploadID (sessions ?st1 p))
        = partsOf (store ?st1) (UploadID (sessions ?st1 p)) ++ map_of (map (\<lambda>c. (partNumberOf c, chunkOf c)) cs)"
  proof (rule Cons.IH)
    show "fmlookup (uploadSessions ?st1) sid = Some p"
      using l by (simp add: step(2))
    show "\<forall>c \<in> set cs. succeeds sid c"
      using Cons.prems(2) by simp
    show "distinct (map partNumberOf cs)"
      using Cons.prems(3) by simp
    have "?n \<notin> partNumberOf ` set cs"
      using Cons.prems(3) by simp
    then have "\<forall>c' \<in> set cs. partNumberOf c' \<noteq> ?n"
      by (metis imageI)
    then show "\<forall>c' \<in> set cs. partNumberOf c' |\<notin>| fmdom (UploadedParts (sessions ?st1 p))"
      using Cons.prems(4) by (simp add: s1)
    show "len (UploadedParts (sessions ?st1 p)) + int (length cs) < TotalParts (sessions ?st1 p)"
      using Cons.prems(5) len1 by (simp add: s1)
    show "\<forall>i part. fmlookup (UploadedParts (sessions ?st1 p)) i = Some part \<longrightarrow> PartNumber part = i"
      using Cons.prems(6) by (auto simp: s1)
  qed
  have notin: "?n \<notin> dom (map_of (map (\<lambda>c. (partNumberOf c, chunkOf c)) cs))"
    using Cons.prems(3) by (auto simp: dom_map_of_conv_image_fst image_iff)
  have parts: "(partsOf (store st) (UploadID (sessions st p)))(?n \<mapsto> chunkOf c)
        ++ map_of (map (\<lambda>c. (partNumberOf c, chunkOf c)) cs)
      = partsOf (store st) (UploadID (sessions st p))
        ++ map_of (map (\<lambda>c. (partNumberOf c, chunkOf c)) (c # cs))"
    using notin by (simp add: map_add_upd_left)
  let ?rest = "serveAll lib (map Chunk cs) ?st1"
  have e: "serveAll lib (map Chunk (c # cs)) st = (Some (fst (uploadChunkHandler c st)) # fst ?rest, snd ?rest)"
    by (simp add: serveAll_Chunk del: serveAll.simps(2))
  have reply: "fst (uploadChunkHandler c st) \<noteq> Inr UploadCompleted"
    using step(1) by auto
  have u1: "UploadID (sessions ?st1 p) = UploadID (sessions st p)"
    and t1: "TotalParts (sessions ?st1 p) = TotalParts (sessions st p)"
    and f1: "FileName (sessions ?st1 p) = FileName (sessions st p)"
    and d1: "fmdom (UploadedParts (sessions ?st1 p)) = finsert ?n (fmdom (UploadedParts (sessions st p)))"
    by (simp_all add: s1)
  have c1: "completions sid (map Chunk (c # cs)) (fst (serveAll lib (map Chunk (c # cs)) st)) = 0"
    using IH reply unfolding e by (simp add: completions_Cons)
  have c2: "uploadSessions (snd (serveAll lib (map Chunk (c # cs)) st)) = uploadSessions st"
    using IH unfolding e by (simp add: step(2))
  have c3: "fmdom (UploadedParts (sessions (snd (serveAll lib (map Chunk (c # cs)) st)) p))
        = fmdom (UploadedParts (sessions st p)) |\<union>| fset_of_list (map partNumberOf (c # cs))"
    using IH unfolding e by (simp add: d1)
  have c4: "TotalParts (sessions (snd (serveAll lib (map Chunk (c # cs)) st)) p) = TotalParts (sessions st p)"
    and c5: "UploadID (sessions (snd (serveAll lib (map Chunk (c # cs)) st)) p) = UploadID (sessions st p)"
    and c6: "FileName (sessions (snd (serveAll lib (map Chunk (c # cs)) st)) p) = FileName (sessions st p)"
    using IH unfolding e by (simp_all add: u1 t1 f1)
  have c7: "\<forall>i part. fmlookup (UploadedParts (sessions (snd (serveAll lib (map Chunk (c # cs)) st)) p)) i = Some part
          \<longrightarrow> PartNumber part = i"
    using IH unfolding e by simp
  have "partsOf (store (snd ?rest)) (UploadID (sessions st p))
      = partsOf (store ?st1) (UploadID (sessions st p)) ++ map_of (map (\<lambda>c. (partNumberOf c, chunkOf c)) cs)"
    using IH by (simp only: u1)
  also have "\<dots> = (partsOf (store st) (UploadID (sessions st p)))(?n \<mapsto> chunkOf c)
      ++ map_of (map (\<lambda>c. (partNumberOf c, chunkOf c)) cs)"
    by (simp only: step(4))
  also note parts
  finally have c8: "partsOf (store (snd (serveAll lib (map Chunk (c # cs)) st))) (UploadID (sessions st p))
        = partsOf (store st) (UploadID (sessions st p))
          ++ map_of (map (\<lambda>c. (partNumberOf c, chunkOf c)) (c # cs))"
    unfolding e by simp
  from c1 c2 c3 c4 c5 c6 c7 c8 show ?case
    by blast
qed

lemma sentAs_own:
  assumes "distinct (map partNumberOf cs)" and "c \<in> set cs"
  shows "sentAs cs (partNumberOf c) = chunkOf c"
proof -
  have "distinct (map fst (map (\<lambda>c. (partNumberOf c, chunkOf c)) cs))"
    using assms(1) by (simp add: comp_def)
  moreover have "(partNumberOf c, chunkOf c) \<in> set (map (\<lambda>c. (partNumberOf c, chunkOf c)) cs)"
    using assms(2) by auto
  ultimately have "map_of (map (\<lambda>c. (partNumberOf c, chunkOf c)) cs) (partNumberOf c) = Some (chunkOf c)"
    by (rule map_of_is_SomeI)
  then show ?thesis
    by (simp add: sentAs_def)
qed

lemma sentAs_length:
  assumes d: "distinct (map partNumberOf cs)" and cov: "set (map partNumberOf cs) = {1..n}"
  shows "length (concat (map (sentAs cs) [1..n])) = sum_list (map (\<lambda>c. length (chunkOf c)) cs)"
proof -
  have "sum_list (map (\<lambda>c. length (chunkOf c)) cs)
      = sum_list (map (\<lambda>c. length (sentAs cs (partNumberOf c))) cs)"
    using sentAs_own [OF d] by (simp cong: map_cong)
  also have "\<dots> = sum_list (map (\<lambda>i. length (sentAs cs i)) (map partNumberOf cs))"
    by (simp add: comp_def)
  also have "\<dots> = sum (\<lambda>i. length (sentAs cs i)) (set (map partNumberOf cs))"
    using d by (rule sum_list_distinct_conv_sum_set)
  also have "\<dots> = sum (\<lambda>i. length (sentAs cs i)) (set [1..n])"
    by (simp only: cov set_upto)
  also have "\<dots> = sum_list (map (\<lambda>i. length (sentAs cs i)) [1..n])"
    by (rule sum_list_distinct_conv_sum_set [symmetric]) simp
  finally show ?thesis
    by (simp add: length_concat comp_def)
qed

lemma sentAs_set:
  assumes "distinct (map partNumberOf cs)" and "distinct (map partNumberOf cs')" and "set cs' = set cs"
  shows "sentAs cs' = sentAs cs"
proof -
  let ?f = "\<lambda>c. (partNumberOf c, chunkOf c)"
  have "map_of (map ?f cs') = map_of (map ?f cs)"
  proof (rule map_of_inject_set [THEN iffD2])
    show "distinct (map fst (map ?f cs'))" using assms(2) by (simp add: comp_def)
    show "distinct (map fst (map ?f cs))" using assms(1) by (simp add: comp_def)
    show "set (map ?f cs') = set (map ?f cs)" using assms(3) by simp
  qed
  then show ?thesis
    by (simp add: sentAs_def fun_eq_iff)
qed

lemma len_fset_of_list:
  "distinct xs \<Longrightarrow> int (fcard (fset_of_list xs)) = int (length xs)"
  by (simp add: fcard.rep_eq fset_of_list.rep_eq distinct_card)

lemma full_run:
  assumes l: "fmlookup (uploadSessions st) sid = Some p"
    and e: "UploadedParts (sessions st p) = fmempty"
    and n: "1 \<le> TotalParts (sessions st p)"
    and s: "\<forall>c \<in> set cs. succeeds sid c"
    and d: "distinct (map partNumberOf cs)"
    and cov: "set (map partNumberOf cs) = {1..TotalParts (sessions st p)}"
  shows "completions sid (map Chunk cs) (fst (serveAll lib (map Chunk cs) st)) = 1"
    and "last (fst (serveAll lib (map Chunk cs) st)) = Some (Inr UploadCompleted)"
    and "fmlookup (uploadSessions (snd (serveAll lib (map Chunk cs) st))) sid = None"
    and "objects (store (snd (serveAll lib (map Chunk cs) st))) (FileName (sessions st p))
          = Some (concat (map (sentAs cs) [1..TotalParts (sessions st p)]))"
proof -
  let ?N = "TotalParts (sessions st p)"
  let ?f = "\<lambda>c. (partNumberOf c, chunkOf c)"
  have "length (map partNumberOf cs) = card (set (map partNumberOf cs))"
    using d by (rule distinct_card [symmetric])
  also have "\<dots> = card {1..?N}"
    by (simp only: cov)
  finally have lcs: "int (length cs) = ?N"
    using n by simp
  then have "cs \<noteq> []"
    using n by auto
  then obtain bs c where cs: "cs = bs @ [c]"
    by (meson rev_exhaust)
  let ?n = "partNumberOf c"
  let ?part = "\<lparr>PartNumber = ?n, ETag = the (put_result c)\<rparr>"
  let ?st' = "snd (serveAll lib (map Chunk bs) st)"
  have sc: "succeeds sid c" and sbs: "\<forall>c \<in> set bs. succeeds sid c"
    using s by (simp_all add: cs)
  have dbs: "distinct (map partNumberOf bs)" and nbs: "?n \<notin> set (map partNumberOf bs)"
    using d by (simp_all add: cs)
  have run: "completions sid (map Chunk bs) (fst (serveAll lib (map Chunk bs) st)) = 0
    \<and> uploadSessions ?st' = uploadSessions st
    \<and> fmdom (UploadedParts (sessions ?st' p))
        = fmdom (UploadedParts (sessions st p)) |\<union>| fset_of_list (map partNumberOf bs)
    \<and> TotalParts (sessions ?st' p) = TotalParts (sessions st p)
    \<and> UploadID (sessions ?st' p) = UploadID (sessions st p)
    \<and> FileName (sessions ?st' p) = FileName (sessions st p)
    \<and> (\<forall>i part. fmlookup (UploadedParts (sessions ?st' p)) i = Some part \<longrightarrow> PartNumber part = i)
    \<and> partsOf (store ?st') (UploadID (sessions st p))
        = partsOf (store st) (UploadID (sessions st p)) ++ map_of (map ?f bs)"
  proof (rule partial_run [OF l sbs dbs])
    show "\<forall>c \<in> set bs. partNumberOf c |\<notin>| fmdom (UploadedParts (sessions st p))"
      by (simp add: e)
    show "len (UploadedParts (sessions st p)) + int (length bs) < TotalParts (sessions st p)"
      using lcs by (simp add: e cs len_fmempty)
    show "\<forall>i part. fmlookup (UploadedParts (sessions st p)) i = Some part \<longrightarrow> PartNumber part = i"
      by (simp add: e)
  qed
  then have r0: "completions sid (map Chunk bs) (fst (serveAll lib (map Chunk bs) st)) = 0"
    and r1: "uploadSessions ?st' = uploadSessions st"
    and r2: "fmdom (UploadedParts (sessions ?st' p)) = fset_of_list (map partNumberOf bs)"
    and r3: "TotalParts (sessions ?st' p) = ?N"
    and r4: "UploadID (sessions ?st' p) = UploadID (sessions st p)"
    and r5: "FileName (sessions ?st' p) = FileName (sessions st p)"
    and r6: "\<And>i part. fmlookup (UploadedParts (sessions ?st' p)) i = Some part \<Longrightarrow> PartNumber part = i"
    and r7: "partsOf (store ?st') (UploadID (sessions st p))
        = partsOf (store st) (UploadID (sessions st p)) ++ map_of (map ?f bs)"
    by (simp_all add: e)
  have l': "fmlookup (uploadSessions ?st') sid = Some p"
    using l by (simp add: r1)
  have fresh: "?n |\<notin>| fmdom (UploadedParts (sessions ?st' p))"
    using nbs by (simp add: r2 fset_of_list.rep_eq)
  have "len (UploadedParts (sessions ?st' p)) = int (fcard (fset_of_list (map partNumberOf bs)))"
    by (simp only: len_def r2)
  also have "\<dots> = int (length (map partNumberOf bs))"
    using dbs by (rule len_fset_of_list)
  finally have "len (UploadedParts (sessions ?st' p)) = int (length bs)"
    by simp
  then have k: "len (fmupd ?n ?part (UploadedParts (sessions ?st' p))) = TotalParts (sessions ?st' p)"
    using fresh lcs by (simp add: len_fmupd r3 cs)
  let ?U = "fmupd ?n ?part (UploadedParts (sessions ?st' p))"
  let ?s = "(sessions ?st' p)\<lparr>UploadedParts := ?U\<rparr>"
  have dom: "\<And>i. i |\<in>| fmdom ?U \<longleftrightarrow> i \<in> {1..?N}"
    using cov by (auto simp: r2 cs fset_of_list.rep_eq)
  have "\<forall>i \<in> set [1..?N]. i |\<in>| fmdom ?U"
    unfolding dom by simp
  then have "filter (\<lambda>i. i |\<in>| fmdom ?U) [1..?N] = [1..?N]"
    by (rule filter_True)
  then have pl: "partsList ?s = map (\<lambda>i. the (fmlookup ?U i)) [1..?N]"
    by (simp add: partsList_eq r3)
  have "[1..?N] \<noteq> []"
    using n by (simp add: upto_rec1)
  then have ne: "partsList ?s \<noteq> []"
    by (simp only: pl map_is_Nil_conv not_False_eq_True)
  note fin = succeeds_completes [OF l' sc k ne]
  have whole: "serveAll lib (map Chunk cs) st =
      (fst (serveAll lib (map Chunk bs) st) @ [Some (fst (uploadChunkHandler c ?st'))],
       snd (uploadChunkHandler c ?st'))"
    by (simp add: cs serveAll_append serveAll_Chunk del: serveAll.simps(2))
  have sid: "session_id c = sid"
    using sc by (simp add: succeeds_def)
  have "completions sid (map Chunk bs @ [Chunk c])
          (fst (serveAll lib (map Chunk bs) st) @ [Some (fst (uploadChunkHandler c ?st'))])
      = completions sid (map Chunk bs) (fst (serveAll lib (map Chunk bs) st))
        + completions sid [Chunk c] [Some (fst (uploadChunkHandler c ?st'))]"
    by (rule completions_append) (simp add: length_serveAll)
  moreover have "completions sid [Chunk c] [Some (Inr UploadCompleted)] = 1"
    by (simp add: completions_def isChunkFor_def sid)
  moreover have "map Chunk cs = map Chunk bs @ [Chunk c]"
    by (simp add: cs)
  moreover have "fst (serveAll lib (map Chunk cs) st)
      = fst (serveAll lib (map Chunk bs) st) @ [Some (fst (uploadChunkHandler c ?st'))]"
    by (simp only: whole fst_conv)
  ultimately show "completions sid (map Chunk cs) (fst (serveAll lib (map Chunk cs) st)) = 1"
    by (simp only: r0 fin(1))
  show "last (fst (serveAll lib (map Chunk cs) st)) = Some (Inr UploadCompleted)"
    by (simp add: whole fin(1))
  show "fmlookup (uploadSessions (snd (serveAll lib (map Chunk cs) st))) sid = None"
    by (simp add: whole fin(2))
  let ?M = "(partsOf (store ?st') (UploadID (sessions ?st' p)))(?n \<mapsto> chunkOf c)"
  let ?g = "\<lambda>part. case ?M (PartNumber part) of None \<Rightarrow> [] | Some content \<Rightarrow> content"
  have each: "?g (the (fmlookup ?U i)) = sentAs cs i" if i: "i \<in> {1..?N}" for i
  proof (cases "i = ?n")
    case True
    have "sentAs cs ?n = chunkOf c"
      by (rule sentAs_own [OF d]) (simp add: cs)
    with True show ?thesis
      by simp
  next
    case False
    from i have "i |\<in>| fmdom ?U"
      by (simp only: dom)
    with False have "i |\<in>| fmdom (UploadedParts (sessions ?st' p))"
      by simp
    then obtain part where part: "fmlookup (UploadedParts (sessions ?st' p)) i = Some part"
      by (auto simp: fmlookup_dom_iff)
    then have pn: "PartNumber part = i"
      by (rule r6)
    from i False have "i \<in> set (map partNumberOf bs)"
      using cov by (auto simp: cs)
    then obtain b where b: "b \<in> set bs" "partNumberOf b = i"
      by auto
    have "map_of (map ?f bs) (partNumberOf b) = Some (chunkOf b)"
      by (rule map_of_is_SomeI) (use dbs b in \<open>auto simp: comp_def\<close>)
    then have m: "map_of (map ?f bs) i = Some (chunkOf b)"
      by (simp add: b)
    have "sentAs cs (partNumberOf b) = chunkOf b"
      by (rule sentAs_own [OF d]) (simp add: cs b)
    then have "sentAs cs i = chunkOf b"
      by (simp add: b)
    with False part pn m show ?thesis
      by (simp add: r4 r7 map_add_def)
  qed
  have "map ?g (partsList ?s) = map (sentAs cs) [1..?N]"
    using each by (simp add: pl comp_def cong: map_cong)
  then show "objects (store (snd (serveAll lib (map Chunk cs) st))) (FileName (sessions st p))
          = Some (concat (map (sentAs cs) [1..?N]))"
    using fin(3) by (simp add: whole r5)
qed

text \<open>
  C5. A remote session registered for \<open>N \<ge> 1\<close> parts with nothing recorded yet is sent
  chunk uploads \<open>cs\<close> whose part numbers are exactly \<open>1..N\<close>, each once, in any
  order, one after the other, and every call to the store succeeds. Then exactly one of
  the uploads is answered \<open>UploadCompleted\<close>, it is the last one, the session is removed,
  and the object stored under the session's key is the concatenation of the chunks in
  part-number order: its length is the sum of the chunk lengths. Any other order \<open>cs'\<close>
  of the same uploads leaves the same object.
\<close>

theorem remote_assembly_order_independent:
  assumes "fmlookup (uploadSessions st) sid = Some p"
    and "UploadedParts (sessions st p) = fmempty"
    and "1 \<le> TotalParts (sessions st p)"
    and "\<forall>c \<in> set cs. succeeds sid c"
    and "distinct (map partNumberOf cs)"
    and "set (map partNumberOf cs) = {1..TotalParts (sessions st p)}"
    and "set cs' = set cs"
    and "distinct (map partNumberOf cs')"
  shows "completions sid (map Chunk cs) (fst (serveAll lib (map Chunk cs) st)) = 1
    \<and> last (fst (serveAll lib (map Chunk cs) st)) = Some (Inr UploadCompleted)
    \<and> fmlookup (uploadSessions (snd (serveAll lib (map Chunk cs) st))) sid = None
    \<and> objects (store (snd (serveAll lib (map Chunk cs) st))) (FileName (sessions st p))
        = Some (concat (map (sentAs cs) [1..TotalParts (sessions st p)]))
    \<and> length (concat (map (sentAs cs) [1..TotalParts (sessions st p)]))
        = sum_list (map (\<lambda>c. length (chunkOf c)) cs)
    \<and> objects (store (snd (serveAll lib (map Chunk cs') st))) (FileName (sessions st p))
        = objects (store (snd (serveAll lib (map Chunk cs) st))) (FileName (sessions st p))"
proof -
  note a = full_run [OF assms(1-6), of lib]
  have s': "\<forall>c \<in> set cs'. succeeds sid c"
    using assms(4) by (simp only: assms(7))
  have "set (map partNumberOf cs') = set (map partNumberOf cs)"
    by (simp add: assms(7))
  then have cov': "set (map partNumberOf cs') = {1..TotalParts (sessions st p)}"
    by (simp only: assms(6))
  note b = full_run [OF assms(1-3) s' assms(8) cov', of lib]
  have same: "sentAs cs' = sentAs cs"
    using assms(5,8,7) by (rule sentAs_set)
  have len: "length (concat (map (sentAs cs) [1..TotalParts (sessions st p)]))
        = sum_list (map (\<lambda>c. length (chunkOf c)) cs)"
    using assms(5,6) by (rule sentAs_length)
  from a b(4) len show ?thesis
    by (simp only: same simp_thms)
qed

theorem remote_assembly_order_independent_witness:
  "completions ''s1''
      (map Chunk [chunkCall ''s1'' 2 ''def'' True, chunkCall ''s1'' 1 ''abc'' True, chunkCall ''s1'' 3 ''gh'' True])
      (fst (serveAll unixlib
         (map Chunk [chunkCall ''s1'' 2 ''def'' True, chunkCall ''s1'' 1 ''abc'' True, chunkCall ''s1'' 3 ''gh'' True])
         (exampleServer 3))) = 1
   \<and> objects (store (snd (serveAll unixlib
         (map Chunk [chunkCall ''s1'' 2 ''def'' True, chunkCall ''s1'' 1 ''abc'' True, chunkCall ''s1'' 3 ''gh'' True])
         (exampleServer 3)))) ''big.bin'' = Some ''abcdefgh''
   \<and> objects (store (snd (serveAll unixlib
         (map Chunk [chunkCall ''s1'' 3 ''gh'' True, chunkCall ''s1'' 2 ''def'' True, chunkCall ''s1'' 1 ''abc'' True])
         (exampleServer 3)))) ''big.bin'' = Some ''abcdefgh''
   \<and> length ''abcdefgh'' = length ''def'' + length ''abc'' + length ''gh''"
proof -
  let ?cs = "[chunkCall ''s1'' 2 ''def'' True, chunkCall ''s1'' 1 ''abc'' True, chunkCall ''s1'' 3 ''gh'' True]"
  let ?cs' = "[chunkCall ''s1'' 3 ''gh'' True, chunkCall ''s1'' 2 ''def'' True, chunkCall ''s1'' 1 ''abc'' True]"
  let ?st = "exampleServer 3"
  have l: "fmlookup (uploadSessions ?st) ''s1'' = Some 0"
    by (simp add: exampleServer_def)
  have s: "sessions ?st 0 = remoteSession 3"
    by (simp add: exampleServer_def)
  have e: "UploadedParts (sessions ?st 0) = fmempty" and n: "TotalParts (sessions ?st 0) = 3"
    and f: "FileName (sessions ?st 0) = ''big.bin''"
    by (simp_all add: s remoteSession_def)
  have n1: "1 \<le> TotalParts (sessions ?st 0)"
    by (simp add: n)
  have pn: "map partNumberOf ?cs = [2, 1, 3]" "map partNumberOf ?cs' = [3, 2, 1]"
    by (simp_all add: partNumberOf_def chunkCall_def)
  have ok: "\<forall>c \<in> set ?cs. succeeds ''s1'' c"
    by (simp add: succeeds_def chunkCall_def)
  have d: "distinct (map partNumberOf ?cs)" and d': "distinct (map partNumberOf ?cs')"
    by (simp_all only: pn) simp_all
  have "{1..3::int} = {2, 1, 3}"
    by auto
  then have cov: "set (map partNumberOf ?cs) = {1..TotalParts (sessions ?st 0)}"
    by (simp only: pn n) simp
  have perm: "set ?cs' = set ?cs"
    by auto
  have up: "[1..3::int] = [1, 2, 3]"
    by (simp add: upto_rec1 upto_rec_numeral)
  have sent: "concat (map (sentAs ?cs) [1..TotalParts (sessions ?st 0)]) = ''abcdefgh''"
    by (simp add: n up sentAs_def partNumberOf_def chunkOf_def chunkCall_def)
  from remote_assembly_order_independent [OF l e n1 ok d cov perm d', of unixlib]
  show ?thesis
    by (simp only: sent f) simp
qed


section \<open>Finalize and the session lock\<close>

lemma stepThread_Arrived:
  "pool cfg t = Some (Arrived c) \<Longrightarrow>
   stepThread t cfg =
     (case findSession c (shared cfg) of
        Inl e \<Rightarrow> cfg\<lparr>pool := (pool cfg)(t \<mapsto> Done (Inl e))\<rparr>
      | Inr (p, n) \<Rightarrow> cfg\<lparr>pool := (pool cfg)(t \<mapsto> Found c p n)\<rparr>)"
  by (simp add: stepThread_def)

lemma stepThread_Found:
  "pool cfg t = Some (Found c p n) \<Longrightarrow>
   stepThread t cfg =
     (case putPart c p n (shared cfg) of
        Inl e \<Rightarrow> cfg\<lparr>pool := (pool cfg)(t \<mapsto> Done (Inl e))\<rparr>
      | Inr (etag, st') \<Rightarrow> cfg\<lparr>shared := st', pool := (pool cfg)(t \<mapsto> Stored c p n etag)\<rparr>)"
  by (simp add: stepThread_def)

lemma stepThread_Stored:
  "pool cfg t = Some (Stored c p n etag) \<Longrightarrow>
   stepThread t cfg =
     (case mu cfg p of
        Some holder \<Rightarrow> cfg
      | None \<Rightarrow> cfg\<lparr>mu := (mu cfg)(p \<mapsto> t), pool := (pool cfg)(t \<mapsto> Locked c p n etag)\<rparr>)"
  by (simp add: stepThread_def)

lemma stepThread_Locked:
  "pool cfg t = Some (Locked c p n etag) \<Longrightarrow>
   stepThread t cfg =
     cfg\<lparr>shared := recordPart p n etag (shared cfg),
         mu := (mu cfg)(p := None),
         pool := (pool cfg)(t \<mapsto> Counted c p n (uploadedCountOf p (recordPart p n etag (shared cfg))))\<rparr>"
  by (simp add: stepThread_def Let_def)

lemma stepThread_Counted:
  "pool cfg t = Some (Counted c p n k) \<Longrightarrow>
   stepThread t cfg =
     cfg\<lparr>shared := snd (afterRecord (session_id c) p n k (complete_ok c) (shared cfg)),
         pool := (pool cfg)(t \<mapsto> Done (fst (afterRecord (session_id c) p n k (complete_ok c) (shared cfg)))),
         finalizes :=
           (if k = TotalParts (sessions (shared cfg) p)
            then finalizes cfg @ [(t, session_id c, mu cfg p = Some t)]
            else finalizes cfg)\<rparr>"
  by (simp add: stepThread_def split: prod.splits)

lemma stepThread_ArrivedRClone:
  "pool cfg t = Some (ArrivedRClone c) \<Longrightarrow>
   stepThread t cfg =
     (case findSessionRClone c (shared cfg) of
        Inl e \<Rightarrow> cfg\<lparr>pool := (pool cfg)(t \<mapsto> Done (Inl e))\<rparr>
      | Inr (p, n) \<Rightarrow> cfg\<lparr>pool := (pool cfg)(t \<mapsto> FoundRClone c p n)\<rparr>)"
  by (simp add: stepThread_def)

lemma stepThread_FoundRClone:
  "pool cfg t = Some (FoundRClone c p n) \<Longrightarrow>
   stepThread t cfg =
     (case chunk c of
        None \<Rightarrow> cfg\<lparr>pool := (pool cfg)(t \<mapsto> Done (Inl FailedToGetChunkFile))\<rparr>
      | Some file \<Rightarrow> cfg\<lparr>pool := (pool cfg)(t \<mapsto> ReadyRClone c p n file)\<rparr>)"
  by (simp add: stepThread_def)

lemma stepThread_ReadyRClone:
  "pool cfg t = Some (ReadyRClone c p n file) \<Longrightarrow>
   stepThread t cfg =
     (case muRClone cfg p of
        Some holder \<Rightarrow> cfg
      | None \<Rightarrow> cfg\<lparr>muRClone := (muRClone cfg)(p \<mapsto> t),
                     pool := (pool cfg)(t \<mapsto> LockedRClone c p n file)\<rparr>)"
  by (simp add: stepThread_def)

lemma stepThread_LockedRClone:
  "pool cfg t = Some (LockedRClone c p n file) \<Longrightarrow>
   stepThread t cfg =
     cfg\<lparr>shared := snd (receivePart p n file (write_error c) (shared cfg)),
         muRClone := (muRClone cfg)(p := None),
         pool := (pool cfg)(t \<mapsto> CountedRClone c p n
                   (fst (receivePart p n file (write_error c) (shared cfg)))
                   (receivedCountOf p (snd (receivePart p n file (write_error c) (shared cfg)))))\<rparr>"
  by (simp add: stepThread_def split: prod.splits)

lemma stepThread_CountedRClone:
  "pool cfg t = Some (CountedRClone c p n written k) \<Longrightarrow>
   stepThread t cfg =
     cfg\<lparr>shared := snd (afterReceive (session_id c) p n written k c (shared cfg)),
         pool := (pool cfg)(t \<mapsto> Done (fst (afterReceive (session_id c) p n written k c (shared cfg)))),
         finalizesRClone :=
           (if written \<and> k = TotalPartsRClone (sessionsRClone (shared cfg) p)
            then finalizesRClone cfg @ [(t, session_id c, muRClone cfg p = Some t)]
            else finalizesRClone cfg)\<rparr>"
  by (simp add: stepThread_def split: prod.splits)

lemma stepThread_Done: "pool cfg t = Some (Done r) \<Longrightarrow> stepThread t cfg = cfg"
  by (simp add: stepThread_def)


text \<open>The positions of the local-staging handler make up the handler.\<close>

lemma uploadChunkHandlerRClone_steps:
  "uploadChunkHandlerRClone c st =
     (case findSessionRClone c st of
        Inl e \<Rightarrow> (Inl e, st)
      | Inr (p, n) \<Rightarrow>
          (case chunk c of
             None \<Rightarrow> (Inl FailedToGetChunkFile, st)
           | Some file \<Rightarrow>
               afterReceive (session_id c) p n
                 (fst (receivePart p n file (write_error c) st))
                 (receivedCountOf p (snd (receivePart p n file (write_error c) st)))
                 c (snd (receivePart p n file (write_error c) st))))"
  by (simp add: uploadChunkHandlerRClone_def findSessionRClone_def afterReceive_def Let_def
      split: option.splits prod.splits)

text \<open>A thread that runs alone does what the handler does.\<close>

lemma alone_agrees:
  assumes "pool cfg t = Some (Arrived c)" and "mu cfg = Map.empty"
  shows "shared (runSchedule [t, t, t, t, t] cfg) = snd (uploadChunkHandler c (shared cfg))"
    and "pool (runSchedule [t, t, t, t, t] cfg) t = Some (Done (fst (uploadChunkHandler c (shared cfg))))"
proof -
  have "shared (runSchedule [t, t, t, t, t] cfg) = snd (uploadChunkHandler c (shared cfg)) \<and>
    pool (runSchedule [t, t, t, t, t] cfg) t = Some (Done (fst (uploadChunkHandler c (shared cfg))))"
  proof (cases c "shared cfg" rule: uploadChunkHandler_cases)
    case (not_found e)
    then show ?thesis
      using assms
      by (simp add: runSchedule_def stepThread_Arrived stepThread_Done)
  next
    case (not_put p n e)
    then show ?thesis
      using assms
      by (simp add: runSchedule_def stepThread_Arrived stepThread_Found stepThread_Done)
  next
    case (put p n etag st1)
    then show ?thesis
      using assms
      by (simp add: runSchedule_def stepThread_Arrived stepThread_Found stepThread_Stored
          stepThread_Locked stepThread_Counted)
  qed
  then show "shared (runSchedule [t, t, t, t, t] cfg) = snd (uploadChunkHandler c (shared cfg))"
    and "pool (runSchedule [t, t, t, t, t] cfg) t = Some (Done (fst (uploadChunkHandler c (shared cfg))))"
    by simp_all
qed

lemma alone_agrees_RClone:
  assumes "pool cfg t = Some (ArrivedRClone c)" and "muRClone cfg = Map.empty"
  shows "shared (runSchedule [t, t, t, t, t] cfg) = snd (uploadChunkHandlerRClone c (shared cfg))"
    and "pool (runSchedule [t, t, t, t, t] cfg) t
          = Some (Done (fst (uploadChunkHandlerRClone c (shared cfg))))"
proof -
  have "shared (runSchedule [t, t, t, t, t] cfg) = snd (uploadChunkHandlerRClone c (shared cfg)) \<and>
    pool (runSchedule [t, t, t, t, t] cfg) t = Some (Done (fst (uploadChunkHandlerRClone c (shared cfg))))"
  proof (cases "findSessionRClone c (shared cfg)")
    case (Inl e)
    then show ?thesis
      using assms
      by (simp add: runSchedule_def stepThread_ArrivedRClone stepThread_Done uploadChunkHandlerRClone_steps)
  next
    case (Inr pn)
    obtain p n where pn: "pn = (p, n)" by (cases pn)
    show ?thesis
    proof (cases "chunk c")
      case None
      with Inr pn show ?thesis
        using assms
        by (simp add: runSchedule_def stepThread_ArrivedRClone stepThread_FoundRClone stepThread_Done
            uploadChunkHandlerRClone_steps)
    next
      case (Some content)
      with Inr pn show ?thesis
        using assms
        by (simp add: runSchedule_def stepThread_ArrivedRClone stepThread_FoundRClone
            stepThread_ReadyRClone stepThread_LockedRClone stepThread_CountedRClone
            uploadChunkHandlerRClone_steps)
    qed
  qed
  then show "shared (runSchedule [t, t, t, t, t] cfg) = snd (uploadChunkHandlerRClone c (shared cfg))"
    and "pool (runSchedule [t, t, t, t, t] cfg) t
          = Some (Done (fst (uploadChunkHandlerRClone c (shared cfg))))"
    by simp_all
qed



section \<open>Overlapping uploads of distinct parts\<close>











section \<open>Overlapping uploads of distinct parts, local-staging path\<close>





















end
